theory Spec2Isabelle
  imports Main "HOL-Library.Word" "HOL-Library.Multiset" "HOL-Library.AList"
    "HOL-Library.Sublist"
begin

section \<open>Data model of walletd\<close>

text \<open>
  The types of \<^verbatim>\<open>go.sia.tech/core/types\<close> that the wallet code touches. A
  \<^verbatim>\<open>Hash256\<close> and an \<^verbatim>\<open>Address\<close> are 32-byte arrays, a \<^verbatim>\<open>Currency\<close> is an unsigned
  128-bit integer, heights and siafund values are \<^verbatim>\<open>uint64\<close>. Only the fields that
  \<^verbatim>\<open>wallet/update.go\<close> and \<^verbatim>\<open>api/server.go\<close> read or write are kept.
\<close>

type_synonym hash256 = "256 word"

type_synonym address = "256 word"

type_synonym currency = "128 word"

type_synonym u64 = "64 word"

definition VoidAddress :: address where
  "VoidAddress = 0"

text \<open>
  Go errors are values. \<^verbatim>\<open>errors.New(m)\<close> is \<open>Err m\<close>; \<^verbatim>\<open>fmt.Errorf("m: %w", e)\<close> is
  \<open>Wrap m e\<close>. A call either returns a value, returns an error, or panics.
\<close>

datatype error = Err string | Wrap string error

datatype 'a res = Ok 'a | Fail error | Panic error

fun wraps :: "error \<Rightarrow> error \<Rightarrow> bool" where
  "wraps (Err m) r = (Err m = r)"
| "wraps (Wrap m e) r = (Wrap m e = r \<or> wraps e r)"

text \<open>
  \<^verbatim>\<open>Currency.Add\<close> and \<^verbatim>\<open>Currency.Sub\<close> of the types package panic on overflow and on
  underflow; \<open>None\<close> stands for the panic.
\<close>

definition Currency_Add :: "currency \<Rightarrow> currency \<Rightarrow> currency option" where
  "Currency_Add c v = (if unat c + unat v < 2 ^ 128 then Some (c + v) else None)"

definition Currency_Sub :: "currency \<Rightarrow> currency \<Rightarrow> currency option" where
  "Currency_Sub c v = (if v \<le> c then Some (c - v) else None)"

record chain_index =
  ci_Height :: u64
  ci_ID :: hash256

record state_element =
  se_ID :: hash256
  se_LeafIndex :: u64
  se_MerkleProof :: "hash256 list"

record siacoin_output =
  sco_Value :: currency
  sco_Address :: address

record siafund_output =
  sfo_Value :: u64
  sfo_Address :: address

record siacoin_element =
  sce_StateElement :: state_element
  sce_SiacoinOutput :: siacoin_output
  sce_MaturityHeight :: u64

record siafund_element =
  sfe_StateElement :: state_element
  sfe_SiafundOutput :: siafund_output
  sfe_ClaimStart :: currency

definition sce_ID :: "siacoin_element \<Rightarrow> hash256" where
  "sce_ID e = se_ID (sce_StateElement e)"

definition sfe_ID :: "siafund_element \<Rightarrow> hash256" where
  "sfe_ID e = se_ID (sfe_StateElement e)"

record siacoin_input =
  sci_ParentID :: hash256

record siafund_input =
  sfi_ParentID :: hash256
  sfi_ClaimAddress :: address

record transaction =
  SiacoinInputs :: "siacoin_input list"
  SiacoinOutputs :: "siacoin_output list"
  SiafundInputs :: "siafund_input list"
  SiafundOutputs :: "siafund_output list"

section \<open>The funding engine (api/server.go)\<close>

text \<open>
  The server holds the reservation table \<^verbatim>\<open>used map[types.Hash256]bool\<close>; a key that is
  absent reads as \<^verbatim>\<open>false\<close>. The mutex is taken on entry of each funding closure and
  released on return, so a call is one atomic step on the server state.
\<close>

record server =
  used :: "hash256 \<Rightarrow> bool"

definition inPoolSC :: "transaction list \<Rightarrow> hash256 \<Rightarrow> bool" where
  "inPoolSC pool =
     fold (\<lambda>ptxn m. fold (\<lambda>i m'. m'(sci_ParentID i := True)) (SiacoinInputs ptxn) m)
       pool (\<lambda>_. False)"

definition inPoolSF :: "transaction list \<Rightarrow> hash256 \<Rightarrow> bool" where
  "inPoolSF pool =
     fold (\<lambda>ptxn m. fold (\<lambda>i m'. m'(sfi_ParentID i := True)) (SiafundInputs ptxn) m)
       pool (\<lambda>_. False)"

text \<open>
  The selection loop of \<^verbatim>\<open>walletsFundHandler\<close>: \<open>outputSum\<close> and \<open>fundingElements\<close> are
  the loop's two variables; \<open>None\<close> is the panic of \<^verbatim>\<open>Currency.Add\<close>.
\<close>

fun scanSC :: "(hash256 \<Rightarrow> bool) \<Rightarrow> (hash256 \<Rightarrow> bool) \<Rightarrow> currency \<Rightarrow> siacoin_element list \<Rightarrow>
    currency \<Rightarrow> siacoin_element list \<Rightarrow> (currency \<times> siacoin_element list) option" where
  "scanSC usd inPool amount [] outputSum fundingElements = Some (outputSum, fundingElements)"
| "scanSC usd inPool amount (sce # utxos) outputSum fundingElements =
     (if usd (sce_ID sce) \<or> inPool (sce_ID sce)
      then scanSC usd inPool amount utxos outputSum fundingElements
      else (case Currency_Add outputSum (sco_Value (sce_SiacoinOutput sce)) of
              None \<Rightarrow> None
            | Some outputSum' \<Rightarrow>
                if amount \<le> outputSum' then Some (outputSum', fundingElements @ [sce])
                else scanSC usd inPool amount utxos outputSum' (fundingElements @ [sce])))"

text \<open>The siafund loop adds with \<^verbatim>\<open>+=\<close> on \<^verbatim>\<open>uint64\<close>, which wraps.\<close>

fun scanSF :: "(hash256 \<Rightarrow> bool) \<Rightarrow> (hash256 \<Rightarrow> bool) \<Rightarrow> u64 \<Rightarrow> siafund_element list \<Rightarrow>
    u64 \<Rightarrow> siafund_element list \<Rightarrow> u64 \<times> siafund_element list" where
  "scanSF usd inPool amount [] outputSum fundingElements = (outputSum, fundingElements)"
| "scanSF usd inPool amount (sfe # utxos) outputSum fundingElements =
     (if usd (sfe_ID sfe) \<or> inPool (sfe_ID sfe)
      then scanSF usd inPool amount utxos outputSum fundingElements
      else (let outputSum' = outputSum + sfo_Value (sfe_SiafundOutput sfe) in
            if amount \<le> outputSum' then (outputSum', fundingElements @ [sfe])
            else scanSF usd inPool amount utxos outputSum' (fundingElements @ [sfe])))"

text \<open>
  The last loop of each closure: one input per funding element, its id written to
  \<open>toSign\<close> and marked in \<open>used\<close>.
\<close>

definition signSC :: "siacoin_element list \<Rightarrow> transaction \<Rightarrow> server \<Rightarrow>
    hash256 list \<times> transaction \<times> server" where
  "signSC fundingElements txn s =
     fold (\<lambda>sce (toSign, t, s').
             (toSign @ [sce_ID sce],
              t\<lparr>SiacoinInputs := SiacoinInputs t @ [\<lparr>sci_ParentID = sce_ID sce\<rparr>]\<rparr>,
              s'\<lparr>used := (used s')(sce_ID sce := True)\<rparr>))
       fundingElements ([], txn, s)"

definition signSF :: "address \<Rightarrow> siafund_element list \<Rightarrow> transaction \<Rightarrow> server \<Rightarrow>
    hash256 list \<times> transaction \<times> server" where
  "signSF claimAddr fundingElements txn s =
     fold (\<lambda>sfe (toSign, t, s').
             (toSign @ [sfe_ID sfe],
              t\<lparr>SiafundInputs := SiafundInputs t @
                   [\<lparr>sfi_ParentID = sfe_ID sfe, sfi_ClaimAddress = claimAddr\<rparr>]\<rparr>,
              s'\<lparr>used := (used s')(sfe_ID sfe := True)\<rparr>))
       fundingElements ([], txn, s)"

text \<open>
  \<^verbatim>\<open>fundTxn\<close> of \<^verbatim>\<open>walletsFundHandler\<close>. The closure returns \<^verbatim>\<open>(toSign, err)\<close> and mutates
  the transaction and the server; the model returns the three. \<^verbatim>\<open>frand.Shuffle\<close> is the
  parameter \<open>shuffle\<close>. A nil slice is the empty list.
\<close>

definition fundTxn :: "(siacoin_element list \<Rightarrow> siacoin_element list) \<Rightarrow> server \<Rightarrow> transaction \<Rightarrow>
    currency \<Rightarrow> siacoin_element list \<Rightarrow> address \<Rightarrow> transaction list \<Rightarrow>
    hash256 list res \<times> transaction \<times> server" where
  "fundTxn shuffle s txn amount utxos changeAddr pool =
     (if amount = 0 then (Ok [], txn, s)
      else (case scanSC (used s) (inPoolSC pool) amount (shuffle utxos) 0 [] of
              None \<Rightarrow> (Panic (Err ''overflow''), txn, s)
            | Some (outputSum, fundingElements) \<Rightarrow>
                if outputSum < amount then (Fail (Err ''insufficient balance''), txn, s)
                else if amount < outputSum \<and> changeAddr = VoidAddress
                then (Fail (Err ''change address must be specified''), txn, s)
                else (let txn' = (if amount < outputSum
                                  then txn\<lparr>SiacoinOutputs := SiacoinOutputs txn @
                                         [\<lparr>sco_Value = outputSum - amount, sco_Address = changeAddr\<rparr>]\<rparr>
                                  else txn)
                      in (case signSC fundingElements txn' s of
                            (toSign, txn'', s') \<Rightarrow> (Ok toSign, txn'', s')))))"

text \<open>\<^verbatim>\<open>fundTxn\<close> of \<^verbatim>\<open>walletsFundSFHandler\<close>.\<close>

definition fundTxnSF :: "(siafund_element list \<Rightarrow> siafund_element list) \<Rightarrow> server \<Rightarrow> transaction \<Rightarrow>
    u64 \<Rightarrow> siafund_element list \<Rightarrow> address \<Rightarrow> address \<Rightarrow> transaction list \<Rightarrow>
    hash256 list res \<times> transaction \<times> server" where
  "fundTxnSF shuffle s txn amount utxos changeAddr claimAddr pool =
     (if amount = 0 then (Ok [], txn, s)
      else (case scanSF (used s) (inPoolSF pool) amount (shuffle utxos) 0 [] of
              (outputSum, fundingElements) \<Rightarrow>
                if outputSum < amount then (Fail (Err ''insufficient balance''), txn, s)
                else if amount < outputSum \<and> changeAddr = VoidAddress
                then (Fail (Err ''change address must be specified''), txn, s)
                else (let txn' = (if amount < outputSum
                                  then txn\<lparr>SiafundOutputs := SiafundOutputs txn @
                                         [\<lparr>sfo_Value = outputSum - amount, sfo_Address = changeAddr\<rparr>]\<rparr>
                                  else txn)
                      in (case signSF claimAddr fundingElements txn' s of
                            (toSign, txn'', s') \<Rightarrow> (Ok toSign, txn'', s')))))"

text \<open>
  Notions used to state the funding claims. The mempool-spent set: the ids that some
  pool transaction spends as a siacoin (siafund) input.
\<close>

definition poolSpentSC :: "transaction list \<Rightarrow> hash256 \<Rightarrow> bool" where
  "poolSpentSC pool h = (\<exists>ptxn \<in> set pool. \<exists>i \<in> set (SiacoinInputs ptxn). sci_ParentID i = h)"

definition poolSpentSF :: "transaction list \<Rightarrow> hash256 \<Rightarrow> bool" where
  "poolSpentSF pool h = (\<exists>ptxn \<in> set pool. \<exists>i \<in> set (SiafundInputs ptxn). sfi_ParentID i = h)"

text \<open>
  The eligible candidates, in list order: neither reserved in \<open>used\<close> nor spent in the
  pool; their values and totals as natural numbers.
\<close>

definition eligibleSC :: "(hash256 \<Rightarrow> bool) \<Rightarrow> (hash256 \<Rightarrow> bool) \<Rightarrow> siacoin_element list \<Rightarrow> siacoin_element list" where
  "eligibleSC usd inPool utxos = filter (\<lambda>sce. \<not> usd (sce_ID sce) \<and> \<not> inPool (sce_ID sce)) utxos"

definition valSC :: "siacoin_element \<Rightarrow> nat" where
  "valSC sce = unat (sco_Value (sce_SiacoinOutput sce))"

definition totalSC :: "siacoin_element list \<Rightarrow> nat" where
  "totalSC xs = sum_list (map valSC xs)"

text \<open>
  \<open>greedyAt amount E n\<close>: the first \<open>n\<close> candidates of \<open>E\<close> are what a greedy scan selects:
  their sum reaches \<open>amount\<close> and no shorter prefix does.
\<close>

definition greedyAt :: "currency \<Rightarrow> siacoin_element list \<Rightarrow> nat \<Rightarrow> bool" where
  "greedyAt amount E n =
     (n \<le> length E \<and> unat amount \<le> totalSC (take n E) \<and>
      (\<forall>m < n. totalSC (take m E) < unat amount))"

definition eligibleSF :: "(hash256 \<Rightarrow> bool) \<Rightarrow> (hash256 \<Rightarrow> bool) \<Rightarrow> siafund_element list \<Rightarrow> siafund_element list" where
  "eligibleSF usd inPool utxos = filter (\<lambda>sfe. \<not> usd (sfe_ID sfe) \<and> \<not> inPool (sfe_ID sfe)) utxos"

definition valSF :: "siafund_element \<Rightarrow> nat" where
  "valSF sfe = unat (sfo_Value (sfe_SiafundOutput sfe))"

definition totalSF :: "siafund_element list \<Rightarrow> nat" where
  "totalSF xs = sum_list (map valSF xs)"

text \<open>Example values: one mature output of 100 (scenario S2 of the specification).\<close>

definition utxo100 :: siacoin_element where
  "utxo100 = \<lparr>sce_StateElement = \<lparr>se_ID = 1, se_LeafIndex = 0, se_MerkleProof = []\<rparr>,
              sce_SiacoinOutput = \<lparr>sco_Value = 100, sco_Address = 7\<rparr>,
              sce_MaturityHeight = 0\<rparr>"

definition emptyTxn :: transaction where
  "emptyTxn = \<lparr>SiacoinInputs = [], SiacoinOutputs = [], SiafundInputs = [], SiafundOutputs = []\<rparr>"

definition freshServer :: server where
  "freshServer = \<lparr>used = (\<lambda>_. False)\<rparr>"

text \<open>A second output, of 50.\<close>

definition utxo50 :: siacoin_element where
  "utxo50 = \<lparr>sce_StateElement = \<lparr>se_ID = 3, se_LeafIndex = 0, se_MerkleProof = []\<rparr>,
             sce_SiacoinOutput = \<lparr>sco_Value = 50, sco_Address = 7\<rparr>,
             sce_MaturityHeight = 0\<rparr>"

text \<open>
  Two outputs that must be skipped: one reserved by an earlier funding call (id 4) and
  one spent by a transaction of the pool (id 5).
\<close>

definition utxo200 :: siacoin_element where
  "utxo200 = \<lparr>sce_StateElement = \<lparr>se_ID = 4, se_LeafIndex = 0, se_MerkleProof = []\<rparr>,
              sce_SiacoinOutput = \<lparr>sco_Value = 200, sco_Address = 7\<rparr>,
              sce_MaturityHeight = 0\<rparr>"

definition utxo70 :: siacoin_element where
  "utxo70 = \<lparr>sce_StateElement = \<lparr>se_ID = 5, se_LeafIndex = 0, se_MerkleProof = []\<rparr>,
             sce_SiacoinOutput = \<lparr>sco_Value = 70, sco_Address = 7\<rparr>,
             sce_MaturityHeight = 0\<rparr>"

definition busyServer :: server where
  "busyServer = \<lparr>used = (\<lambda>h. h = 4)\<rparr>"

definition poolTxn :: transaction where
  "poolTxn = \<lparr>SiacoinInputs = [\<lparr>sci_ParentID = 5\<rparr>], SiacoinOutputs = [],
              SiafundInputs = [], SiafundOutputs = []\<rparr>"

definition fourUtxos :: "siacoin_element list" where
  "fourUtxos = [utxo100, utxo70, utxo50, utxo200]"

text \<open>One siafund output of value 10 (scenario S6 of the specification).\<close>

definition sfUtxo10 :: siafund_element where
  "sfUtxo10 = \<lparr>sfe_StateElement = \<lparr>se_ID = 2, se_LeafIndex = 0, se_MerkleProof = []\<rparr>,
               sfe_SiafundOutput = \<lparr>sfo_Value = 10, sfo_Address = 7\<rparr>,
               sfe_ClaimStart = 0\<rparr>"

subsection \<open>The fund handlers\<close>

text \<open>
  The request and response types of the api package. A handler reads the decoded request,
  asks the wallet manager for the candidates with offset 0 and limit 1000, runs its
  closure with the chain manager's pool and encodes the response; \<^verbatim>\<open>jc.Check(msg, err)\<close>
  reports \<open>Wrap msg err\<close>. The wallet manager and the chain manager are interfaces: their
  methods are parameters.
\<close>

record wallet_fund_request =
  wfr_Transaction :: transaction
  wfr_Amount :: currency
  wfr_ChangeAddress :: address

record wallet_fund_sf_request =
  wfsr_Transaction :: transaction
  wfsr_Amount :: u64
  wfsr_ChangeAddress :: address
  wfsr_ClaimAddress :: address

record wallet_fund_response =
  resp_Transaction :: transaction
  resp_ToSign :: "hash256 list"
  resp_DependsOn :: "transaction list"

datatype 'a http = Encoded 'a | HttpError error | Panicked error

definition walletsFundHandler ::
  "(siacoin_element list \<Rightarrow> siacoin_element list) \<Rightarrow>
   ('id \<Rightarrow> int \<Rightarrow> int \<Rightarrow> error + siacoin_element list) \<Rightarrow>
   transaction list \<Rightarrow> (transaction \<Rightarrow> transaction list) \<Rightarrow>
   server \<Rightarrow> 'id \<Rightarrow> wallet_fund_request \<Rightarrow> wallet_fund_response http \<times> server" where
  "walletsFundHandler shuffle UnspentSiacoinOutputs PoolTransactions UnconfirmedParents s wid wfr =
     (case UnspentSiacoinOutputs wid 0 1000 of
        Inl err \<Rightarrow> (HttpError (Wrap ''couldn't get utxos to fund transaction'' err), s)
      | Inr utxos \<Rightarrow>
          (case fundTxn shuffle s (wfr_Transaction wfr) (wfr_Amount wfr) utxos
                  (wfr_ChangeAddress wfr) PoolTransactions of
             (Fail err, txn, s') \<Rightarrow> (HttpError (Wrap ''couldn't fund transaction'' err), s')
           | (Panic e, txn, s') \<Rightarrow> (Panicked e, s')
           | (Ok toSign, txn, s') \<Rightarrow>
               (Encoded \<lparr>resp_Transaction = txn, resp_ToSign = toSign,
                          resp_DependsOn = UnconfirmedParents txn\<rparr>, s')))"

definition walletsFundSFHandler ::
  "(siafund_element list \<Rightarrow> siafund_element list) \<Rightarrow>
   ('id \<Rightarrow> int \<Rightarrow> int \<Rightarrow> error + siafund_element list) \<Rightarrow>
   transaction list \<Rightarrow> (transaction \<Rightarrow> transaction list) \<Rightarrow>
   server \<Rightarrow> 'id \<Rightarrow> wallet_fund_sf_request \<Rightarrow> wallet_fund_response http \<times> server" where
  "walletsFundSFHandler shuffle UnspentSiafundOutputs PoolTransactions UnconfirmedParents s wid wfr =
     (case UnspentSiafundOutputs wid 0 1000 of
        Inl err \<Rightarrow> (HttpError (Wrap ''couldn't get utxos to fund transaction'' err), s)
      | Inr utxos \<Rightarrow>
          (case fundTxnSF shuffle s (wfsr_Transaction wfr) (wfsr_Amount wfr) utxos
                  (wfsr_ChangeAddress wfr) (wfsr_ClaimAddress wfr) PoolTransactions of
             (Fail err, txn, s') \<Rightarrow> (HttpError (Wrap ''couldn't fund transaction'' err), s')
           | (Panic e, txn, s') \<Rightarrow> (Panicked e, s')
           | (Ok toSign, txn, s') \<Rightarrow>
               (Encoded \<lparr>resp_Transaction = txn, resp_ToSign = toSign,
                          resp_DependsOn = UnconfirmedParents txn\<rparr>, s')))"

text \<open>
  Modelled from the spec: \<^verbatim>\<open>UnspentSiacoinOutputs(id, offset, limit)\<close> and
  \<^verbatim>\<open>UnspentSiafundOutputs(id, offset, limit)\<close> of the wallet manager are not in the
  source files; section 4.5 specifies them as paginated reads of the wallet's unspent
  outputs.
\<close>

definition paginate :: "'a list \<Rightarrow> int \<Rightarrow> int \<Rightarrow> 'a list" where
  "paginate xs offset limit = take (nat limit) (drop (nat offset) xs)"

text \<open>Outputs of value 1, with the index as id.\<close>

definition unitSC :: "nat \<Rightarrow> siacoin_element" where
  "unitSC i = \<lparr>sce_StateElement = \<lparr>se_ID = of_nat i, se_LeafIndex = 0, se_MerkleProof = []\<rparr>,
              sce_SiacoinOutput = \<lparr>sco_Value = 1, sco_Address = 7\<rparr>,
              sce_MaturityHeight = 0\<rparr>"

definition unitSF :: "nat \<Rightarrow> siafund_element" where
  "unitSF i = \<lparr>sfe_StateElement = \<lparr>se_ID = of_nat i, se_LeafIndex = 0, se_MerkleProof = []\<rparr>,
              sfe_SiafundOutput = \<lparr>sfo_Value = 1, sfo_Address = 7\<rparr>,
              sfe_ClaimStart = 0\<rparr>"

text \<open>
  Example wallet managers: one holding 1001 outputs of value 1, and one that answers only
  the read with offset 0 and limit 1000 (with the first 1000 of them) and fails on any
  other read.
\<close>

definition walletOf1001SC :: "nat \<Rightarrow> int \<Rightarrow> int \<Rightarrow> error + siacoin_element list" where
  "walletOf1001SC w offset limit = Inr (paginate (map unitSC [1..<1002]) offset limit)"

definition walletOf1001SF :: "nat \<Rightarrow> int \<Rightarrow> int \<Rightarrow> error + siafund_element list" where
  "walletOf1001SF w offset limit = Inr (paginate (map unitSF [1..<1002]) offset limit)"

definition firstPageOnlySC :: "nat \<Rightarrow> int \<Rightarrow> int \<Rightarrow> error + siacoin_element list" where
  "firstPageOnlySC w offset limit =
     (if offset = 0 \<and> limit = 1000 then Inr (map unitSC [1..<1001])
      else Inl (Err ''unexpected read''))"

definition firstPageOnlySF :: "nat \<Rightarrow> int \<Rightarrow> int \<Rightarrow> error + siafund_element list" where
  "firstPageOnlySF w offset limit =
     (if offset = 0 \<and> limit = 1000 then Inr (map unitSF [1..<1001])
      else Inl (Err ''unexpected read''))"

definition fund1000 :: wallet_fund_request where
  "fund1000 = \<lparr>wfr_Transaction = emptyTxn, wfr_Amount = 1000, wfr_ChangeAddress = 9\<rparr>"

definition fundsf1000 :: wallet_fund_sf_request where
  "fundsf1000 = \<lparr>wfsr_Transaction = emptyTxn, wfsr_Amount = 1000, wfsr_ChangeAddress = 9,
                 wfsr_ClaimAddress = 11\<rparr>"

subsection \<open>Wallet creation\<close>

text \<open>\<^verbatim>\<open>WalletUpdateRequest\<close> of the api package.\<close>

record wallet_update_request =
  wur_Name :: string
  wur_Description :: string
  wur_Metadata :: "8 word list"

text \<open>
  Modelled from the spec: the \<^verbatim>\<open>Wallet\<close> type of the wallet package is not in the source
  files. \<^verbatim>\<open>api/server.go\<close> sets its fields \<^verbatim>\<open>ID\<close>, \<^verbatim>\<open>Name\<close>, \<^verbatim>\<open>Description\<close> and
  \<^verbatim>\<open>Metadata\<close>; section 3 of the specification adds created-at and updated-at.
\<close>

record 'id wallet =
  w_ID :: 'id
  w_Name :: string
  w_Description :: string
  w_Metadata :: "8 word list"
  w_DateCreated :: int
  w_LastUpdated :: int

text \<open>
  \<^verbatim>\<open>walletsHandlerPOST\<close> declares \<^verbatim>\<open>var req WalletUpdateRequest\<close> and never decodes the
  request body into it; \<open>body\<close> is the request body.
\<close>

definition walletsHandlerPOST ::
  "('id::zero wallet \<Rightarrow> 'st \<Rightarrow> (error + 'id wallet) \<times> 'st) \<Rightarrow> 'body \<Rightarrow> 'st \<Rightarrow>
   'id wallet http \<times> 'st" where
  "walletsHandlerPOST AddWallet body st =
     (let req = \<lparr>wur_Name = [], wur_Description = [], wur_Metadata = []\<rparr>;
          w = \<lparr>w_ID = 0, w_Name = wur_Name req, w_Description = wur_Description req,
               w_Metadata = wur_Metadata req, w_DateCreated = 0, w_LastUpdated = 0\<rparr>
      in (case AddWallet w st of
            (Inl err, st') \<Rightarrow> (HttpError (Wrap ''couldn't add wallet'' err), st')
          | (Inr w', st') \<Rightarrow> (Encoded w', st')))"

text \<open>
  Modelled from the spec: \<^verbatim>\<open>AddWallet\<close> of the wallet manager is not in the source files.
  Section 4.5: it assigns the id and the timestamps and fails only on a store error. The
  store supplies the fresh id and the clock, and \<open>ws_failure\<close> is the store error, if any.
\<close>

record 'id wallet_store =
  ws_wallets :: "'id wallet list"
  ws_nextID :: 'id
  ws_now :: int
  ws_failure :: "error option"

text \<open>
  Modelled from the spec: \<^verbatim>\<open>AddWallet(w)\<close> assigns the id and the timestamps and fails only
  on a store error (section 4.5).
\<close>

definition AddWallet :: "'id::{zero,one,plus} wallet \<Rightarrow> 'id wallet_store \<Rightarrow>
    (error + 'id wallet) \<times> 'id wallet_store" where
  "AddWallet w st =
     (case ws_failure st of
        Some e \<Rightarrow> (Inl e, st)
      | None \<Rightarrow>
          (let w' = w\<lparr>w_ID := ws_nextID st, w_DateCreated := ws_now st, w_LastUpdated := ws_now st\<rparr>
           in (Inr w', st\<lparr>ws_wallets := ws_wallets st @ [w'], ws_nextID := ws_nextID st + 1\<rparr>)))"

section \<open>The chain-update applier and reverter (wallet/update.go)\<close>

text \<open>\<^verbatim>\<open>Balance\<close>, with the fields that \<^verbatim>\<open>update.go\<close> uses, and \<^verbatim>\<open>AddressBalance\<close>.\<close>

record balance =
  Siacoins :: currency
  ImmatureSiacoins :: currency
  Siafunds :: u64

record address_balance =
  ab_Address :: address
  ab_Balance :: balance

text \<open>
  Modelled from the spec: the \<^verbatim>\<open>Event\<close> type of the wallet package is not in the source
  files. Section 3: an event has an id, the index of its block and the relevant
  addresses; its other fields are of no concern to the applier.
\<close>

record event =
  ev_ID :: hash256
  ev_Index :: chain_index
  ev_Relevant :: "address list"

text \<open>
  A block holds its v1 transactions and, after the hard fork, v2 transactions, which
  spend a parent element by its id.
\<close>

record v2_transaction =
  v2_SiacoinInputs :: "hash256 list"
  v2_SiacoinOutputs :: "siacoin_output list"
  v2_SiafundInputs :: "hash256 list"
  v2_SiafundOutputs :: "siafund_output list"

record block =
  Transactions :: "transaction list"
  V2Transactions :: "v2_transaction list"

text \<open>
  \<^verbatim>\<open>chain.ApplyUpdate\<close> and \<^verbatim>\<open>chain.RevertUpdate\<close> as the wallet sees them: the index
  of \<^verbatim>\<open>State\<close>, the block, the sequence of calls that \<^verbatim>\<open>ForEachSiacoinElement\<close> and
  \<^verbatim>\<open>ForEachSiafundElement\<close> make to their callback (element and spent flag), and
  \<^verbatim>\<open>UpdateElementProof\<close>.
\<close>

record apply_update =
  au_Index :: chain_index
  au_Block :: block
  au_SiacoinElements :: "(siacoin_element \<times> bool) list"
  au_SiafundElements :: "(siafund_element \<times> bool) list"
  au_UpdateElementProof :: "state_element \<Rightarrow> state_element"

record revert_update =
  ru_Index :: chain_index
  ru_Block :: block
  ru_SiacoinElements :: "(siacoin_element \<times> bool) list"
  ru_SiafundElements :: "(siafund_element \<times> bool) list"
  ru_UpdateElementProof :: "state_element \<Rightarrow> state_element"

text \<open>
  What the applier calls outside \<^verbatim>\<open>update.go\<close>: the id functions of the types package
  (hashes), and \<^verbatim>\<open>AppliedEvents\<close> of the wallet package, which is not in the source
  files. \<^verbatim>\<open>AppliedEvents\<close> receives the update and the relevance closure, which panics
  when the store fails (\<open>Inl\<close>); a panic that escapes it is its \<open>Panic\<close> result.
\<close>

record env =
  SiacoinOutputID :: "transaction \<Rightarrow> nat \<Rightarrow> hash256"
  SiafundOutputID :: "transaction \<Rightarrow> nat \<Rightarrow> hash256"
  V2SiacoinOutputID :: "v2_transaction \<Rightarrow> nat \<Rightarrow> hash256"
  V2SiafundOutputID :: "v2_transaction \<Rightarrow> nat \<Rightarrow> hash256"
  BlockID :: "block \<Rightarrow> hash256"
  AppliedEvents :: "apply_update \<Rightarrow> (address \<Rightarrow> error + bool) \<Rightarrow> event list res"

text \<open>
  The interfaces \<^verbatim>\<open>UpdateTx\<close>, \<^verbatim>\<open>ApplyTx\<close> and \<^verbatim>\<open>RevertTx\<close>: records of the methods,
  over the state \<open>'s\<close> of the store transaction. A read returns an error or a value; a
  write returns the error, if any, and the state it leaves.
\<close>

record 's update_tx =
  SiacoinStateElements :: "'s \<Rightarrow> error + state_element list"
  UpdateSiacoinStateElements :: "state_element list \<Rightarrow> 's \<Rightarrow> error option \<times> 's"
  SiafundStateElements :: "'s \<Rightarrow> error + state_element list"
  UpdateSiafundStateElements :: "state_element list \<Rightarrow> 's \<Rightarrow> error option \<times> 's"
  AddSiacoinElements :: "siacoin_element list \<Rightarrow> 's \<Rightarrow> error option \<times> 's"
  RemoveSiacoinElements :: "hash256 list \<Rightarrow> 's \<Rightarrow> error option \<times> 's"
  AddSiafundElements :: "siafund_element list \<Rightarrow> 's \<Rightarrow> error option \<times> 's"
  RemoveSiafundElements :: "hash256 list \<Rightarrow> 's \<Rightarrow> error option \<times> 's"
  MaturedSiacoinElements :: "chain_index \<Rightarrow> 's \<Rightarrow> error + siacoin_element list"
  AddressRelevant :: "address \<Rightarrow> 's \<Rightarrow> error + bool"
  AddressBalance :: "address \<Rightarrow> 's \<Rightarrow> error + balance"
  UpdateBalances :: "address_balance list \<Rightarrow> 's \<Rightarrow> error option \<times> 's"

record 's apply_tx = "'s update_tx" +
  AddEvents :: "event list \<Rightarrow> 's \<Rightarrow> error option \<times> 's"

record 's revert_tx = "'s update_tx" +
  RevertEvents :: "chain_index \<Rightarrow> 's \<Rightarrow> error option \<times> 's"

text \<open>
  The closure \<^verbatim>\<open>updateBalance\<close>. The Go maps of both functions are association lists
  with one entry per key (\<open>AList.update\<close> overwrites or appends, \<open>AList.delete\<close> removes);
  Go ranges over a map in no fixed order, the model in list order. The callback \<open>fn\<close>
  may panic.
\<close>

definition updateBalance :: "('s, 'z) update_tx_scheme \<Rightarrow> 's \<Rightarrow> (address \<times> balance) list \<Rightarrow>
    address \<Rightarrow> (balance \<Rightarrow> balance res) \<Rightarrow> (address \<times> balance) list res" where
  "updateBalance tx s balances addr fn =
     (case (case map_of balances addr of
              Some b \<Rightarrow> Inr b
            | None \<Rightarrow> (case AddressBalance tx addr s of
                         Inl err \<Rightarrow> Inl (Wrap ''failed to get address balance'' err)
                       | Inr b \<Rightarrow> Inr b)) of
        Inl e \<Rightarrow> Fail e
      | Inr b \<Rightarrow> (case fn b of
                    Ok b' \<Rightarrow> Ok (AList.update addr b' balances)
                  | Fail e \<Rightarrow> Fail e
                  | Panic p \<Rightarrow> Panic p))"

definition addCurrency :: "currency \<Rightarrow> currency \<Rightarrow> currency res" where
  "addCurrency c v = (case Currency_Add c v of None \<Rightarrow> Panic (Err ''overflow'') | Some r \<Rightarrow> Ok r)"

definition subCurrency :: "currency \<Rightarrow> currency \<Rightarrow> currency res" where
  "subCurrency c v = (case Currency_Sub c v of None \<Rightarrow> Panic (Err ''underflow'') | Some r \<Rightarrow> Ok r)"

text \<open>The ephemeral detection, the same loop in both functions.\<close>

definition ephemeralTxn :: "env \<Rightarrow> transaction \<Rightarrow>
    (hash256 \<Rightarrow> bool) \<times> (hash256 \<Rightarrow> bool) \<Rightarrow> (hash256 \<Rightarrow> bool) \<times> (hash256 \<Rightarrow> bool)" where
  "ephemeralTxn e txn ce =
     (case ce of (created, ephemeral) \<Rightarrow>
        (let created1 = fold (\<lambda>i c. c(SiacoinOutputID e txn i := True))
                          [0 ..< length (SiacoinOutputs txn)] created;
             ephemeral1 = fold (\<lambda>input m. m(sci_ParentID input := created1 (sci_ParentID input)))
                          (SiacoinInputs txn) ephemeral;
             created2 = fold (\<lambda>i c. c(SiafundOutputID e txn i := True))
                          [0 ..< length (SiafundOutputs txn)] created1;
             ephemeral2 = fold (\<lambda>input m. m(sfi_ParentID input := created2 (sfi_ParentID input)))
                          (SiafundInputs txn) ephemeral1
         in (created2, ephemeral2)))"

definition ephemeralOf :: "env \<Rightarrow> block \<Rightarrow> hash256 \<Rightarrow> bool" where
  "ephemeralOf e b = snd (fold (ephemeralTxn e) (Transactions b) (\<lambda>_. False, \<lambda>_. False))"

text \<open>
  \<^verbatim>\<open>ForEachSiacoinElement(fn)\<close> with a callback that records its first error in a
  variable and returns at once when the variable is set: the calls after the first error
  do nothing, so the iteration stops there. The result is the state and the variable.
\<close>

fun forEachElement :: "('a \<Rightarrow> 'st \<Rightarrow> ('st \<times> error option) res) \<Rightarrow> 'a list \<Rightarrow> 'st \<Rightarrow>
    ('st \<times> error option) res" where
  "forEachElement fn [] st = Ok (st, None)"
| "forEachElement fn (x # xs) st =
     (case fn x st of
        Ok (st', None) \<Rightarrow> forEachElement fn xs st'
      | r \<Rightarrow> r)"

subsection \<open>ApplyChainUpdates\<close>

record apply_state =
  events :: "event list"
  balances :: "(address \<times> balance) list"
  newSiacoinElements :: "(hash256 \<times> siacoin_element) list"
  newSiafundElements :: "(hash256 \<times> siafund_element) list"
  spentSiacoinElements :: "(hash256 \<times> bool) list"
  spentSiafundElements :: "(hash256 \<times> bool) list"
  siacoinStateElements :: "state_element list"
  siafundStateElements :: "state_element list"

fun applyMatured :: "('s, 'z) update_tx_scheme \<Rightarrow> 's \<Rightarrow> siacoin_element list \<Rightarrow>
    (address \<times> balance) list \<Rightarrow> (address \<times> balance) list res" where
  "applyMatured tx s [] bal = Ok bal"
| "applyMatured tx s (se # matured) bal =
     (case updateBalance tx s bal (sco_Address (sce_SiacoinOutput se))
             (\<lambda>b. case subCurrency (ImmatureSiacoins b) (sco_Value (sce_SiacoinOutput se)) of
                     Ok i \<Rightarrow> (case addCurrency (Siacoins b) (sco_Value (sce_SiacoinOutput se)) of
                                Ok c \<Rightarrow> Ok (b\<lparr>ImmatureSiacoins := i, Siacoins := c\<rparr>)
                              | Fail e \<Rightarrow> Fail e | Panic p \<Rightarrow> Panic p)
                   | Fail e \<Rightarrow> Fail e | Panic p \<Rightarrow> Panic p) of
        Ok bal' \<Rightarrow> applyMatured tx s matured bal'
      | Fail e \<Rightarrow> Fail (Wrap ''failed to update address balance'' e)
      | Panic p \<Rightarrow> Panic p)"

definition applySiacoinElement :: "('s, 'z) update_tx_scheme \<Rightarrow> 's \<Rightarrow> u64 \<Rightarrow> (hash256 \<Rightarrow> bool) \<Rightarrow>
    siacoin_element \<times> bool \<Rightarrow> apply_state \<Rightarrow> (apply_state \<times> error option) res" where
  "applySiacoinElement tx s height ephemeral x st =
     (case x of (se, spent) \<Rightarrow>
        if ephemeral (sce_ID se) then Ok (st, None)
        else (case AddressRelevant tx (sco_Address (sce_SiacoinOutput se)) s of
                Inl err \<Rightarrow> Ok (st, Some (Wrap ''failed to check if address is relevant'' err))
              | Inr relevant \<Rightarrow>
                  if \<not> relevant then Ok (st, None)
                  else (let st1 = (if spent
                                   then st\<lparr>newSiacoinElements :=
                                             AList.delete (sce_ID se) (newSiacoinElements st),
                                           spentSiacoinElements :=
                                             AList.update (sce_ID se) True (spentSiacoinElements st)\<rparr>
                                   else st\<lparr>newSiacoinElements :=
                                             AList.update (sce_ID se) se (newSiacoinElements st)\<rparr>)
                        in (case updateBalance tx s (balances st1) (sco_Address (sce_SiacoinOutput se))
                                  (\<lambda>b. if height < sce_MaturityHeight se
                                        then (case addCurrency (ImmatureSiacoins b)
                                                     (sco_Value (sce_SiacoinOutput se)) of
                                                Ok i \<Rightarrow> Ok (b\<lparr>ImmatureSiacoins := i\<rparr>)
                                              | Fail e \<Rightarrow> Fail e | Panic p \<Rightarrow> Panic p)
                                        else if spent
                                        then (case subCurrency (Siacoins b)
                                                     (sco_Value (sce_SiacoinOutput se)) of
                                                Ok c \<Rightarrow> Ok (b\<lparr>Siacoins := c\<rparr>)
                                              | Fail e \<Rightarrow> Fail e | Panic p \<Rightarrow> Panic p)
                                        else (case addCurrency (Siacoins b)
                                                     (sco_Value (sce_SiacoinOutput se)) of
                                                Ok c \<Rightarrow> Ok (b\<lparr>Siacoins := c\<rparr>)
                                              | Fail e \<Rightarrow> Fail e | Panic p \<Rightarrow> Panic p)) of
                              Ok bal \<Rightarrow> Ok (st1\<lparr>balances := bal\<rparr>, None)
                            | Fail e \<Rightarrow> Ok (st1, Some (Wrap ''failed to update address balance'' e))
                            | Panic p \<Rightarrow> Panic p))))"

definition applySiafundElement :: "('s, 'z) update_tx_scheme \<Rightarrow> 's \<Rightarrow> (hash256 \<Rightarrow> bool) \<Rightarrow>
    siafund_element \<times> bool \<Rightarrow> apply_state \<Rightarrow> (apply_state \<times> error option) res" where
  "applySiafundElement tx s ephemeral x st =
     (case x of (se, spent) \<Rightarrow>
        if ephemeral (sfe_ID se) then Ok (st, None)
        else (case AddressRelevant tx (sfo_Address (sfe_SiafundOutput se)) s of
                Inl err \<Rightarrow> Ok (st, Some (Wrap ''failed to check if address is relevant'' err))
              | Inr relevant \<Rightarrow>
                  if \<not> relevant then Ok (st, None)
                  else (let st1 = (if spent
                                   then st\<lparr>newSiafundElements :=
                                             AList.delete (sfe_ID se) (newSiafundElements st),
                                           spentSiafundElements :=
                                             AList.update (sfe_ID se) True (spentSiafundElements st)\<rparr>
                                   else st\<lparr>newSiafundElements :=
                                             AList.update (sfe_ID se) se (newSiafundElements st)\<rparr>)
                        in (case updateBalance tx s (balances st1) (sfo_Address (sfe_SiafundOutput se))
                                  (\<lambda>b. if spent
                                        then (if Siafunds b < sfo_Value (sfe_SiafundOutput se)
                                              then Panic (Err ''negative siafund balance'')
                                              else Ok (b\<lparr>Siafunds := Siafunds b -
                                                            sfo_Value (sfe_SiafundOutput se)\<rparr>))
                                        else Ok (b\<lparr>Siafunds := Siafunds b +
                                                      sfo_Value (sfe_SiafundOutput se)\<rparr>)) of
                              Ok bal \<Rightarrow> Ok (st1\<lparr>balances := bal\<rparr>, None)
                            | Fail e \<Rightarrow> Ok (st1, Some (Wrap ''failed to update address balance'' e))
                            | Panic p \<Rightarrow> Panic p))))"

definition refreshProofs :: "(state_element \<Rightarrow> state_element) \<Rightarrow> apply_state \<Rightarrow> apply_state" where
  "refreshProofs upd st =
     st\<lparr>newSiacoinElements :=
          map (\<lambda>(id, ele). (id, ele\<lparr>sce_StateElement := upd (sce_StateElement ele)\<rparr>))
            (newSiacoinElements st),
        siacoinStateElements := map upd (siacoinStateElements st),
        newSiafundElements :=
          map (\<lambda>(id, ele). (id, ele\<lparr>sfe_StateElement := upd (sfe_StateElement ele)\<rparr>))
            (newSiafundElements st),
        siafundStateElements := map upd (siafundStateElements st)\<rparr>"

text \<open>
  The body of the loop over the updates. After \<^verbatim>\<open>ForEachSiafundElement\<close> the source
  never reads \<^verbatim>\<open>siafundElementErr\<close>: the \<^verbatim>\<open>err\<close> it tests is the one of
  \<^verbatim>\<open>MaturedSiacoinElements\<close>, which is nil there.
\<close>

definition applyUpdate :: "env \<Rightarrow> ('s, 'z) update_tx_scheme \<Rightarrow> 's \<Rightarrow> apply_update \<Rightarrow> apply_state \<Rightarrow>
    apply_state res" where
  "applyUpdate e tx s cau st =
     (case MaturedSiacoinElements tx (au_Index cau) s of
        Inl err \<Rightarrow> Fail (Wrap ''failed to get matured siacoin elements'' err)
      | Inr matured \<Rightarrow>
          (case applyMatured tx s matured (balances st) of
             Fail err \<Rightarrow> Fail err
           | Panic p \<Rightarrow> Panic p
           | Ok bal \<Rightarrow>
               (case forEachElement
                       (applySiacoinElement tx s (ci_Height (au_Index cau)) (ephemeralOf e (au_Block cau)))
                       (au_SiacoinElements cau) (st\<lparr>balances := bal\<rparr>) of
                  Fail err \<Rightarrow> Fail err
                | Panic p \<Rightarrow> Panic p
                | Ok (st2, Some siacoinElementErr) \<Rightarrow>
                    Fail (Wrap ''failed to add siacoin elements'' siacoinElementErr)
                | Ok (st2, None) \<Rightarrow>
                    (case forEachElement (applySiafundElement tx s (ephemeralOf e (au_Block cau)))
                            (au_SiafundElements cau) st2 of
                       Fail err \<Rightarrow> Fail err
                     | Panic p \<Rightarrow> Panic p
                     | Ok (st3, siafundElementErr) \<Rightarrow>
                         (case AppliedEvents e cau
                                 (\<lambda>addr. case AddressRelevant tx addr s of
                                            Inl err \<Rightarrow>
                                              Inl (Wrap ''failed to check if address is relevant'' err)
                                          | Inr relevant \<Rightarrow> Inr relevant) of
                            Fail err \<Rightarrow> Fail err
                          | Panic p \<Rightarrow> Panic p
                          | Ok evs \<Rightarrow>
                              Ok (refreshProofs (au_UpdateElementProof cau)
                                    (st3\<lparr>events := events st3 @ evs\<rparr>)))))))"

fun applyUpdates :: "env \<Rightarrow> ('s, 'z) update_tx_scheme \<Rightarrow> 's \<Rightarrow> apply_update list \<Rightarrow> apply_state \<Rightarrow>
    apply_state res" where
  "applyUpdates e tx s [] st = Ok st"
| "applyUpdates e tx s (cau # updates) st =
     (case applyUpdate e tx s cau st of
        Ok st' \<Rightarrow> applyUpdates e tx s updates st'
      | r \<Rightarrow> r)"

text \<open>A store write, its error wrapped with a message, then the rest of the function.\<close>

definition andThen :: "error option \<times> 's \<Rightarrow> string \<Rightarrow> ('s \<Rightarrow> unit res \<times> 's) \<Rightarrow> unit res \<times> 's" where
  "andThen r msg k = (case r of (Some err, s') \<Rightarrow> (Fail (Wrap msg err), s') | (None, s') \<Rightarrow> k s')"

definition applyFlush :: "'s apply_tx \<Rightarrow> apply_state \<Rightarrow> 's \<Rightarrow> unit res \<times> 's" where
  "applyFlush tx st s =
     andThen (UpdateBalances tx
                (map (\<lambda>(addr, b). \<lparr>ab_Address = addr, ab_Balance = b\<rparr>) (balances st)) s)
       ''failed to update address balance'' (\<lambda>s.
     andThen (AddSiacoinElements tx (map snd (newSiacoinElements st)) s)
       ''failed to add siacoin elements'' (\<lambda>s.
     andThen (RemoveSiacoinElements tx (map fst (spentSiacoinElements st)) s)
       ''failed to remove siacoin elements'' (\<lambda>s.
     andThen (AddSiafundElements tx (map snd (newSiafundElements st)) s)
       ''failed to add siafund elements'' (\<lambda>s.
     andThen (RemoveSiafundElements tx (map fst (spentSiafundElements st)) s)
       ''failed to remove siafund elements'' (\<lambda>s.
     andThen (AddEvents tx (events st) s)
       ''failed to add events'' (\<lambda>s.
     andThen (UpdateSiacoinStateElements tx
                (filter (\<lambda>se. map_of (spentSiacoinElements st) (se_ID se) = None)
                   (siacoinStateElements st)) s)
       ''failed to update siacoin state elements'' (\<lambda>s.
     andThen (UpdateSiafundStateElements tx
                (filter (\<lambda>se. map_of (spentSiafundElements st) (se_ID se) = None)
                   (siafundStateElements st)) s)
       ''failed to update siafund state elements'' (\<lambda>s.
     (Ok (), s)))))))))"

definition ApplyChainUpdates :: "env \<Rightarrow> 's apply_tx \<Rightarrow> apply_update list \<Rightarrow> 's \<Rightarrow> unit res \<times> 's" where
  "ApplyChainUpdates e tx updates s =
     (case SiacoinStateElements tx s of
        Inl err \<Rightarrow> (Fail (Wrap ''failed to get siacoin state elements'' err), s)
      | Inr sces \<Rightarrow>
          (case SiafundStateElements tx s of
             Inl err \<Rightarrow> (Fail (Wrap ''failed to get siafund state elements'' err), s)
           | Inr sfes \<Rightarrow>
               (case applyUpdates e tx s updates
                       \<lparr>events = [], balances = [], newSiacoinElements = [], newSiafundElements = [],
                        spentSiacoinElements = [], spentSiafundElements = [],
                        siacoinStateElements = sces, siafundStateElements = sfes\<rparr> of
                  Fail err \<Rightarrow> (Fail err, s)
                | Panic p \<Rightarrow> (Panic p, s)
                | Ok st \<Rightarrow> applyFlush tx st s)))"

subsection \<open>RevertChainUpdate\<close>

record revert_state =
  rbalances :: "(address \<times> balance) list"
  deletedSiacoinElements :: "hash256 list"
  addedSiacoinElements :: "siacoin_element list"
  deletedSiafundElements :: "hash256 list"
  addedSiafundElements :: "siafund_element list"

fun revertMatured :: "('s, 'z) update_tx_scheme \<Rightarrow> 's \<Rightarrow> siacoin_element list \<Rightarrow>
    (address \<times> balance) list \<Rightarrow> (address \<times> balance) list res" where
  "revertMatured tx s [] bal = Ok bal"
| "revertMatured tx s (se # matured) bal =
     (case updateBalance tx s bal (sco_Address (sce_SiacoinOutput se))
             (\<lambda>b. case addCurrency (ImmatureSiacoins b) (sco_Value (sce_SiacoinOutput se)) of
                     Ok i \<Rightarrow> (case subCurrency (Siacoins b) (sco_Value (sce_SiacoinOutput se)) of
                                Ok c \<Rightarrow> Ok (b\<lparr>ImmatureSiacoins := i, Siacoins := c\<rparr>)
                              | Fail e \<Rightarrow> Fail e | Panic p \<Rightarrow> Panic p)
                   | Fail e \<Rightarrow> Fail e | Panic p \<Rightarrow> Panic p) of
        Ok bal' \<Rightarrow> revertMatured tx s matured bal'
      | Fail e \<Rightarrow> Fail (Wrap ''failed to update address balance'' e)
      | Panic p \<Rightarrow> Panic p)"

definition revertSiacoinElement :: "('s, 'z) update_tx_scheme \<Rightarrow> 's \<Rightarrow> u64 \<Rightarrow> (hash256 \<Rightarrow> bool) \<Rightarrow>
    siacoin_element \<times> bool \<Rightarrow> revert_state \<Rightarrow> (revert_state \<times> error option) res" where
  "revertSiacoinElement tx s height ephemeral x st =
     (case x of (se, spent) \<Rightarrow>
        (case AddressRelevant tx (sco_Address (sce_SiacoinOutput se)) s of
           Inl err \<Rightarrow> Ok (st, Some (Wrap ''failed to check if address is relevant'' err))
         | Inr relevant \<Rightarrow>
             if \<not> relevant then Ok (st, None)
             else if ephemeral (sce_ID se) then Ok (st, None)
             else (let st1 = (if spent
                              then st\<lparr>addedSiacoinElements := addedSiacoinElements st @ [se]\<rparr>
                              else st\<lparr>deletedSiacoinElements :=
                                        deletedSiacoinElements st @ [sce_ID se]\<rparr>)
                   in (case updateBalance tx s (rbalances st1) (sco_Address (sce_SiacoinOutput se))
                             (\<lambda>b. if height < sce_MaturityHeight se
                                   then (case subCurrency (ImmatureSiacoins b)
                                                (sco_Value (sce_SiacoinOutput se)) of
                                           Ok i \<Rightarrow> Ok (b\<lparr>ImmatureSiacoins := i\<rparr>)
                                         | Fail e \<Rightarrow> Fail e | Panic p \<Rightarrow> Panic p)
                                   else if spent
                                   then (case addCurrency (Siacoins b)
                                                (sco_Value (sce_SiacoinOutput se)) of
                                           Ok c \<Rightarrow> Ok (b\<lparr>Siacoins := c\<rparr>)
                                         | Fail e \<Rightarrow> Fail e | Panic p \<Rightarrow> Panic p)
                                   else (case subCurrency (Siacoins b)
                                                (sco_Value (sce_SiacoinOutput se)) of
                                           Ok c \<Rightarrow> Ok (b\<lparr>Siacoins := c\<rparr>)
                                         | Fail e \<Rightarrow> Fail e | Panic p \<Rightarrow> Panic p)) of
                         Ok bal \<Rightarrow> Ok (st1\<lparr>rbalances := bal\<rparr>, None)
                       | Fail e \<Rightarrow> Ok (st1, Some e)
                       | Panic p \<Rightarrow> Panic p))))"

text \<open>
  The siafund callback of the reverter. On an \<^verbatim>\<open>AddressRelevant\<close> error it assigns
  \<^verbatim>\<open>siacoinElementErr\<close>, which nothing reads afterwards, and returns:
  \<^verbatim>\<open>siafundElementErr\<close> stays nil and the iteration goes on. The decrement is
  \<^verbatim>\<open>b.Siafunds -= se.SiafundOutput.Value\<close> on \<^verbatim>\<open>uint64\<close>.
\<close>

definition revertSiafundElement :: "('s, 'z) update_tx_scheme \<Rightarrow> 's \<Rightarrow> (hash256 \<Rightarrow> bool) \<Rightarrow>
    siafund_element \<times> bool \<Rightarrow> revert_state \<Rightarrow> (revert_state \<times> error option) res" where
  "revertSiafundElement tx s ephemeral x st =
     (case x of (se, spent) \<Rightarrow>
        (case AddressRelevant tx (sfo_Address (sfe_SiafundOutput se)) s of
           Inl err \<Rightarrow> Ok (st, None)
         | Inr relevant \<Rightarrow>
             if \<not> relevant then Ok (st, None)
             else if ephemeral (sfe_ID se) then Ok (st, None)
             else (let st1 = (if spent
                              then st\<lparr>addedSiafundElements := addedSiafundElements st @ [se]\<rparr>
                              else st\<lparr>deletedSiafundElements :=
                                        deletedSiafundElements st @ [sfe_ID se]\<rparr>)
                   in (case updateBalance tx s (rbalances st1) (sfo_Address (sfe_SiafundOutput se))
                             (\<lambda>b. if spent
                                   then Ok (b\<lparr>Siafunds := Siafunds b +
                                                 sfo_Value (sfe_SiafundOutput se)\<rparr>)
                                   else Ok (b\<lparr>Siafunds := Siafunds b -
                                                 sfo_Value (sfe_SiafundOutput se)\<rparr>)) of
                         Ok bal \<Rightarrow> Ok (st1\<lparr>rbalances := bal\<rparr>, None)
                       | Fail e \<Rightarrow> Ok (st1, Some e)
                       | Panic p \<Rightarrow> Panic p))))"

text \<open>
  The writes of the reverter. The state elements are read and their proofs updated in
  the slice that was read; no \<^verbatim>\<open>UpdateSiacoinStateElements\<close> or
  \<^verbatim>\<open>UpdateSiafundStateElements\<close> call follows, so only the error of the read is seen.
\<close>

definition revertFlush :: "'s revert_tx \<Rightarrow> chain_index \<Rightarrow> revert_state \<Rightarrow> 's \<Rightarrow> unit res \<times> 's" where
  "revertFlush tx revertedIndex st s =
     andThen (UpdateBalances tx
                (map (\<lambda>(addr, b). \<lparr>ab_Address = addr, ab_Balance = b\<rparr>) (rbalances st)) s)
       ''failed to update address balance'' (\<lambda>s.
     andThen (AddSiacoinElements tx (addedSiacoinElements st) s)
       ''failed to add siacoin elements'' (\<lambda>s.
     andThen (RemoveSiacoinElements tx (deletedSiacoinElements st) s)
       ''failed to remove siacoin elements'' (\<lambda>s.
     (case SiacoinStateElements tx s of
        Inl err \<Rightarrow> (Fail (Wrap ''failed to get siacoin state elements'' err), s)
      | Inr siacoinElements \<Rightarrow>
     andThen (AddSiafundElements tx (addedSiafundElements st) s)
       ''failed to add siafund elements'' (\<lambda>s.
     andThen (RemoveSiafundElements tx (deletedSiafundElements st) s)
       ''failed to remove siafund elements'' (\<lambda>s.
     (case SiafundStateElements tx s of
        Inl err \<Rightarrow> (Fail (Wrap ''failed to get siafund state elements'' err), s)
      | Inr siafundElements \<Rightarrow>
          (case RevertEvents tx revertedIndex s of
             (Some err, s') \<Rightarrow> (Fail err, s')
           | (None, s') \<Rightarrow> (Ok (), s')))))))))"

definition RevertChainUpdate :: "env \<Rightarrow> 's revert_tx \<Rightarrow> revert_update \<Rightarrow> 's \<Rightarrow> unit res \<times> 's" where
  "RevertChainUpdate e tx cru s =
     (let ephemeral = ephemeralOf e (ru_Block cru);
          revertedIndex = \<lparr>ci_Height = ci_Height (ru_Index cru) + 1, ci_ID = BlockID e (ru_Block cru)\<rparr>
      in (case MaturedSiacoinElements tx revertedIndex s of
            Inl err \<Rightarrow> (Fail (Wrap ''failed to get matured siacoin elements'' err), s)
          | Inr matured \<Rightarrow>
              (case revertMatured tx s matured [] of
                 Fail err \<Rightarrow> (Fail err, s)
               | Panic p \<Rightarrow> (Panic p, s)
               | Ok bal \<Rightarrow>
                   (case forEachElement
                           (revertSiacoinElement tx s (ci_Height (ru_Index cru)) ephemeral)
                           (ru_SiacoinElements cru)
                           \<lparr>rbalances = bal, deletedSiacoinElements = [], addedSiacoinElements = [],
                            deletedSiafundElements = [], addedSiafundElements = []\<rparr> of
                      Fail err \<Rightarrow> (Fail err, s)
                    | Panic p \<Rightarrow> (Panic p, s)
                    | Ok (st, Some siacoinElementErr) \<Rightarrow>
                        (Fail (Wrap ''failed to update address balance'' siacoinElementErr), s)
                    | Ok (st, None) \<Rightarrow>
                        (case forEachElement (revertSiafundElement tx s ephemeral)
                                (ru_SiafundElements cru) st of
                           Fail err \<Rightarrow> (Fail err, s)
                         | Panic p \<Rightarrow> (Panic p, s)
                         | Ok (st2, Some siafundElementErr) \<Rightarrow>
                             (Fail (Wrap ''failed to update address balance'' siafundElementErr), s)
                         | Ok (st2, None) \<Rightarrow> revertFlush tx revertedIndex st2 s)))))"

subsection \<open>Stores\<close>

text \<open>
  Modelled from the spec: the store behind the interfaces (\<^verbatim>\<open>persist/sqlite\<close>) is not
  in the source files. Section 4.1: the state elements are the ones of the stored
  outputs and \<^verbatim>\<open>UpdateSiacoinStateElements\<close> replaces the proofs of the given ids;
  \<^verbatim>\<open>MaturedSiacoinElements(index)\<close> are the outputs whose maturity height is the
  index's; \<^verbatim>\<open>AddressBalance\<close> is zero for an unknown address; \<^verbatim>\<open>UpdateBalances\<close>
  overwrites; \<^verbatim>\<open>RevertEvents(index)\<close> deletes the events at the index. No call fails.
\<close>

record mem_store =
  ms_relevant :: "address \<Rightarrow> bool"
  ms_balances :: "address \<Rightarrow> balance"
  ms_siacoinElements :: "siacoin_element list"
  ms_siafundElements :: "siafund_element list"
  ms_events :: "event list"

text \<open>
  Modelled from the spec: the methods of \<^verbatim>\<open>UpdateTx\<close> on that store (section 4.1), then
  \<^verbatim>\<open>AddEvents\<close> and \<^verbatim>\<open>RevertEvents\<close>.
\<close>

definition mem_update_tx :: "'z \<Rightarrow> (mem_store, 'z) update_tx_scheme" where
  "mem_update_tx ext =
     \<lparr>SiacoinStateElements = (\<lambda>s. Inr (map sce_StateElement (ms_siacoinElements s))),
      UpdateSiacoinStateElements = (\<lambda>l s. (None,
         s\<lparr>ms_siacoinElements :=
             map (\<lambda>ele. case find (\<lambda>se. se_ID se = sce_ID ele) l of
                          Some se \<Rightarrow> ele\<lparr>sce_StateElement := se\<rparr>
                        | None \<Rightarrow> ele) (ms_siacoinElements s)\<rparr>)),
      SiafundStateElements = (\<lambda>s. Inr (map sfe_StateElement (ms_siafundElements s))),
      UpdateSiafundStateElements = (\<lambda>l s. (None,
         s\<lparr>ms_siafundElements :=
             map (\<lambda>ele. case find (\<lambda>se. se_ID se = sfe_ID ele) l of
                          Some se \<Rightarrow> ele\<lparr>sfe_StateElement := se\<rparr>
                        | None \<Rightarrow> ele) (ms_siafundElements s)\<rparr>)),
      AddSiacoinElements = (\<lambda>l s. (None, s\<lparr>ms_siacoinElements := ms_siacoinElements s @ l\<rparr>)),
      RemoveSiacoinElements = (\<lambda>ids s. (None,
         s\<lparr>ms_siacoinElements := filter (\<lambda>ele. sce_ID ele \<notin> set ids) (ms_siacoinElements s)\<rparr>)),
      AddSiafundElements = (\<lambda>l s. (None, s\<lparr>ms_siafundElements := ms_siafundElements s @ l\<rparr>)),
      RemoveSiafundElements = (\<lambda>ids s. (None,
         s\<lparr>ms_siafundElements := filter (\<lambda>ele. sfe_ID ele \<notin> set ids) (ms_siafundElements s)\<rparr>)),
      MaturedSiacoinElements = (\<lambda>index s.
         Inr (filter (\<lambda>ele. sce_MaturityHeight ele = ci_Height index) (ms_siacoinElements s))),
      AddressRelevant = (\<lambda>addr s. Inr (ms_relevant s addr)),
      AddressBalance = (\<lambda>addr s. Inr (ms_balances s addr)),
      UpdateBalances = (\<lambda>l s. (None,
         s\<lparr>ms_balances := fold (\<lambda>ab f. f(ab_Address ab := ab_Balance ab)) l (ms_balances s)\<rparr>)),
      \<dots> = ext\<rparr>"

text \<open>Modelled from the spec: \<^verbatim>\<open>AddEvents(list)\<close> appends the events (section 4.1).\<close>

definition mem_apply_tx :: "mem_store apply_tx" where
  "mem_apply_tx = mem_update_tx \<lparr>AddEvents = (\<lambda>evs s. (None, s\<lparr>ms_events := ms_events s @ evs\<rparr>))\<rparr>"

text \<open>
  Modelled from the spec: \<^verbatim>\<open>RevertEvents(index)\<close> deletes all events at the index
  (section 4.1).
\<close>

definition mem_revert_tx :: "mem_store revert_tx" where
  "mem_revert_tx = mem_update_tx
     \<lparr>RevertEvents = (\<lambda>index s. (None,
        s\<lparr>ms_events := filter (\<lambda>ev. ev_Index ev \<noteq> index) (ms_events s)\<rparr>))\<rparr>"

text \<open>A store whose \<^verbatim>\<open>AddressRelevant\<close> fails with \<open>err\<close> on the address \<open>a\<close>.\<close>

definition failRelevant :: "address \<Rightarrow> error \<Rightarrow> ('s, 'z) update_tx_scheme \<Rightarrow> ('s, 'z) update_tx_scheme" where
  "failRelevant a err tx =
     tx\<lparr>AddressRelevant := (\<lambda>addr s. if addr = a then Inl err else AddressRelevant tx addr s)\<rparr>"

text \<open>A store whose \<^verbatim>\<open>AddressBalance\<close> fails with \<open>err\<close> on the address \<open>a\<close>.\<close>

definition failBalance :: "address \<Rightarrow> error \<Rightarrow> ('s, 'z) update_tx_scheme \<Rightarrow> ('s, 'z) update_tx_scheme" where
  "failBalance a err tx =
     tx\<lparr>AddressBalance := (\<lambda>addr s. if addr = a then Inl err else AddressBalance tx addr s)\<rparr>"

text \<open>
  A store transaction that records its write calls, in order and with their arguments,
  beside the state of the store it wraps.
\<close>

datatype call =
    CallUpdateBalances "address_balance list"
  | CallAddSiacoinElements "siacoin_element list"
  | CallRemoveSiacoinElements "hash256 list"
  | CallAddSiafundElements "siafund_element list"
  | CallRemoveSiafundElements "hash256 list"
  | CallAddEvents "event list"
  | CallUpdateSiacoinStateElements "state_element list"
  | CallUpdateSiafundStateElements "state_element list"

definition logWrite :: "call \<Rightarrow> ('s \<Rightarrow> error option \<times> 's) \<Rightarrow> 's \<times> call list \<Rightarrow>
    error option \<times> 's \<times> call list" where
  "logWrite c w sl = (case sl of (s, log) \<Rightarrow> (case w s of (r, s') \<Rightarrow> (r, s', log @ [c])))"

definition logged :: "'s apply_tx \<Rightarrow> ('s \<times> call list) apply_tx" where
  "logged tx =
     \<lparr>SiacoinStateElements = (\<lambda>sl. SiacoinStateElements tx (fst sl)),
      UpdateSiacoinStateElements = (\<lambda>l. logWrite (CallUpdateSiacoinStateElements l)
                                        (UpdateSiacoinStateElements tx l)),
      SiafundStateElements = (\<lambda>sl. SiafundStateElements tx (fst sl)),
      UpdateSiafundStateElements = (\<lambda>l. logWrite (CallUpdateSiafundStateElements l)
                                        (UpdateSiafundStateElements tx l)),
      AddSiacoinElements = (\<lambda>l. logWrite (CallAddSiacoinElements l) (AddSiacoinElements tx l)),
      RemoveSiacoinElements = (\<lambda>l. logWrite (CallRemoveSiacoinElements l) (RemoveSiacoinElements tx l)),
      AddSiafundElements = (\<lambda>l. logWrite (CallAddSiafundElements l) (AddSiafundElements tx l)),
      RemoveSiafundElements = (\<lambda>l. logWrite (CallRemoveSiafundElements l) (RemoveSiafundElements tx l)),
      MaturedSiacoinElements = (\<lambda>index sl. MaturedSiacoinElements tx index (fst sl)),
      AddressRelevant = (\<lambda>addr sl. AddressRelevant tx addr (fst sl)),
      AddressBalance = (\<lambda>addr sl. AddressBalance tx addr (fst sl)),
      UpdateBalances = (\<lambda>l. logWrite (CallUpdateBalances l) (UpdateBalances tx l)),
      AddEvents = (\<lambda>l. logWrite (CallAddEvents l) (AddEvents tx l))\<rparr>"

text \<open>Example values for the applier and the reverter.\<close>

definition env0 :: env where
  "env0 = \<lparr>SiacoinOutputID = (\<lambda>txn i. 300 + of_nat i),
           SiafundOutputID = (\<lambda>txn i. 400 + of_nat i),
           V2SiacoinOutputID = (\<lambda>txn i. 500 + of_nat i),
           V2SiafundOutputID = (\<lambda>txn i. 600 + of_nat i),
           BlockID = (\<lambda>b. 99),
           AppliedEvents = (\<lambda>cau relevant. Ok [])\<rparr>"

definition emptyBlock :: block where
  "emptyBlock = \<lparr>Transactions = [], V2Transactions = []\<rparr>"

definition zeroBalance :: balance where
  "zeroBalance = \<lparr>Siacoins = 0, ImmatureSiacoins = 0, Siafunds = 0\<rparr>"

definition store0 :: mem_store where
  "store0 = \<lparr>ms_relevant = (\<lambda>a. a = 7), ms_balances = (\<lambda>a. zeroBalance),
             ms_siacoinElements = [], ms_siafundElements = [], ms_events = []\<rparr>"

definition revertCreatedSF :: revert_update where
  "revertCreatedSF = \<lparr>ru_Index = \<lparr>ci_Height = 9, ci_ID = 98\<rparr>, ru_Block = emptyBlock,
      ru_SiacoinElements = [], ru_SiafundElements = [(sfUtxo10, False)],
      ru_UpdateElementProof = (\<lambda>se. se)\<rparr>"

definition applySpentSF :: apply_update where
  "applySpentSF = \<lparr>au_Index = \<lparr>ci_Height = 10, ci_ID = 99\<rparr>, au_Block = emptyBlock,
      au_SiacoinElements = [], au_SiafundElements = [(sfUtxo10, True)],
      au_UpdateElementProof = (\<lambda>se. se)\<rparr>"

definition applyCreatedSF :: apply_update where
  "applyCreatedSF = \<lparr>au_Index = \<lparr>ci_Height = 10, ci_ID = 99\<rparr>, au_Block = emptyBlock,
      au_SiacoinElements = [], au_SiafundElements = [(sfUtxo10, False)],
      au_UpdateElementProof = (\<lambda>se. se)\<rparr>"

definition applyCreatedSC :: apply_update where
  "applyCreatedSC = \<lparr>au_Index = \<lparr>ci_Height = 10, ci_ID = 99\<rparr>, au_Block = emptyBlock,
      au_SiacoinElements = [(utxo100, False)], au_SiafundElements = [],
      au_UpdateElementProof = (\<lambda>se. se)\<rparr>"

text \<open>
  A store that tracks one output of 100 for the address 7, and an empty block on top of
  it: the apply update adds a hash to every proof, the revert update takes it off again.
\<close>

definition store1 :: mem_store where
  "store1 = \<lparr>ms_relevant = (\<lambda>a. a = 7),
             ms_balances = (\<lambda>a. zeroBalance)(7 := \<lparr>Siacoins = 100, ImmatureSiacoins = 0, Siafunds = 0\<rparr>),
             ms_siacoinElements = [utxo100], ms_siafundElements = [], ms_events = []\<rparr>"

definition applyEmpty :: apply_update where
  "applyEmpty = \<lparr>au_Index = \<lparr>ci_Height = 10, ci_ID = 99\<rparr>, au_Block = emptyBlock,
      au_SiacoinElements = [], au_SiafundElements = [],
      au_UpdateElementProof = (\<lambda>se. se\<lparr>se_MerkleProof := 5 # se_MerkleProof se\<rparr>)\<rparr>"

definition revertEmpty :: revert_update where
  "revertEmpty = \<lparr>ru_Index = \<lparr>ci_Height = 9, ci_ID = 98\<rparr>, ru_Block = emptyBlock,
      ru_SiacoinElements = [], ru_SiafundElements = [],
      ru_UpdateElementProof = (\<lambda>se. se\<lparr>se_MerkleProof := tl (se_MerkleProof se)\<rparr>)\<rparr>"

definition store1_applied :: mem_store where
  "store1_applied = store1\<lparr>ms_siacoinElements :=
      [utxo100\<lparr>sce_StateElement := \<lparr>se_ID = 1, se_LeafIndex = 0, se_MerkleProof = [5]\<rparr>\<rparr>]\<rparr>"

text \<open>
  Following the spec's words (glossary): an ephemeral output is an output created and
  spent inside the same block, by v1 or by v2 transactions.
\<close>

definition createdInBlock :: "env \<Rightarrow> block \<Rightarrow> hash256 \<Rightarrow> bool" where
  "createdInBlock e b x =
     ((\<exists>txn \<in> set (Transactions b).
         (\<exists>i < length (SiacoinOutputs txn). SiacoinOutputID e txn i = x) \<or>
         (\<exists>i < length (SiafundOutputs txn). SiafundOutputID e txn i = x)) \<or>
      (\<exists>txn \<in> set (V2Transactions b).
         (\<exists>i < length (v2_SiacoinOutputs txn). V2SiacoinOutputID e txn i = x) \<or>
         (\<exists>i < length (v2_SiafundOutputs txn). V2SiafundOutputID e txn i = x)))"

definition spentInBlock :: "block \<Rightarrow> hash256 \<Rightarrow> bool" where
  "spentInBlock b x =
     ((\<exists>txn \<in> set (Transactions b).
         x \<in> sci_ParentID ` set (SiacoinInputs txn) \<or> x \<in> sfi_ParentID ` set (SiafundInputs txn)) \<or>
      (\<exists>txn \<in> set (V2Transactions b).
         x \<in> set (v2_SiacoinInputs txn) \<or> x \<in> set (v2_SiafundInputs txn)))"

definition ephemeralOutput :: "env \<Rightarrow> block \<Rightarrow> hash256 \<Rightarrow> bool" where
  "ephemeralOutput e b x = (createdInBlock e b x \<and> spentInBlock b x)"

text \<open>
  A block whose first v2 transaction creates an output of 30 for the address 7 and whose
  second v2 transaction spends it; the update reports the element once, as spent.
\<close>

definition v2Block :: block where
  "v2Block = \<lparr>Transactions = [],
      V2Transactions =
        [\<lparr>v2_SiacoinInputs = [], v2_SiacoinOutputs = [\<lparr>sco_Value = 30, sco_Address = 7\<rparr>],
          v2_SiafundInputs = [], v2_SiafundOutputs = []\<rparr>,
         \<lparr>v2_SiacoinInputs = [500], v2_SiacoinOutputs = [],
          v2_SiafundInputs = [], v2_SiafundOutputs = []\<rparr>]\<rparr>"

definition ephemeral30 :: siacoin_element where
  "ephemeral30 = \<lparr>sce_StateElement = \<lparr>se_ID = 500, se_LeafIndex = 0, se_MerkleProof = []\<rparr>,
                  sce_SiacoinOutput = \<lparr>sco_Value = 30, sco_Address = 7\<rparr>,
                  sce_MaturityHeight = 0\<rparr>"

definition applyV2 :: apply_update where
  "applyV2 = \<lparr>au_Index = \<lparr>ci_Height = 10, ci_ID = 99\<rparr>, au_Block = v2Block,
      au_SiacoinElements = [(ephemeral30, True)], au_SiafundElements = [],
      au_UpdateElementProof = (\<lambda>se. se)\<rparr>"

text \<open>
  The part of the ephemeral outputs that the code detects: an output that a v1
  transaction of the block creates and a later v1 transaction of the block spends.
\<close>

definition createdBy :: "env \<Rightarrow> transaction \<Rightarrow> hash256 \<Rightarrow> bool" where
  "createdBy e txn x =
     ((\<exists>i < length (SiacoinOutputs txn). SiacoinOutputID e txn i = x) \<or>
      (\<exists>i < length (SiafundOutputs txn). SiafundOutputID e txn i = x))"

definition spentBy :: "transaction \<Rightarrow> hash256 \<Rightarrow> bool" where
  "spentBy txn x =
     (x \<in> sci_ParentID ` set (SiacoinInputs txn) \<or> x \<in> sfi_ParentID ` set (SiafundInputs txn))"

definition v1Ephemeral :: "env \<Rightarrow> block \<Rightarrow> hash256 \<Rightarrow> bool" where
  "v1Ephemeral e b x =
     (\<exists>i j. i < j \<and> j < length (Transactions b) \<and>
            createdBy e (Transactions b ! i) x \<and> spentBy (Transactions b ! j) x)"

text \<open>An update without the elements of id \<open>x\<close>.\<close>

definition withoutElement :: "hash256 \<Rightarrow> apply_update \<Rightarrow> apply_update" where
  "withoutElement x cau =
     cau\<lparr>au_SiacoinElements := filter (\<lambda>el. sce_ID (fst el) \<noteq> x) (au_SiacoinElements cau),
         au_SiafundElements := filter (\<lambda>el. sfe_ID (fst el) \<noteq> x) (au_SiafundElements cau)\<rparr>"

definition withoutElementR :: "hash256 \<Rightarrow> revert_update \<Rightarrow> revert_update" where
  "withoutElementR x cru =
     cru\<lparr>ru_SiacoinElements := filter (\<lambda>el. sce_ID (fst el) \<noteq> x) (ru_SiacoinElements cru),
         ru_SiafundElements := filter (\<lambda>el. sfe_ID (fst el) \<noteq> x) (ru_SiafundElements cru)\<rparr>"

text \<open>The name of a recorded call, and the order the specification fixes for the flush.\<close>

fun callName :: "call \<Rightarrow> string" where
  "callName (CallUpdateBalances l) = ''UpdateBalances''"
| "callName (CallAddSiacoinElements l) = ''AddSiacoinElements''"
| "callName (CallRemoveSiacoinElements l) = ''RemoveSiacoinElements''"
| "callName (CallAddSiafundElements l) = ''AddSiafundElements''"
| "callName (CallRemoveSiafundElements l) = ''RemoveSiafundElements''"
| "callName (CallAddEvents l) = ''AddEvents''"
| "callName (CallUpdateSiacoinStateElements l) = ''UpdateSiacoinStateElements''"
| "callName (CallUpdateSiafundStateElements l) = ''UpdateSiafundStateElements''"

definition flushOrder :: "string list" where
  "flushOrder = [''UpdateBalances'', ''AddSiacoinElements'', ''RemoveSiacoinElements'',
     ''AddSiafundElements'', ''RemoveSiafundElements'', ''AddEvents'',
     ''UpdateSiacoinStateElements'', ''UpdateSiafundStateElements'']"

definition flushCalls :: "apply_state \<Rightarrow> call list" where
  "flushCalls st =
     [CallUpdateBalances (map (\<lambda>(addr, b). \<lparr>ab_Address = addr, ab_Balance = b\<rparr>) (balances st)),
      CallAddSiacoinElements (map snd (newSiacoinElements st)),
      CallRemoveSiacoinElements (map fst (spentSiacoinElements st)),
      CallAddSiafundElements (map snd (newSiafundElements st)),
      CallRemoveSiafundElements (map fst (spentSiafundElements st)),
      CallAddEvents (events st),
      CallUpdateSiacoinStateElements
        (filter (\<lambda>se. se_ID se \<notin> set (map fst (spentSiacoinElements st))) (siacoinStateElements st)),
      CallUpdateSiafundStateElements
        (filter (\<lambda>se. se_ID se \<notin> set (map fst (spentSiafundElements st))) (siafundStateElements st))]"

text \<open>
  A block whose first v1 transaction creates an output of 30 for the address 7 and whose
  second v1 transaction spends it.
\<close>

definition v1Block :: block where
  "v1Block = \<lparr>Transactions =
        [\<lparr>SiacoinInputs = [], SiacoinOutputs = [\<lparr>sco_Value = 30, sco_Address = 7\<rparr>],
          SiafundInputs = [], SiafundOutputs = []\<rparr>,
         \<lparr>SiacoinInputs = [\<lparr>sci_ParentID = 300\<rparr>], SiacoinOutputs = [],
          SiafundInputs = [], SiafundOutputs = []\<rparr>],
      V2Transactions = []\<rparr>"

definition created30 :: siacoin_element where
  "created30 = \<lparr>sce_StateElement = \<lparr>se_ID = 300, se_LeafIndex = 0, se_MerkleProof = []\<rparr>,
                sce_SiacoinOutput = \<lparr>sco_Value = 30, sco_Address = 7\<rparr>,
                sce_MaturityHeight = 0\<rparr>"

definition applyV1 :: apply_update where
  "applyV1 = \<lparr>au_Index = \<lparr>ci_Height = 10, ci_ID = 99\<rparr>, au_Block = v1Block,
      au_SiacoinElements = [(created30, True)], au_SiafundElements = [],
      au_UpdateElementProof = (\<lambda>se. se)\<rparr>"

definition revertV1 :: revert_update where
  "revertV1 = \<lparr>ru_Index = \<lparr>ci_Height = 9, ci_ID = 98\<rparr>, ru_Block = v1Block,
      ru_SiacoinElements = [(created30, True)], ru_SiafundElements = [],
      ru_UpdateElementProof = (\<lambda>se. se)\<rparr>"

text \<open>
  A store that tracks the siafund output 2 (value 10, address 7), with the addresses 7
  and 8 relevant, and an update that reports first a new siafund output for the address
  8 and then the output 2 as spent.
\<close>

definition store2 :: mem_store where
  "store2 = \<lparr>ms_relevant = (\<lambda>a. a = 7 \<or> a = 8),
             ms_balances = (\<lambda>a. zeroBalance)
               (7 := \<lparr>Siacoins = 0, ImmatureSiacoins = 0, Siafunds = 10\<rparr>),
             ms_siacoinElements = [], ms_siafundElements = [sfUtxo10], ms_events = []\<rparr>"

definition sfCreated8 :: siafund_element where
  "sfCreated8 = \<lparr>sfe_StateElement = \<lparr>se_ID = 6, se_LeafIndex = 1, se_MerkleProof = []\<rparr>,
                 sfe_SiafundOutput = \<lparr>sfo_Value = 10, sfo_Address = 8\<rparr>,
                 sfe_ClaimStart = 0\<rparr>"

definition applyMovedSF :: apply_update where
  "applyMovedSF = \<lparr>au_Index = \<lparr>ci_Height = 10, ci_ID = 99\<rparr>, au_Block = emptyBlock,
      au_SiacoinElements = [], au_SiafundElements = [(sfCreated8, False), (sfUtxo10, True)],
      au_UpdateElementProof = (\<lambda>se. se)\<rparr>"

section \<open>Lemmas and theorems\<close>

text \<open>
  C10. A fund or fundsf call with amount zero returns a nil \<open>toSign\<close> and a nil error and
  changes nothing: the transaction gets no input and no change output, and the \<open>used\<close>
  table is the one the call started with.
\<close>

theorem C10_zero_amount_noop:
  "fundTxn shuffle s txn 0 utxos changeAddr pool = (Ok [], txn, s) \<and>
   fundTxnSF shuffleSF s txn 0 utxosSF changeAddr claimAddr pool = (Ok [], txn, s)"
  by (simp add: fundTxn_def fundTxnSF_def)

subsection \<open>Funding: the selection loop\<close>

lemma inner_fold_SC:
  "fold (\<lambda>i m'. m'(sci_ParentID i := True)) ins m h = (m h \<or> (\<exists>i \<in> set ins. sci_ParentID i = h))"
  by (induction ins arbitrary: m) auto

lemma outer_fold_SC:
  "fold (\<lambda>ptxn m. fold (\<lambda>i m'. m'(sci_ParentID i := True)) (SiacoinInputs ptxn) m) pool m h
     = (m h \<or> poolSpentSC pool h)"
  by (induction pool arbitrary: m) (auto simp: inner_fold_SC poolSpentSC_def)

lemma inPoolSC_eq: "inPoolSC pool = poolSpentSC pool"
  by (rule ext) (simp add: inPoolSC_def outer_fold_SC)

lemma inner_fold_SF:
  "fold (\<lambda>i m'. m'(sfi_ParentID i := True)) ins m h = (m h \<or> (\<exists>i \<in> set ins. sfi_ParentID i = h))"
  by (induction ins arbitrary: m) auto

lemma outer_fold_SF:
  "fold (\<lambda>ptxn m. fold (\<lambda>i m'. m'(sfi_ParentID i := True)) (SiafundInputs ptxn) m) pool m h
     = (m h \<or> poolSpentSF pool h)"
  by (induction pool arbitrary: m) (auto simp: inner_fold_SF poolSpentSF_def)

lemma inPoolSF_eq: "inPoolSF pool = poolSpentSF pool"
  by (rule ext) (simp add: inPoolSF_def outer_fold_SF)

lemma Currency_Add_Some: "Currency_Add c v = Some r \<Longrightarrow> unat r = unat c + unat v"
  by (auto simp: Currency_Add_def unat_word_ariths split: if_splits)

lemma Currency_Add_None: "Currency_Add c v = None \<Longrightarrow> 2 ^ 128 \<le> unat c + unat v"
  by (auto simp: Currency_Add_def split: if_splits)

lemma totalSC_simps [simp]: "totalSC [] = 0" "totalSC (x # xs) = valSC x + totalSC xs"
  "totalSC (xs @ ys) = totalSC xs + totalSC ys"
  by (simp_all add: totalSC_def)

lemma totalSC_take_le: "totalSC (take n xs) \<le> totalSC xs"
proof -
  have "totalSC xs = totalSC (take n xs) + totalSC (drop n xs)"
    by (metis append_take_drop_id totalSC_simps(3))
  then show ?thesis by simp
qed

lemma scanSC_Some:
  "scanSC usd ip amount xs sm fe = Some (sm', fe') \<Longrightarrow> unat sm < unat amount \<Longrightarrow>
   \<exists>n \<le> length (eligibleSC usd ip xs).
      fe' = fe @ take n (eligibleSC usd ip xs) \<and>
      unat sm' = unat sm + totalSC (take n (eligibleSC usd ip xs)) \<and>
      (n = length (eligibleSC usd ip xs) \<or> amount \<le> sm') \<and>
      (\<forall>m < n. unat sm + totalSC (take m (eligibleSC usd ip xs)) < unat amount)"
proof (induction xs arbitrary: sm fe)
  case Nil
  then show ?case by (simp add: eligibleSC_def)
next
  case (Cons x xs)
  show ?case
  proof (cases "usd (sce_ID x) \<or> ip (sce_ID x)")
    case True
    then have r: "scanSC usd ip amount xs sm fe = Some (sm', fe')" using Cons.prems(1) by simp
    from True have E: "eligibleSC usd ip (x # xs) = eligibleSC usd ip xs"
      by (auto simp: eligibleSC_def)
    show ?thesis unfolding E by (rule Cons.IH [OF r Cons.prems(2)])
  next
    case False
    then have E: "eligibleSC usd ip (x # xs) = x # eligibleSC usd ip xs"
      by (simp add: eligibleSC_def)
    from False Cons.prems(1) obtain s1 where
      s1: "Currency_Add sm (sco_Value (sce_SiacoinOutput x)) = Some s1"
      by (auto split: option.splits)
    have u1: "unat s1 = unat sm + valSC x"
      using Currency_Add_Some [OF s1] by (simp add: valSC_def)
    show ?thesis
    proof (cases "amount \<le> s1")
      case True
      with False s1 Cons.prems(1) have "sm' = s1" "fe' = fe @ [x]" by auto
      with u1 True Cons.prems(2) show ?thesis
        unfolding E by (intro exI [of _ 1]) auto
    next
      case ge: False
      with False s1 Cons.prems(1) have r: "scanSC usd ip amount xs s1 (fe @ [x]) = Some (sm', fe')"
        by auto
      from ge have lt: "unat s1 < unat amount" by (simp add: word_less_nat_alt not_le)
      from Cons.IH [OF r lt] obtain n where n:
        "n \<le> length (eligibleSC usd ip xs)"
        "fe' = (fe @ [x]) @ take n (eligibleSC usd ip xs)"
        "unat sm' = unat s1 + totalSC (take n (eligibleSC usd ip xs))"
        "n = length (eligibleSC usd ip xs) \<or> amount \<le> sm'"
        "\<forall>m < n. unat s1 + totalSC (take m (eligibleSC usd ip xs)) < unat amount"
        by blast
      have "\<forall>m < Suc n. unat sm + totalSC (take m (x # eligibleSC usd ip xs)) < unat amount"
      proof (intro allI impI)
        fix m assume "m < Suc n"
        show "unat sm + totalSC (take m (x # eligibleSC usd ip xs)) < unat amount"
        proof (cases m)
          case 0 then show ?thesis using Cons.prems(2) by simp
        next
          case (Suc k)
          with \<open>m < Suc n\<close> n(5) u1 show ?thesis by (simp add: add.assoc)
        qed
      qed
      with n u1 show ?thesis
        unfolding E by (intro exI [of _ "Suc n"]) (auto simp: add.assoc)
    qed
  qed
qed

lemma scanSC_None:
  "scanSC usd ip amount xs sm fe = None \<Longrightarrow> unat sm < unat amount \<Longrightarrow>
   \<exists>n < length (eligibleSC usd ip xs).
      2 ^ 128 \<le> unat sm + totalSC (take (Suc n) (eligibleSC usd ip xs)) \<and>
      (\<forall>m \<le> n. unat sm + totalSC (take m (eligibleSC usd ip xs)) < unat amount)"
proof (induction xs arbitrary: sm fe)
  case Nil
  then show ?case by simp
next
  case (Cons x xs)
  show ?case
  proof (cases "usd (sce_ID x) \<or> ip (sce_ID x)")
    case True
    then have r: "scanSC usd ip amount xs sm fe = None" using Cons.prems(1) by simp
    from True have E: "eligibleSC usd ip (x # xs) = eligibleSC usd ip xs"
      by (auto simp: eligibleSC_def)
    show ?thesis unfolding E by (rule Cons.IH [OF r Cons.prems(2)])
  next
    case False
    then have E: "eligibleSC usd ip (x # xs) = x # eligibleSC usd ip xs"
      by (simp add: eligibleSC_def)
    show ?thesis
    proof (cases "Currency_Add sm (sco_Value (sce_SiacoinOutput x))")
      case None
      from Currency_Add_None [OF None] Cons.prems(2) show ?thesis
        unfolding E by (intro exI [of _ 0]) (auto simp: valSC_def)
    next
      case (Some s1)
      have u1: "unat s1 = unat sm + valSC x"
        using Currency_Add_Some [OF Some] by (simp add: valSC_def)
      from False Some Cons.prems(1) have ge: "\<not> amount \<le> s1" by (auto split: if_splits)
      with False Some Cons.prems(1) have r: "scanSC usd ip amount xs s1 (fe @ [x]) = None"
        by auto
      from ge have lt: "unat s1 < unat amount" by (simp add: word_less_nat_alt not_le)
      from Cons.IH [OF r lt] obtain n where n:
        "n < length (eligibleSC usd ip xs)"
        "2 ^ 128 \<le> unat s1 + totalSC (take (Suc n) (eligibleSC usd ip xs))"
        "\<forall>m \<le> n. unat s1 + totalSC (take m (eligibleSC usd ip xs)) < unat amount"
        by blast
      have "\<forall>m \<le> Suc n. unat sm + totalSC (take m (x # eligibleSC usd ip xs)) < unat amount"
      proof (intro allI impI)
        fix m assume "m \<le> Suc n"
        show "unat sm + totalSC (take m (x # eligibleSC usd ip xs)) < unat amount"
        proof (cases m)
          case 0 then show ?thesis using Cons.prems(2) by simp
        next
          case (Suc k)
          with \<open>m \<le> Suc n\<close> n(3) u1 show ?thesis by (simp add: add.assoc)
        qed
      qed
      with n u1 show ?thesis
        unfolding E by (intro exI [of _ "Suc n"]) (auto simp: add.assoc)
    qed
  qed
qed

lemma greedyAt_unique: "greedyAt a E n \<Longrightarrow> greedyAt a E n' \<Longrightarrow> n = n'"
  unfolding greedyAt_def by (metis linorder_neqE_nat not_le)

lemma greedyAt_total: "greedyAt a E n \<Longrightarrow> unat a \<le> totalSC E"
  unfolding greedyAt_def using totalSC_take_le [of n E] by linarith

lemma scanSC_start_Some:
  assumes "scanSC usd ip amount xs 0 [] = Some (sm', fe')" "amount \<noteq> 0"
  shows "(sm' < amount \<and> fe' = eligibleSC usd ip xs \<and> unat sm' = totalSC (eligibleSC usd ip xs)) \<or>
         (\<exists>n. greedyAt amount (eligibleSC usd ip xs) n \<and> fe' = take n (eligibleSC usd ip xs) \<and>
              unat sm' = totalSC (take n (eligibleSC usd ip xs)))"
proof -
  from assms(2) have "unat (0::currency) < unat amount" by (simp add: unat_gt_0)
  from scanSC_Some [OF assms(1) this] obtain n where n:
    "n \<le> length (eligibleSC usd ip xs)" "fe' = take n (eligibleSC usd ip xs)"
    "unat sm' = totalSC (take n (eligibleSC usd ip xs))"
    "n = length (eligibleSC usd ip xs) \<or> amount \<le> sm'"
    "\<forall>m < n. totalSC (take m (eligibleSC usd ip xs)) < unat amount"
    by auto
  show ?thesis
  proof (cases "amount \<le> sm'")
    case True
    then have "unat amount \<le> unat sm'" by (simp add: word_le_nat_alt)
    with n have "greedyAt amount (eligibleSC usd ip xs) n" by (simp add: greedyAt_def)
    with n show ?thesis by blast
  next
    case False
    with n(4) have "n = length (eligibleSC usd ip xs)" by simp
    with n False show ?thesis by (simp add: not_le)
  qed
qed

lemma scanSC_start_None:
  assumes "scanSC usd ip amount xs 0 [] = None" "amount \<noteq> 0"
  shows "\<exists>n. greedyAt amount (eligibleSC usd ip xs) n \<and>
             2 ^ 128 \<le> totalSC (take n (eligibleSC usd ip xs))"
proof -
  from assms(2) have "unat (0::currency) < unat amount" by (simp add: unat_gt_0)
  from scanSC_None [OF assms(1) this] obtain n where n:
    "n < length (eligibleSC usd ip xs)"
    "2 ^ 128 \<le> totalSC (take (Suc n) (eligibleSC usd ip xs))"
    "\<forall>m \<le> n. totalSC (take m (eligibleSC usd ip xs)) < unat amount"
    by auto
  have "unat amount < 2 ^ 128" using unsigned_less [of amount] by simp
  with n have "greedyAt amount (eligibleSC usd ip xs) (Suc n)"
    by (auto simp: greedyAt_def less_Suc_eq_le)
  with n(2) show ?thesis by blast
qed

lemma used_fold_SC:
  "fold (\<lambda>e u. u(sce_ID e := True)) fe u h = (u h \<or> h \<in> sce_ID ` set fe)"
  by (induction fe arbitrary: u) auto

lemma signSC_fold:
  "fold (\<lambda>sce (toSign, t, s').
             (toSign @ [sce_ID sce],
              t\<lparr>SiacoinInputs := SiacoinInputs t @ [\<lparr>sci_ParentID = sce_ID sce\<rparr>]\<rparr>,
              s'\<lparr>used := (used s')(sce_ID sce := True)\<rparr>)) fe (ts, txn, s)
   = (ts @ map sce_ID fe,
      txn\<lparr>SiacoinInputs := SiacoinInputs txn @ map (\<lambda>e. \<lparr>sci_ParentID = sce_ID e\<rparr>) fe\<rparr>,
      s\<lparr>used := fold (\<lambda>e u. u(sce_ID e := True)) fe (used s)\<rparr>)"
  by (induction fe arbitrary: ts txn s) simp_all

lemma signSC_eq:
  "signSC fe txn s =
     (map sce_ID fe,
      txn\<lparr>SiacoinInputs := SiacoinInputs txn @ map (\<lambda>e. \<lparr>sci_ParentID = sce_ID e\<rparr>) fe\<rparr>,
      s\<lparr>used := (\<lambda>h. used s h \<or> h \<in> sce_ID ` set fe)\<rparr>)"
proof -
  have "fold (\<lambda>e u. u(sce_ID e := True)) fe (used s) = (\<lambda>h. used s h \<or> h \<in> sce_ID ` set fe)"
    by (rule ext) (rule used_fold_SC)
  then show ?thesis unfolding signSC_def signSC_fold by simp
qed

lemma totalSC_perm:
  assumes "mset ys = mset xs"
  shows "totalSC (eligibleSC u p ys) = totalSC (eligibleSC u p xs)"
proof -
  have "mset (eligibleSC u p ys) = mset (eligibleSC u p xs)"
    unfolding eligibleSC_def mset_filter using assms by simp
  then have "mset (map valSC (eligibleSC u p ys)) = mset (map valSC (eligibleSC u p xs))"
    by (metis mset_map)
  then show ?thesis unfolding totalSC_def by (metis sum_mset_sum_list)
qed

lemma fundTxn_outcome:
  assumes "amount \<noteq> 0"
  shows "(totalSC (eligibleSC (used s) (poolSpentSC pool) (shuffle utxos)) < unat amount \<and>
          fundTxn shuffle s txn amount utxos changeAddr pool =
            (Fail (Err ''insufficient balance''), txn, s)) \<or>
         (\<exists>n. greedyAt amount (eligibleSC (used s) (poolSpentSC pool) (shuffle utxos)) n \<and>
              2 ^ 128 \<le> totalSC (take n (eligibleSC (used s) (poolSpentSC pool) (shuffle utxos))) \<and>
              fundTxn shuffle s txn amount utxos changeAddr pool = (Panic (Err ''overflow''), txn, s)) \<or>
         (\<exists>n. greedyAt amount (eligibleSC (used s) (poolSpentSC pool) (shuffle utxos)) n \<and>
              totalSC (take n (eligibleSC (used s) (poolSpentSC pool) (shuffle utxos))) < 2 ^ 128 \<and>
              fundTxn shuffle s txn amount utxos changeAddr pool =
               (if unat amount < totalSC (take n (eligibleSC (used s) (poolSpentSC pool) (shuffle utxos)))
                   \<and> changeAddr = VoidAddress
                then (Fail (Err ''change address must be specified''), txn, s)
                else (Ok (map sce_ID (take n (eligibleSC (used s) (poolSpentSC pool) (shuffle utxos)))),
                      txn\<lparr>SiacoinInputs := SiacoinInputs txn @
                             map (\<lambda>e. \<lparr>sci_ParentID = sce_ID e\<rparr>)
                               (take n (eligibleSC (used s) (poolSpentSC pool) (shuffle utxos))),
                          SiacoinOutputs := SiacoinOutputs txn @
                             (if unat amount < totalSC (take n (eligibleSC (used s) (poolSpentSC pool) (shuffle utxos)))
                              then [\<lparr>sco_Value = of_nat (totalSC (take n (eligibleSC (used s) (poolSpentSC pool) (shuffle utxos)))) - amount,
                                     sco_Address = changeAddr\<rparr>]
                              else [])\<rparr>,
                      s\<lparr>used := (\<lambda>h. used s h \<or>
                             h \<in> sce_ID ` set (take n (eligibleSC (used s) (poolSpentSC pool) (shuffle utxos))))\<rparr>)))"
  (is "?A \<or> ?B \<or> ?C")
proof (cases "scanSC (used s) (poolSpentSC pool) amount (shuffle utxos) 0 []")
  case None
  from scanSC_start_None [OF None assms] obtain n where
    "greedyAt amount (eligibleSC (used s) (poolSpentSC pool) (shuffle utxos)) n"
    "2 ^ 128 \<le> totalSC (take n (eligibleSC (used s) (poolSpentSC pool) (shuffle utxos)))"
    by blast
  moreover have "fundTxn shuffle s txn amount utxos changeAddr pool = (Panic (Err ''overflow''), txn, s)"
    using None assms by (simp add: fundTxn_def inPoolSC_eq)
  ultimately have ?B by blast
  then show ?thesis by blast
next
  case (Some r)
  obtain sm' fe' where r: "r = (sm', fe')" by (cases r)
  from scanSC_start_Some [OF Some [unfolded r] assms]
  show ?thesis
  proof
    assume a: "sm' < amount \<and> fe' = eligibleSC (used s) (poolSpentSC pool) (shuffle utxos) \<and>
      unat sm' = totalSC (eligibleSC (used s) (poolSpentSC pool) (shuffle utxos))"
    then have "unat sm' < unat amount" by (simp add: word_less_nat_alt)
    moreover have "fundTxn shuffle s txn amount utxos changeAddr pool =
            (Fail (Err ''insufficient balance''), txn, s)"
      using Some r a assms by (simp add: fundTxn_def inPoolSC_eq)
    ultimately have ?A using a by simp
    then show ?thesis by blast
  next
    assume "\<exists>n. greedyAt amount (eligibleSC (used s) (poolSpentSC pool) (shuffle utxos)) n \<and>
        fe' = take n (eligibleSC (used s) (poolSpentSC pool) (shuffle utxos)) \<and>
        unat sm' = totalSC (take n (eligibleSC (used s) (poolSpentSC pool) (shuffle utxos)))"
    then obtain n where n:
      "greedyAt amount (eligibleSC (used s) (poolSpentSC pool) (shuffle utxos)) n"
      "fe' = take n (eligibleSC (used s) (poolSpentSC pool) (shuffle utxos))"
      "unat sm' = totalSC (take n (eligibleSC (used s) (poolSpentSC pool) (shuffle utxos)))"
      by blast
    from n(1,3) have ge: "unat amount \<le> unat sm'" by (simp add: greedyAt_def)
    then have nlt: "\<not> sm' < amount" by (simp add: word_less_nat_alt)
    have lt: "(amount < sm') = (unat amount < unat sm')" by (simp add: word_less_nat_alt)
    have bound: "totalSC (take n (eligibleSC (used s) (poolSpentSC pool) (shuffle utxos))) < 2 ^ 128"
      using unsigned_less [of sm', where 'a = nat] n(3) by simp
    have val: "of_nat (totalSC (take n (eligibleSC (used s) (poolSpentSC pool) (shuffle utxos)))) = sm'"
      using n(3) by (metis of_nat_unat ucast_id)
    have "fundTxn shuffle s txn amount utxos changeAddr pool =
               (if unat amount < totalSC (take n (eligibleSC (used s) (poolSpentSC pool) (shuffle utxos)))
                   \<and> changeAddr = VoidAddress
                then (Fail (Err ''change address must be specified''), txn, s)
                else (Ok (map sce_ID (take n (eligibleSC (used s) (poolSpentSC pool) (shuffle utxos)))),
                      txn\<lparr>SiacoinInputs := SiacoinInputs txn @
                             map (\<lambda>e. \<lparr>sci_ParentID = sce_ID e\<rparr>)
                               (take n (eligibleSC (used s) (poolSpentSC pool) (shuffle utxos))),
                          SiacoinOutputs := SiacoinOutputs txn @
                             (if unat amount < totalSC (take n (eligibleSC (used s) (poolSpentSC pool) (shuffle utxos)))
                              then [\<lparr>sco_Value = of_nat (totalSC (take n (eligibleSC (used s) (poolSpentSC pool) (shuffle utxos)))) - amount,
                                     sco_Address = changeAddr\<rparr>]
                              else [])\<rparr>,
                      s\<lparr>used := (\<lambda>h. used s h \<or>
                             h \<in> sce_ID ` set (take n (eligibleSC (used s) (poolSpentSC pool) (shuffle utxos))))\<rparr>))"
      unfolding val
      using Some r assms nlt lt n(2,3)
      by (simp add: fundTxn_def inPoolSC_eq signSC_eq Let_def)
    with n(1) bound have ?C by blast
    then show ?thesis by blast
  qed
qed

lemma fundTxn_cases:
  assumes "amount \<noteq> 0"
  obtains
    (Insufficient)
      "totalSC (eligibleSC (used s) (poolSpentSC pool) (shuffle utxos)) < unat amount"
      "fundTxn shuffle s txn amount utxos changeAddr pool =
         (Fail (Err ''insufficient balance''), txn, s)"
  | (Overflow) n where
      "greedyAt amount (eligibleSC (used s) (poolSpentSC pool) (shuffle utxos)) n"
      "2 ^ 128 \<le> totalSC (take n (eligibleSC (used s) (poolSpentSC pool) (shuffle utxos)))"
      "fundTxn shuffle s txn amount utxos changeAddr pool = (Panic (Err ''overflow''), txn, s)"
  | (ChangeRequired) n where
      "greedyAt amount (eligibleSC (used s) (poolSpentSC pool) (shuffle utxos)) n"
      "totalSC (take n (eligibleSC (used s) (poolSpentSC pool) (shuffle utxos))) < 2 ^ 128"
      "unat amount < totalSC (take n (eligibleSC (used s) (poolSpentSC pool) (shuffle utxos)))"
      "changeAddr = VoidAddress"
      "fundTxn shuffle s txn amount utxos changeAddr pool =
         (Fail (Err ''change address must be specified''), txn, s)"
  | (Funded) n where
      "greedyAt amount (eligibleSC (used s) (poolSpentSC pool) (shuffle utxos)) n"
      "totalSC (take n (eligibleSC (used s) (poolSpentSC pool) (shuffle utxos))) < 2 ^ 128"
      "\<not> (unat amount < totalSC (take n (eligibleSC (used s) (poolSpentSC pool) (shuffle utxos)))
          \<and> changeAddr = VoidAddress)"
      "fundTxn shuffle s txn amount utxos changeAddr pool =
         (Ok (map sce_ID (take n (eligibleSC (used s) (poolSpentSC pool) (shuffle utxos)))),
          txn\<lparr>SiacoinInputs := SiacoinInputs txn @
                 map (\<lambda>e. \<lparr>sci_ParentID = sce_ID e\<rparr>)
                   (take n (eligibleSC (used s) (poolSpentSC pool) (shuffle utxos))),
              SiacoinOutputs := SiacoinOutputs txn @
                 (if unat amount < totalSC (take n (eligibleSC (used s) (poolSpentSC pool) (shuffle utxos)))
                  then [\<lparr>sco_Value = of_nat (totalSC (take n (eligibleSC (used s) (poolSpentSC pool) (shuffle utxos)))) - amount,
                         sco_Address = changeAddr\<rparr>]
                  else [])\<rparr>,
          s\<lparr>used := (\<lambda>h. used s h \<or>
                 h \<in> sce_ID ` set (take n (eligibleSC (used s) (poolSpentSC pool) (shuffle utxos))))\<rparr>)"
proof -
  from fundTxn_outcome [OF assms, of s pool shuffle utxos txn changeAddr]
  show thesis
  proof (elim disjE exE conjE)
    assume "totalSC (eligibleSC (used s) (poolSpentSC pool) (shuffle utxos)) < unat amount"
      "fundTxn shuffle s txn amount utxos changeAddr pool =
         (Fail (Err ''insufficient balance''), txn, s)"
    then show thesis by (rule Insufficient)
  next
    fix n
    assume "greedyAt amount (eligibleSC (used s) (poolSpentSC pool) (shuffle utxos)) n"
      "2 ^ 128 \<le> totalSC (take n (eligibleSC (used s) (poolSpentSC pool) (shuffle utxos)))"
      "fundTxn shuffle s txn amount utxos changeAddr pool = (Panic (Err ''overflow''), txn, s)"
    then show thesis by (rule Overflow)
  next
    fix n
    assume g: "greedyAt amount (eligibleSC (used s) (poolSpentSC pool) (shuffle utxos)) n"
      and b: "totalSC (take n (eligibleSC (used s) (poolSpentSC pool) (shuffle utxos))) < 2 ^ 128"
      and r: "fundTxn shuffle s txn amount utxos changeAddr pool =
               (if unat amount < totalSC (take n (eligibleSC (used s) (poolSpentSC pool) (shuffle utxos)))
                   \<and> changeAddr = VoidAddress
                then (Fail (Err ''change address must be specified''), txn, s)
                else (Ok (map sce_ID (take n (eligibleSC (used s) (poolSpentSC pool) (shuffle utxos)))),
                      txn\<lparr>SiacoinInputs := SiacoinInputs txn @
                             map (\<lambda>e. \<lparr>sci_ParentID = sce_ID e\<rparr>)
                               (take n (eligibleSC (used s) (poolSpentSC pool) (shuffle utxos))),
                          SiacoinOutputs := SiacoinOutputs txn @
                             (if unat amount < totalSC (take n (eligibleSC (used s) (poolSpentSC pool) (shuffle utxos)))
                              then [\<lparr>sco_Value = of_nat (totalSC (take n (eligibleSC (used s) (poolSpentSC pool) (shuffle utxos)))) - amount,
                                     sco_Address = changeAddr\<rparr>]
                              else [])\<rparr>,
                      s\<lparr>used := (\<lambda>h. used s h \<or>
                             h \<in> sce_ID ` set (take n (eligibleSC (used s) (poolSpentSC pool) (shuffle utxos))))\<rparr>))"
    show thesis
    proof (cases "unat amount < totalSC (take n (eligibleSC (used s) (poolSpentSC pool) (shuffle utxos)))
                   \<and> changeAddr = VoidAddress")
      case True
      have "fundTxn shuffle s txn amount utxos changeAddr pool =
         (Fail (Err ''change address must be specified''), txn, s)"
        using r unfolding if_P [OF True] .
      with g b True show thesis by (intro ChangeRequired [of n]) simp_all
    next
      case False
      have "fundTxn shuffle s txn amount utxos changeAddr pool = 
         (Ok (map sce_ID (take n (eligibleSC (used s) (poolSpentSC pool) (shuffle utxos)))),
          txn\<lparr>SiacoinInputs := SiacoinInputs txn @
                 map (\<lambda>e. \<lparr>sci_ParentID = sce_ID e\<rparr>)
                   (take n (eligibleSC (used s) (poolSpentSC pool) (shuffle utxos))),
              SiacoinOutputs := SiacoinOutputs txn @
                 (if unat amount < totalSC (take n (eligibleSC (used s) (poolSpentSC pool) (shuffle utxos)))
                  then [\<lparr>sco_Value = of_nat (totalSC (take n (eligibleSC (used s) (poolSpentSC pool) (shuffle utxos)))) - amount,
                         sco_Address = changeAddr\<rparr>]
                  else [])\<rparr>,
          s\<lparr>used := (\<lambda>h. used s h \<or>
                 h \<in> sce_ID ` set (take n (eligibleSC (used s) (poolSpentSC pool) (shuffle utxos))))\<rparr>)"
        using r unfolding if_not_P [OF False] .
      with g b False show thesis by (intro Funded [of n])
    qed
  qed
qed

subsection \<open>Funding: siafunds and reservations\<close>

lemma scanSF_fe:
  "scanSF u p a xs sm fe = (sm', fe') \<Longrightarrow>
   \<exists>ys. fe' = fe @ ys \<and> set ys \<subseteq> set (eligibleSF u p xs)"
proof (induction xs arbitrary: sm fe)
  case Nil
  then show ?case by simp
next
  case (Cons x xs)
  show ?case
  proof (cases "u (sfe_ID x) \<or> p (sfe_ID x)")
    case True
    then have r: "scanSF u p a xs sm fe = (sm', fe')" using Cons.prems by simp
    from True have E: "eligibleSF u p (x # xs) = eligibleSF u p xs"
      by (auto simp: eligibleSF_def)
    show ?thesis unfolding E by (rule Cons.IH [OF r])
  next
    case False
    then have E: "eligibleSF u p (x # xs) = x # eligibleSF u p xs"
      by (simp add: eligibleSF_def)
    show ?thesis
    proof (cases "a \<le> sm + sfo_Value (sfe_SiafundOutput x)")
      case True
      with False Cons.prems have "fe' = fe @ [x]" by (simp add: Let_def)
      then show ?thesis unfolding E by simp
    next
      case ge: False
      with False Cons.prems have
        "scanSF u p a xs (sm + sfo_Value (sfe_SiafundOutput x)) (fe @ [x]) = (sm', fe')"
        by (simp add: Let_def)
      from Cons.IH [OF this] obtain ys where
        "fe' = (fe @ [x]) @ ys" "set ys \<subseteq> set (eligibleSF u p xs)" by blast
      then show ?thesis unfolding E by (intro exI [of _ "x # ys"]) auto
    qed
  qed
qed

lemma scanSF_short:
  "unat sm + totalSF (eligibleSF u p xs) < unat a \<Longrightarrow>
   scanSF u p a xs sm fe = (of_nat (unat sm + totalSF (eligibleSF u p xs)), fe @ eligibleSF u p xs)"
proof (induction xs arbitrary: sm fe)
  case Nil
  then show ?case by (simp add: eligibleSF_def totalSF_def)
next
  case (Cons x xs)
  show ?case
  proof (cases "u (sfe_ID x) \<or> p (sfe_ID x)")
    case True
    then have E: "eligibleSF u p (x # xs) = eligibleSF u p xs"
      by (auto simp: eligibleSF_def)
    from True Cons.IH [of sm fe] Cons.prems show ?thesis unfolding E by auto
  next
    case False
    then have E: "eligibleSF u p (x # xs) = x # eligibleSF u p xs"
      by (simp add: eligibleSF_def)
    let ?s1 = "sm + sfo_Value (sfe_SiafundOutput x)"
    have lt64: "unat a < 2 ^ 64" using unsigned_less [of a, where 'a = nat] by simp
    from Cons.prems have small: "unat sm + valSF x + totalSF (eligibleSF u p xs) < unat a"
      unfolding E by (simp add: totalSF_def)
    then have u1: "unat ?s1 = unat sm + valSF x"
      using lt64 by (simp add: unat_word_ariths valSF_def)
    with small have "unat ?s1 < unat a" by simp
    then have nge: "\<not> a \<le> ?s1" by (simp add: word_le_nat_alt)
    from small u1 have "unat ?s1 + totalSF (eligibleSF u p xs) < unat a" by simp
    from Cons.IH [OF this, of "fe @ [x]"] False nge u1 show ?thesis
      unfolding E by (simp add: Let_def totalSF_def add.assoc)
  qed
qed

lemma used_fold_SF:
  "fold (\<lambda>e u. u(sfe_ID e := True)) fe u h = (u h \<or> h \<in> sfe_ID ` set fe)"
  by (induction fe arbitrary: u) auto

lemma signSF_fold:
  "fold (\<lambda>sfe (toSign, t, s').
             (toSign @ [sfe_ID sfe],
              t\<lparr>SiafundInputs := SiafundInputs t @
                   [\<lparr>sfi_ParentID = sfe_ID sfe, sfi_ClaimAddress = claimAddr\<rparr>]\<rparr>,
              s'\<lparr>used := (used s')(sfe_ID sfe := True)\<rparr>)) fe (ts, txn, s)
   = (ts @ map sfe_ID fe,
      txn\<lparr>SiafundInputs := SiafundInputs txn @
         map (\<lambda>e. \<lparr>sfi_ParentID = sfe_ID e, sfi_ClaimAddress = claimAddr\<rparr>) fe\<rparr>,
      s\<lparr>used := fold (\<lambda>e u. u(sfe_ID e := True)) fe (used s)\<rparr>)"
  by (induction fe arbitrary: ts txn s) simp_all

lemma signSF_eq:
  "signSF claimAddr fe txn s =
     (map sfe_ID fe,
      txn\<lparr>SiafundInputs := SiafundInputs txn @
         map (\<lambda>e. \<lparr>sfi_ParentID = sfe_ID e, sfi_ClaimAddress = claimAddr\<rparr>) fe\<rparr>,
      s\<lparr>used := (\<lambda>h. used s h \<or> h \<in> sfe_ID ` set fe)\<rparr>)"
proof -
  have "fold (\<lambda>e u. u(sfe_ID e := True)) fe (used s) = (\<lambda>h. used s h \<or> h \<in> sfe_ID ` set fe)"
    by (rule ext) (rule used_fold_SF)
  then show ?thesis unfolding signSF_def signSF_fold by simp
qed

lemma fundTxn_reserve:
  assumes "fundTxn sh s txn amount utxos ca pool = (Ok toSign, txn', s')"
  shows "(\<forall>h \<in> set toSign. \<not> used s h) \<and>
         used s' = (\<lambda>h. used s h \<or> h \<in> set toSign) \<and>
         SiacoinInputs txn' = SiacoinInputs txn @ map (\<lambda>h. \<lparr>sci_ParentID = h\<rparr>) toSign"
proof (cases "amount = 0")
  case True
  with assms show ?thesis by (simp add: fundTxn_def)
next
  case False
  let ?E = "eligibleSC (used s) (poolSpentSC pool) (sh utxos)"
  from fundTxn_outcome [OF False, of s pool sh utxos txn ca] assms
  obtain n where n: "toSign = map sce_ID (take n ?E)"
    "txn' = txn\<lparr>SiacoinInputs := SiacoinInputs txn @ map (\<lambda>e. \<lparr>sci_ParentID = sce_ID e\<rparr>) (take n ?E),
                SiacoinOutputs := SiacoinOutputs txn @
                   (if unat amount < totalSC (take n ?E)
                    then [\<lparr>sco_Value = of_nat (totalSC (take n ?E)) - amount, sco_Address = ca\<rparr>]
                    else [])\<rparr>"
    "s' = s\<lparr>used := (\<lambda>h. used s h \<or> h \<in> sce_ID ` set (take n ?E))\<rparr>"
    by (auto split: if_splits)
  have "\<forall>e \<in> set (take n ?E). \<not> used s (sce_ID e)"
    using set_take_subset [of n ?E] by (auto simp: eligibleSC_def)
  with n show ?thesis by (simp add: comp_def)
qed

lemma fundTxnSF_reserve:
  assumes "fundTxnSF sh s txn amount utxos ca cl pool = (Ok toSign, txn', s')"
  shows "(\<forall>h \<in> set toSign. \<not> used s h) \<and>
         used s' = (\<lambda>h. used s h \<or> h \<in> set toSign) \<and>
         SiafundInputs txn' = SiafundInputs txn @
            map (\<lambda>h. \<lparr>sfi_ParentID = h, sfi_ClaimAddress = cl\<rparr>) toSign"
proof (cases "amount = 0")
  case True
  with assms show ?thesis by (simp add: fundTxnSF_def)
next
  case False
  obtain sm' fe' where r: "scanSF (used s) (inPoolSF pool) amount (sh utxos) 0 [] = (sm', fe')"
    by (cases "scanSF (used s) (inPoolSF pool) amount (sh utxos) 0 []")
  from scanSF_fe [OF r] have fe: "set fe' \<subseteq> set (eligibleSF (used s) (inPoolSF pool) (sh utxos))"
    by simp
  from assms False r have
    "toSign = map sfe_ID fe'"
    "used s' = (\<lambda>h. used s h \<or> h \<in> sfe_ID ` set fe')"
    "SiafundInputs txn' = SiafundInputs txn @
       map (\<lambda>e. \<lparr>sfi_ParentID = sfe_ID e, sfi_ClaimAddress = cl\<rparr>) fe'"
    by (auto simp: fundTxnSF_def signSF_eq Let_def split: if_splits)
  moreover have "\<forall>e \<in> set fe'. \<not> used s (sfe_ID e)"
    using fe by (auto simp: eligibleSF_def)
  ultimately show ?thesis by (simp add: comp_def)
qed

lemma fundTxn_covered:
  assumes "amount \<noteq> 0"
    and "unat amount \<le> totalSC (eligibleSC (used s) (poolSpentSC pool) (shuffle utxos))"
  shows "\<exists>n. greedyAt amount (eligibleSC (used s) (poolSpentSC pool) (shuffle utxos)) n \<and>
           fundTxn shuffle s txn amount utxos changeAddr pool =
             (if 2 ^ 128 \<le> totalSC (take n (eligibleSC (used s) (poolSpentSC pool) (shuffle utxos)))
              then (Panic (Err ''overflow''), txn, s)
              else if unat amount < totalSC (take n (eligibleSC (used s) (poolSpentSC pool) (shuffle utxos))) \<and> changeAddr = VoidAddress
              then (Fail (Err ''change address must be specified''), txn, s)
              else (Ok (map sce_ID (take n (eligibleSC (used s) (poolSpentSC pool) (shuffle utxos)))),
                    txn\<lparr>SiacoinInputs := SiacoinInputs txn @
                           map (\<lambda>e. \<lparr>sci_ParentID = sce_ID e\<rparr>) (take n (eligibleSC (used s) (poolSpentSC pool) (shuffle utxos))),
                        SiacoinOutputs := SiacoinOutputs txn @
                           (if unat amount < totalSC (take n (eligibleSC (used s) (poolSpentSC pool) (shuffle utxos)))
                            then [\<lparr>sco_Value = of_nat (totalSC (take n (eligibleSC (used s) (poolSpentSC pool) (shuffle utxos))) - unat amount),
                                   sco_Address = changeAddr\<rparr>]
                            else [])\<rparr>,
                    s\<lparr>used := (\<lambda>h. used s h \<or> h \<in> sce_ID ` set (take n (eligibleSC (used s) (poolSpentSC pool) (shuffle utxos))))\<rparr>))"
proof -
  let ?E = "eligibleSC (used s) (poolSpentSC pool) (shuffle utxos)"
  have sub: "\<And>k. unat amount \<le> k \<Longrightarrow> (of_nat k :: currency) - amount = of_nat (k - unat amount)"
    by (metis of_nat_diff of_nat_unat ucast_id)
  from assms(1) show ?thesis
  proof (cases rule: fundTxn_cases [where s = s and pool = pool and shuffle = shuffle
        and utxos = utxos and txn = txn and changeAddr = changeAddr])
    case Insufficient
    with assms(2) show ?thesis by simp
  next
    case (Overflow n)
    show ?thesis
      by (rule exI [of _ n], rule conjI [OF Overflow(1)]) (simp only: Overflow(2,3) if_True)
  next
    case (ChangeRequired n)
    from ChangeRequired(2) have nov: "\<not> 2 ^ 128 \<le> totalSC (take n ?E)" by simp
    from ChangeRequired(3,4) have c: "unat amount < totalSC (take n ?E) \<and> changeAddr = VoidAddress"
      by simp
    show ?thesis
      by (rule exI [of _ n], rule conjI [OF ChangeRequired(1)])
         (simp only: ChangeRequired(5) if_not_P [OF nov] if_P [OF c])
  next
    case (Funded n)
    from Funded(2) have nov: "\<not> 2 ^ 128 \<le> totalSC (take n ?E)" by simp
    from Funded(1) have le: "unat amount \<le> totalSC (take n ?E)" by (simp add: greedyAt_def)
    show ?thesis
      by (rule exI [of _ n], rule conjI [OF Funded(1)])
         (simp only: Funded(4) if_not_P [OF nov] if_not_P [OF Funded(3)] sub [OF le])
  qed
qed

lemma fundTxn_uncovered:
  assumes "amount \<noteq> 0"
    and "totalSC (eligibleSC (used s) (poolSpentSC pool) (shuffle utxos)) < unat amount"
  shows "fundTxn shuffle s txn amount utxos changeAddr pool =
           (Fail (Err ''insufficient balance''), txn, s)"
proof -
  note lt = assms(2)
  from assms(1) show ?thesis
  proof (cases rule: fundTxn_cases [where s = s and pool = pool and shuffle = shuffle
        and utxos = utxos and txn = txn and changeAddr = changeAddr])
    case Insufficient
    then show ?thesis by simp
  next
    case (Overflow n)
    with greedyAt_total [OF Overflow(1)] lt show ?thesis by simp
  next
    case (ChangeRequired n)
    with greedyAt_total [OF ChangeRequired(1)] lt show ?thesis by simp
  next
    case (Funded n)
    with greedyAt_total [OF Funded(1)] lt show ?thesis by simp
  qed
qed

text \<open>
  C4. Siacoin funding, for a request with \<open>amount > 0\<close> and any shuffle (a permutation of
  the candidates). The call fails with "insufficient balance" exactly when the total of
  the eligible candidates (not in \<open>used\<close>, not spent by a pool transaction's siacoin
  inputs) is below the amount. When it succeeds, the outputs to sign are the shortest
  prefix of the eligible shuffled candidates whose sum reaches the amount; if that sum
  exceeds the amount the change address is not void and exactly one output is appended,
  of value sum - amount and paying the change address, and if the sum equals the amount
  no output is appended. When the selected sum (below \<open>2^128\<close>, so that \<^verbatim>\<open>Currency.Add\<close>
  did not panic) exceeds the amount and the change address is void, the call fails with
  "change address must be specified" and changes nothing. Whenever the eligible total
  covers the amount, such a shortest prefix exists and it decides the call: the call
  succeeds, with one input per selected output and the selected ids marked in \<open>used\<close>,
  unless the change address is void while the sum exceeds the amount, or the selected
  sum reaches \<open>2^128\<close> (\<^verbatim>\<open>Currency.Add\<close> panics). Whenever the eligible total is below the
  amount, the call fails with "insufficient balance" and changes nothing.
\<close>

theorem C4_siacoin_funding:
  assumes "amount \<noteq> 0" and "mset (shuffle utxos) = mset utxos"
  shows
   "(fst (fundTxn shuffle s txn amount utxos changeAddr pool) = Fail (Err ''insufficient balance'')
       \<longleftrightarrow> totalSC (eligibleSC (used s) (poolSpentSC pool) utxos) < unat amount) \<and>
    (\<forall>toSign txn' s'.
       fundTxn shuffle s txn amount utxos changeAddr pool = (Ok toSign, txn', s') \<longrightarrow>
       (\<exists>n. greedyAt amount (eligibleSC (used s) (poolSpentSC pool) (shuffle utxos)) n \<and>
            toSign = map sce_ID (take n (eligibleSC (used s) (poolSpentSC pool) (shuffle utxos))) \<and>
            (if unat amount < totalSC (take n (eligibleSC (used s) (poolSpentSC pool) (shuffle utxos)))
             then changeAddr \<noteq> VoidAddress \<and>
                  SiacoinOutputs txn' = SiacoinOutputs txn @
                    [\<lparr>sco_Value = of_nat (totalSC (take n (eligibleSC (used s) (poolSpentSC pool) (shuffle utxos)))
                                         - unat amount),
                      sco_Address = changeAddr\<rparr>]
             else SiacoinOutputs txn' = SiacoinOutputs txn))) \<and>
    (\<forall>n. greedyAt amount (eligibleSC (used s) (poolSpentSC pool) (shuffle utxos)) n \<and>
         unat amount < totalSC (take n (eligibleSC (used s) (poolSpentSC pool) (shuffle utxos))) \<and>
         totalSC (take n (eligibleSC (used s) (poolSpentSC pool) (shuffle utxos))) < 2 ^ 128 \<and>
         changeAddr = VoidAddress \<longrightarrow>
         fundTxn shuffle s txn amount utxos changeAddr pool =
           (Fail (Err ''change address must be specified''), txn, s)) \<and>
    (unat amount \<le> totalSC (eligibleSC (used s) (poolSpentSC pool) utxos) \<longrightarrow>
       (\<exists>n. greedyAt amount (eligibleSC (used s) (poolSpentSC pool) (shuffle utxos)) n \<and>
            fundTxn shuffle s txn amount utxos changeAddr pool =
             (if 2 ^ 128 \<le> totalSC (take n (eligibleSC (used s) (poolSpentSC pool) (shuffle utxos)))
              then (Panic (Err ''overflow''), txn, s)
              else if unat amount < totalSC (take n (eligibleSC (used s) (poolSpentSC pool) (shuffle utxos))) \<and> changeAddr = VoidAddress
              then (Fail (Err ''change address must be specified''), txn, s)
              else (Ok (map sce_ID (take n (eligibleSC (used s) (poolSpentSC pool) (shuffle utxos)))),
                    txn\<lparr>SiacoinInputs := SiacoinInputs txn @
                           map (\<lambda>e. \<lparr>sci_ParentID = sce_ID e\<rparr>) (take n (eligibleSC (used s) (poolSpentSC pool) (shuffle utxos))),
                        SiacoinOutputs := SiacoinOutputs txn @
                           (if unat amount < totalSC (take n (eligibleSC (used s) (poolSpentSC pool) (shuffle utxos)))
                            then [\<lparr>sco_Value = of_nat (totalSC (take n (eligibleSC (used s) (poolSpentSC pool) (shuffle utxos))) - unat amount),
                                   sco_Address = changeAddr\<rparr>]
                            else [])\<rparr>,
                    s\<lparr>used := (\<lambda>h. used s h \<or> h \<in> sce_ID ` set (take n (eligibleSC (used s) (poolSpentSC pool) (shuffle utxos))))\<rparr>)))) \<and>
    (totalSC (eligibleSC (used s) (poolSpentSC pool) utxos) < unat amount \<longrightarrow>
       fundTxn shuffle s txn amount utxos changeAddr pool =
         (Fail (Err ''insufficient balance''), txn, s))"
  (is "?I \<and> ?O \<and> ?V \<and> ?D \<and> ?N")
proof -
  let ?E = "eligibleSC (used s) (poolSpentSC pool) (shuffle utxos)"
  let ?r = "fundTxn shuffle s txn amount utxos changeAddr pool"
  have tot: "totalSC (eligibleSC (used s) (poolSpentSC pool) utxos) = totalSC ?E"
    by (rule totalSC_perm [OF assms(2), symmetric])
  have sub: "\<And>k. unat amount \<le> k \<Longrightarrow> (of_nat k :: currency) - amount = of_nat (k - unat amount)"
    by (metis of_nat_diff of_nat_unat ucast_id)
  have D: ?D
  proof
    assume "unat amount \<le> totalSC (eligibleSC (used s) (poolSpentSC pool) utxos)"
    then have "unat amount \<le> totalSC ?E" by (simp only: tot)
    from fundTxn_covered [where amount = amount and s = s and pool = pool and shuffle = shuffle
        and utxos = utxos and txn = txn and changeAddr = changeAddr, OF assms(1) this]
    show "\<exists>n. greedyAt amount ?E n \<and>
            fundTxn shuffle s txn amount utxos changeAddr pool =
             (if 2 ^ 128 \<le> totalSC (take n (eligibleSC (used s) (poolSpentSC pool) (shuffle utxos)))
              then (Panic (Err ''overflow''), txn, s)
              else if unat amount < totalSC (take n (eligibleSC (used s) (poolSpentSC pool) (shuffle utxos))) \<and> changeAddr = VoidAddress
              then (Fail (Err ''change address must be specified''), txn, s)
              else (Ok (map sce_ID (take n (eligibleSC (used s) (poolSpentSC pool) (shuffle utxos)))),
                    txn\<lparr>SiacoinInputs := SiacoinInputs txn @
                           map (\<lambda>e. \<lparr>sci_ParentID = sce_ID e\<rparr>) (take n (eligibleSC (used s) (poolSpentSC pool) (shuffle utxos))),
                        SiacoinOutputs := SiacoinOutputs txn @
                           (if unat amount < totalSC (take n (eligibleSC (used s) (poolSpentSC pool) (shuffle utxos)))
                            then [\<lparr>sco_Value = of_nat (totalSC (take n (eligibleSC (used s) (poolSpentSC pool) (shuffle utxos))) - unat amount),
                                   sco_Address = changeAddr\<rparr>]
                            else [])\<rparr>,
                    s\<lparr>used := (\<lambda>h. used s h \<or> h \<in> sce_ID ` set (take n (eligibleSC (used s) (poolSpentSC pool) (shuffle utxos))))\<rparr>))" .
  qed
  have N: ?N
  proof
    assume "totalSC (eligibleSC (used s) (poolSpentSC pool) utxos) < unat amount"
    then have "totalSC ?E < unat amount" by (simp only: tot)
    from fundTxn_uncovered [where amount = amount and s = s and pool = pool and shuffle = shuffle
        and utxos = utxos and txn = txn and changeAddr = changeAddr, OF assms(1) this]
    show "fundTxn shuffle s txn amount utxos changeAddr pool =
         (Fail (Err ''insufficient balance''), txn, s)" .
  qed
  from assms(1) show ?thesis
  proof (cases rule: fundTxn_cases [where s = s and pool = pool and shuffle = shuffle
        and utxos = utxos and txn = txn and changeAddr = changeAddr])
    case Insufficient
    have nog: "\<And>n. \<not> greedyAt amount ?E n"
      using greedyAt_total Insufficient(1) by (metis not_le)
    have I: ?I unfolding Insufficient(2) tot using Insufficient(1) by simp
    have O: ?O unfolding Insufficient(2) by simp
    have V: ?V using nog by simp
    from I O V D N show ?thesis by (intro conjI)
  next
    case (Overflow n)
    from greedyAt_total [OF Overflow(1)] have ge: "\<not> totalSC ?E < unat amount" by simp
    have I: ?I unfolding Overflow(3) tot using ge by simp
    have O: ?O unfolding Overflow(3) by simp
    have V: ?V
    proof (intro allI impI)
      fix m assume a: "greedyAt amount ?E m \<and> unat amount < totalSC (take m ?E) \<and>
         totalSC (take m ?E) < 2 ^ 128 \<and> changeAddr = VoidAddress"
      with greedyAt_unique [OF Overflow(1), of m] have "m = n" by simp
      with a Overflow(2) have False by simp
      then show "?r = (Fail (Err ''change address must be specified''), txn, s)" ..
    qed
    from I O V D N show ?thesis by (intro conjI)
  next
    case (ChangeRequired n)
    from greedyAt_total [OF ChangeRequired(1)] have ge: "\<not> totalSC ?E < unat amount" by simp
    have I: ?I unfolding ChangeRequired(5) tot using ge by simp
    have O: ?O unfolding ChangeRequired(5) by simp
    have V: ?V unfolding ChangeRequired(5) by simp
    from I O V D N show ?thesis by (intro conjI)
  next
    case (Funded n)
    from greedyAt_total [OF Funded(1)] have ge: "\<not> totalSC ?E < unat amount" by simp
    from Funded(1) have le: "unat amount \<le> totalSC (take n ?E)" by (simp add: greedyAt_def)
    have I: ?I unfolding Funded(4) tot using ge by simp
    have V: ?V
    proof (intro allI impI)
      fix m assume a: "greedyAt amount ?E m \<and> unat amount < totalSC (take m ?E) \<and>
         totalSC (take m ?E) < 2 ^ 128 \<and> changeAddr = VoidAddress"
      with greedyAt_unique [OF Funded(1), of m] have "m = n" by simp
      with a Funded(3) show "?r = (Fail (Err ''change address must be specified''), txn, s)"
        by simp
    qed
    have O: ?O
    proof (intro allI impI)
      fix toSign txn' s' assume ok: "?r = (Ok toSign, txn', s')"
      with Funded(4) have eq: "toSign = map sce_ID (take n ?E)"
        "txn' = txn\<lparr>SiacoinInputs := SiacoinInputs txn @ map (\<lambda>e. \<lparr>sci_ParentID = sce_ID e\<rparr>) (take n ?E),
                SiacoinOutputs := SiacoinOutputs txn @
                   (if unat amount < totalSC (take n ?E)
                    then [\<lparr>sco_Value = of_nat (totalSC (take n ?E)) - amount, sco_Address = changeAddr\<rparr>]
                    else [])\<rparr>"
        by simp_all
      have c: "if unat amount < totalSC (take n ?E)
             then changeAddr \<noteq> VoidAddress \<and>
                  SiacoinOutputs txn' = SiacoinOutputs txn @
                    [\<lparr>sco_Value = of_nat (totalSC (take n ?E) - unat amount), sco_Address = changeAddr\<rparr>]
             else SiacoinOutputs txn' = SiacoinOutputs txn"
      proof (cases "unat amount < totalSC (take n ?E)")
        case True
        with Funded(3) have "changeAddr \<noteq> VoidAddress" by simp
        moreover have "SiacoinOutputs txn' = SiacoinOutputs txn @
            [\<lparr>sco_Value = of_nat (totalSC (take n ?E)) - amount, sco_Address = changeAddr\<rparr>]"
          unfolding eq(2) using True by simp
        ultimately show ?thesis unfolding sub [OF le] if_P [OF True] by (rule conjI)
      next
        case False
        have "SiacoinOutputs txn' = SiacoinOutputs txn"
          unfolding eq(2) using False by simp
        then show ?thesis unfolding if_not_P [OF False] .
      qed
      show "\<exists>n. greedyAt amount ?E n \<and> toSign = map sce_ID (take n ?E) \<and>
            (if unat amount < totalSC (take n ?E)
             then changeAddr \<noteq> VoidAddress \<and>
                  SiacoinOutputs txn' = SiacoinOutputs txn @
                    [\<lparr>sco_Value = of_nat (totalSC (take n ?E) - unat amount), sco_Address = changeAddr\<rparr>]
             else SiacoinOutputs txn' = SiacoinOutputs txn)"
        using Funded(1) eq(1) c by (intro exI [of _ n] conjI)
    qed
    from I O V D N show ?thesis by (intro conjI)
  qed
qed

lemma fund_example:
  "fundTxn (\<lambda>xs. xs) freshServer emptyTxn 40 [utxo100] 9 [] =
     (Ok [1],
      emptyTxn\<lparr>SiacoinInputs := [\<lparr>sci_ParentID = 1\<rparr>],
                SiacoinOutputs := [\<lparr>sco_Value = 60, sco_Address = 9\<rparr>]\<rparr>,
      freshServer\<lparr>used := (\<lambda>_. False)(1 := True)\<rparr>)"
  by (simp add: fundTxn_def utxo100_def emptyTxn_def freshServer_def inPoolSC_def sce_ID_def
      Currency_Add_def signSC_def VoidAddress_def)

lemma eligible_example:
  "eligibleSC (used busyServer) (poolSpentSC [poolTxn]) (rev fourUtxos) = [utxo50, utxo100]"
  by (simp add: eligibleSC_def busyServer_def poolSpentSC_def poolTxn_def fourUtxos_def
      utxo100_def utxo70_def utxo50_def utxo200_def sce_ID_def)

lemma eligible_total_example:
  "totalSC (eligibleSC (used busyServer) (poolSpentSC [poolTxn]) fourUtxos) = 150"
  by (simp add: eligibleSC_def busyServer_def poolSpentSC_def poolTxn_def fourUtxos_def
      utxo100_def utxo70_def utxo50_def utxo200_def sce_ID_def valSC_def)

lemma greedy_example:
  "greedyAt 120 [utxo50, utxo100] 2"
  by (auto simp: greedyAt_def valSC_def utxo100_def utxo50_def less_2_cases_iff)

lemma greedy_total_example:
  "totalSC (take 2 [utxo50, utxo100]) = 150"
  by (simp add: valSC_def utxo100_def utxo50_def)

theorem C4_siacoin_funding_witness:
  "(120 :: currency) \<noteq> 0 \<and> mset (rev fourUtxos) = mset fourUtxos \<and>
   eligibleSC (used busyServer) (poolSpentSC [poolTxn]) (rev fourUtxos) = [utxo50, utxo100] \<and>
   greedyAt 120 [utxo50, utxo100] 2 \<and>
   fundTxn rev busyServer emptyTxn 120 fourUtxos 9 [poolTxn] =
     (Ok [3, 1],
      emptyTxn\<lparr>SiacoinInputs := [\<lparr>sci_ParentID = 3\<rparr>, \<lparr>sci_ParentID = 1\<rparr>],
                SiacoinOutputs := [\<lparr>sco_Value = 30, sco_Address = 9\<rparr>]\<rparr>,
      busyServer\<lparr>used := (\<lambda>h. h = 4 \<or> h = 3 \<or> h = 1)\<rparr>) \<and>
   fst (fundTxn rev busyServer emptyTxn 120 fourUtxos 9 [poolTxn]) \<noteq>
     Fail (Err ''insufficient balance'') \<and>
   (\<exists>n. greedyAt 120 (eligibleSC (used busyServer) (poolSpentSC [poolTxn]) (rev fourUtxos)) n \<and>
        [3, 1] = map sce_ID
          (take n (eligibleSC (used busyServer) (poolSpentSC [poolTxn]) (rev fourUtxos)))) \<and>
   fundTxn rev busyServer emptyTxn 120 fourUtxos VoidAddress [poolTxn] =
     (Fail (Err ''change address must be specified''), emptyTxn, busyServer) \<and>
   fundTxn rev busyServer emptyTxn 151 fourUtxos 9 [poolTxn] =
     (Fail (Err ''insufficient balance''), emptyTxn, busyServer)"
proof -
  let ?E = "eligibleSC (used busyServer) (poolSpentSC [poolTxn]) (rev fourUtxos)"
  have h1: "(120 :: currency) \<noteq> 0" by simp
  have h1': "(151 :: currency) \<noteq> 0" by simp
  have h2: "mset (rev fourUtxos) = mset fourUtxos" by simp
  have cov: "unat (120 :: currency) \<le> totalSC (eligibleSC (used busyServer) (poolSpentSC [poolTxn]) fourUtxos)"
    by (simp add: eligible_total_example)
  have short: "totalSC (eligibleSC (used busyServer) (poolSpentSC [poolTxn]) fourUtxos) < unat (151 :: currency)"
    by (simp add: eligible_total_example)
  have g: "greedyAt 120 ?E 2" by (simp only: eligible_example greedy_example)
  note t = C4_siacoin_funding [of 120 rev fourUtxos busyServer emptyTxn 9 "[poolTxn]", OF h1 h2]
  note v = C4_siacoin_funding [of 120 rev fourUtxos busyServer emptyTxn VoidAddress "[poolTxn]", OF h1 h2]
  note i = C4_siacoin_funding [of 151 rev fourUtxos busyServer emptyTxn 9 "[poolTxn]", OF h1' h2]
  from t [THEN conjunct2, THEN conjunct2, THEN conjunct2, THEN conjunct1, THEN mp, OF cov]
  obtain n where n: "greedyAt 120 ?E n"
    and r: "fundTxn rev busyServer emptyTxn 120 fourUtxos 9 [poolTxn] =
      (if 2 ^ 128 \<le> totalSC (take n ?E)
       then (Panic (Err ''overflow''), emptyTxn, busyServer)
       else if unat (120 :: currency) < totalSC (take n ?E) \<and> (9 :: address) = VoidAddress
       then (Fail (Err ''change address must be specified''), emptyTxn, busyServer)
       else (Ok (map sce_ID (take n ?E)),
             emptyTxn\<lparr>SiacoinInputs := SiacoinInputs emptyTxn @
                    map (\<lambda>e. \<lparr>sci_ParentID = sce_ID e\<rparr>) (take n ?E),
                 SiacoinOutputs := SiacoinOutputs emptyTxn @
                    (if unat (120 :: currency) < totalSC (take n ?E)
                     then [\<lparr>sco_Value = of_nat (totalSC (take n ?E) - unat (120 :: currency)),
                            sco_Address = 9\<rparr>]
                     else [])\<rparr>,
             busyServer\<lparr>used := (\<lambda>h. used busyServer h \<or> h \<in> sce_ID ` set (take n ?E))\<rparr>))"
    by blast
  from greedyAt_unique [OF n g] have n2: "n = 2" .
  have a: "fundTxn rev busyServer emptyTxn 120 fourUtxos 9 [poolTxn] =
     (Ok [3, 1],
      emptyTxn\<lparr>SiacoinInputs := [\<lparr>sci_ParentID = 3\<rparr>, \<lparr>sci_ParentID = 1\<rparr>],
                SiacoinOutputs := [\<lparr>sco_Value = 30, sco_Address = 9\<rparr>]\<rparr>,
      busyServer\<lparr>used := (\<lambda>h. h = 4 \<or> h = 3 \<or> h = 1)\<rparr>)"
    unfolding r n2 eligible_example
    by (simp add: valSC_def utxo100_def utxo50_def sce_ID_def VoidAddress_def emptyTxn_def
        busyServer_def)
  from cov t [THEN conjunct1]
  have b: "fst (fundTxn rev busyServer emptyTxn 120 fourUtxos 9 [poolTxn]) \<noteq>
     Fail (Err ''insufficient balance'')"
    by simp
  from t [THEN conjunct2, THEN conjunct1, rule_format, OF a]
  have o: "\<exists>n. greedyAt 120 ?E n \<and> [3, 1] = map sce_ID (take n ?E)"
    by (elim exE conjE) (rule exI, erule conjI, assumption)
  have c: "fundTxn rev busyServer emptyTxn 120 fourUtxos VoidAddress [poolTxn] =
     (Fail (Err ''change address must be specified''), emptyTxn, busyServer)"
    by (rule v [THEN conjunct2, THEN conjunct2, THEN conjunct1, rule_format, of 2])
       (simp only: eligible_example greedy_example greedy_total_example, simp)
  from i [THEN conjunct2, THEN conjunct2, THEN conjunct2, THEN conjunct2, THEN mp, OF short]
  have d: "fundTxn rev busyServer emptyTxn 151 fourUtxos 9 [poolTxn] =
     (Fail (Err ''insufficient balance''), emptyTxn, busyServer)" .
  from h1 h2 eligible_example greedy_example a b o c d show ?thesis by (intro conjI)
qed

text \<open>
  C5. Reservation invariant of funding. For a successful fund call (and likewise a
  successful fundsf call): no id of \<open>toSign\<close> was in \<open>used\<close> when the call started, every id
  of \<open>toSign\<close> is in \<open>used\<close> when the call returns (the mutex is released on return), and
  the transaction gets exactly one input per id of \<open>toSign\<close>, in order. Consequently a
  later successful call, from any server state that still holds those reservations,
  returns a \<open>toSign\<close> disjoint from the first.
\<close>

theorem C5_reservation_invariant:
  "(fundTxn sh s txn amount utxos ca pool = (Ok toSign, txn', s') \<longrightarrow>
      (\<forall>h \<in> set toSign. \<not> used s h) \<and>
      (\<forall>h \<in> set toSign. used s' h) \<and>
      SiacoinInputs txn' = SiacoinInputs txn @ map (\<lambda>h. \<lparr>sci_ParentID = h\<rparr>) toSign \<and>
      (\<forall>s2 sh2 txn2 amount2 utxos2 ca2 pool2 toSign2 txn2' s2'.
          (\<forall>h. used s' h \<longrightarrow> used s2 h) \<and>
          fundTxn sh2 s2 txn2 amount2 utxos2 ca2 pool2 = (Ok toSign2, txn2', s2') \<longrightarrow>
          set toSign \<inter> set toSign2 = {})) \<and>
   (fundTxnSF shf s txn amountf utxosf ca cl pool = (Ok toSignf, txnf', sf') \<longrightarrow>
      (\<forall>h \<in> set toSignf. \<not> used s h) \<and>
      (\<forall>h \<in> set toSignf. used sf' h) \<and>
      SiafundInputs txnf' = SiafundInputs txn @
         map (\<lambda>h. \<lparr>sfi_ParentID = h, sfi_ClaimAddress = cl\<rparr>) toSignf \<and>
      (\<forall>s2 sh2 txn2 amount2 utxos2 ca2 cl2 pool2 toSign2 txn2' s2'.
          (\<forall>h. used sf' h \<longrightarrow> used s2 h) \<and>
          fundTxnSF sh2 s2 txn2 amount2 utxos2 ca2 cl2 pool2 = (Ok toSign2, txn2', s2') \<longrightarrow>
          set toSignf \<inter> set toSign2 = {}))"
proof (intro conjI impI)
  assume a: "fundTxn sh s txn amount utxos ca pool = (Ok toSign, txn', s')"
  note r = fundTxn_reserve [OF a]
  from r show "\<forall>h \<in> set toSign. \<not> used s h" by blast
  from r show "\<forall>h \<in> set toSign. used s' h" by simp
  from r show "SiacoinInputs txn' = SiacoinInputs txn @ map (\<lambda>h. \<lparr>sci_ParentID = h\<rparr>) toSign"
    by blast
  show "\<forall>s2 sh2 txn2 amount2 utxos2 ca2 pool2 toSign2 txn2' s2'.
          (\<forall>h. used s' h \<longrightarrow> used s2 h) \<and>
          fundTxn sh2 s2 txn2 amount2 utxos2 ca2 pool2 = (Ok toSign2, txn2', s2') \<longrightarrow>
          set toSign \<inter> set toSign2 = {}"
  proof (intro allI impI, elim conjE)
    fix s2 sh2 txn2 amount2 utxos2 ca2 pool2 toSign2 txn2' s2'
    assume keep: "\<forall>h. used s' h \<longrightarrow> used s2 h"
      and b: "fundTxn sh2 s2 txn2 amount2 utxos2 ca2 pool2 = (Ok toSign2, txn2', s2')"
    from fundTxn_reserve [OF b] have "\<forall>h \<in> set toSign2. \<not> used s2 h" by blast
    moreover from r have "\<forall>h \<in> set toSign. used s' h" by simp
    ultimately show "set toSign \<inter> set toSign2 = {}" using keep by blast
  qed
next
  assume a: "fundTxnSF shf s txn amountf utxosf ca cl pool = (Ok toSignf, txnf', sf')"
  note r = fundTxnSF_reserve [OF a]
  from r show "\<forall>h \<in> set toSignf. \<not> used s h" by blast
  from r show "\<forall>h \<in> set toSignf. used sf' h" by simp
  from r show "SiafundInputs txnf' = SiafundInputs txn @
         map (\<lambda>h. \<lparr>sfi_ParentID = h, sfi_ClaimAddress = cl\<rparr>) toSignf"
    by blast
  show "\<forall>s2 sh2 txn2 amount2 utxos2 ca2 cl2 pool2 toSign2 txn2' s2'.
          (\<forall>h. used sf' h \<longrightarrow> used s2 h) \<and>
          fundTxnSF sh2 s2 txn2 amount2 utxos2 ca2 cl2 pool2 = (Ok toSign2, txn2', s2') \<longrightarrow>
          set toSignf \<inter> set toSign2 = {}"
  proof (intro allI impI, elim conjE)
    fix s2 sh2 txn2 amount2 utxos2 ca2 cl2 pool2 toSign2 txn2' s2'
    assume keep: "\<forall>h. used sf' h \<longrightarrow> used s2 h"
      and b: "fundTxnSF sh2 s2 txn2 amount2 utxos2 ca2 cl2 pool2 = (Ok toSign2, txn2', s2')"
    from fundTxnSF_reserve [OF b] have "\<forall>h \<in> set toSign2. \<not> used s2 h" by blast
    moreover from r have "\<forall>h \<in> set toSignf. used sf' h" by simp
    ultimately show "set toSignf \<inter> set toSign2 = {}" using keep by blast
  qed
qed

lemma fundsf_example:
  "fundTxnSF (\<lambda>xs. xs) freshServer emptyTxn 3 [sfUtxo10] 9 11 [] =
     (Ok [2],
      emptyTxn\<lparr>SiafundInputs := [\<lparr>sfi_ParentID = 2, sfi_ClaimAddress = 11\<rparr>],
                SiafundOutputs := [\<lparr>sfo_Value = 7, sfo_Address = 9\<rparr>]\<rparr>,
      freshServer\<lparr>used := (\<lambda>_. False)(2 := True)\<rparr>)"
  by (simp add: fundTxnSF_def sfUtxo10_def emptyTxn_def freshServer_def inPoolSF_def sfe_ID_def
      signSF_def VoidAddress_def)

lemma fund_second_example:
  "fundTxn (\<lambda>xs. xs) (freshServer\<lparr>used := (\<lambda>_. False)(1 := True)\<rparr>) emptyTxn 40 [utxo100] 9 [] =
     (Fail (Err ''insufficient balance''), emptyTxn, freshServer\<lparr>used := (\<lambda>_. False)(1 := True)\<rparr>)"
  by (simp add: fundTxn_def utxo100_def emptyTxn_def freshServer_def inPoolSC_def sce_ID_def)

lemma fund_after_first_example:
  "fundTxn (\<lambda>xs. xs) (freshServer\<lparr>used := (\<lambda>_. False)(1 := True)\<rparr>) emptyTxn 40
     [utxo100, utxo50] 9 [] =
     (Ok [3],
      emptyTxn\<lparr>SiacoinInputs := [\<lparr>sci_ParentID = 3\<rparr>],
                SiacoinOutputs := [\<lparr>sco_Value = 10, sco_Address = 9\<rparr>]\<rparr>,
      freshServer\<lparr>used := (\<lambda>_. False)(1 := True, 3 := True)\<rparr>)"
  by (simp add: fundTxn_def utxo100_def utxo50_def emptyTxn_def freshServer_def inPoolSC_def
      sce_ID_def Currency_Add_def signSC_def VoidAddress_def)

theorem C5_reservation_invariant_witness:
  "fundTxn (\<lambda>xs. xs) freshServer emptyTxn 40 [utxo100] 9 [] =
     (Ok [1],
      emptyTxn\<lparr>SiacoinInputs := [\<lparr>sci_ParentID = 1\<rparr>],
                SiacoinOutputs := [\<lparr>sco_Value = 60, sco_Address = 9\<rparr>]\<rparr>,
      freshServer\<lparr>used := (\<lambda>_. False)(1 := True)\<rparr>) \<and>
   \<not> used freshServer 1 \<and>
   used (freshServer\<lparr>used := (\<lambda>_. False)(1 := True)\<rparr>) 1 \<and>
   fundTxn (\<lambda>xs. xs) (freshServer\<lparr>used := (\<lambda>_. False)(1 := True)\<rparr>) emptyTxn 40
     [utxo100, utxo50] 9 [] =
     (Ok [3],
      emptyTxn\<lparr>SiacoinInputs := [\<lparr>sci_ParentID = 3\<rparr>],
                SiacoinOutputs := [\<lparr>sco_Value = 10, sco_Address = 9\<rparr>]\<rparr>,
      freshServer\<lparr>used := (\<lambda>_. False)(1 := True, 3 := True)\<rparr>) \<and>
   set [1 :: hash256] \<inter> set [3] = {} \<and>
   fundTxnSF (\<lambda>xs. xs) freshServer emptyTxn 3 [sfUtxo10] 9 11 [] =
     (Ok [2],
      emptyTxn\<lparr>SiafundInputs := [\<lparr>sfi_ParentID = 2, sfi_ClaimAddress = 11\<rparr>],
                SiafundOutputs := [\<lparr>sfo_Value = 7, sfo_Address = 9\<rparr>]\<rparr>,
      freshServer\<lparr>used := (\<lambda>_. False)(2 := True)\<rparr>) \<and>
   \<not> used freshServer 2 \<and>
   used (freshServer\<lparr>used := (\<lambda>_. False)(2 := True)\<rparr>) 2"
proof -
  note t = C5_reservation_invariant [of "\<lambda>xs. xs" freshServer emptyTxn 40 "[utxo100]" 9 "[]" "[1]"
      "emptyTxn\<lparr>SiacoinInputs := [\<lparr>sci_ParentID = 1\<rparr>],
                SiacoinOutputs := [\<lparr>sco_Value = 60, sco_Address = 9\<rparr>]\<rparr>"
      "freshServer\<lparr>used := (\<lambda>_. False)(1 := True)\<rparr>"
      "\<lambda>xs. xs" 3 "[sfUtxo10]" 11 "[2]"
      "emptyTxn\<lparr>SiafundInputs := [\<lparr>sfi_ParentID = 2, sfi_ClaimAddress = 11\<rparr>],
                SiafundOutputs := [\<lparr>sfo_Value = 7, sfo_Address = 9\<rparr>]\<rparr>"
      "freshServer\<lparr>used := (\<lambda>_. False)(2 := True)\<rparr>"]
  note first = t [THEN conjunct1, THEN mp, OF fund_example]
  from first
  have a: "\<not> used freshServer 1" "used (freshServer\<lparr>used := (\<lambda>_. False)(1 := True)\<rparr>) 1"
    by simp_all
  have keep: "\<forall>h. used (freshServer\<lparr>used := (\<lambda>_. False)(1 := True)\<rparr>) h \<longrightarrow>
                  used (freshServer\<lparr>used := (\<lambda>_. False)(1 := True)\<rparr>) h"
    by simp
  from first [THEN conjunct2, THEN conjunct2, THEN conjunct2, rule_format,
      OF conjI [OF keep fund_after_first_example]]
  have d: "set [1 :: hash256] \<inter> set [3] = {}" .
  from t [THEN conjunct2, THEN mp, OF fundsf_example]
  have b: "\<not> used freshServer 2" "used (freshServer\<lparr>used := (\<lambda>_. False)(2 := True)\<rparr>) 2"
    by simp_all
  from fund_example a fund_after_first_example d fundsf_example b show ?thesis by (intro conjI)
qed

subsection \<open>Funding: the candidate cap\<close>

lemma totalSC_filter_le: "totalSC (filter P xs) \<le> totalSC xs"
  by (induction xs) auto

lemma totalSC_unit: "totalSC (map unitSC is) = length is"
  by (induction "is") (auto simp: valSC_def unitSC_def)

lemma totalSF_filter_le: "totalSF (filter P xs) \<le> totalSF xs"
  by (induction xs) (auto simp: totalSF_def)

lemma totalSF_unit: "totalSF (map unitSF is) = length is"
  by (induction "is") (auto simp: totalSF_def valSF_def unitSF_def)

lemma totalSF_perm:
  assumes "mset ys = mset xs"
  shows "totalSF (eligibleSF u p ys) = totalSF (eligibleSF u p xs)"
proof -
  have "mset (eligibleSF u p ys) = mset (eligibleSF u p xs)"
    unfolding eligibleSF_def mset_filter using assms by simp
  then have "mset (map valSF (eligibleSF u p ys)) = mset (map valSF (eligibleSF u p xs))"
    by (metis mset_map)
  then show ?thesis unfolding totalSF_def by (metis sum_mset_sum_list)
qed

lemma fundTxn_insufficient:
  assumes "amount \<noteq> 0" "mset (sh utxos) = mset utxos" "totalSC utxos < unat amount"
  shows "fundTxn sh s txn amount utxos ca pool = (Fail (Err ''insufficient balance''), txn, s)"
proof -
  have "totalSC (eligibleSC (used s) (poolSpentSC pool) (sh utxos)) =
        totalSC (eligibleSC (used s) (poolSpentSC pool) utxos)"
    by (rule totalSC_perm [OF assms(2)])
  also have "\<dots> \<le> totalSC utxos" unfolding eligibleSC_def by (rule totalSC_filter_le)
  finally have lt: "totalSC (eligibleSC (used s) (poolSpentSC pool) (sh utxos)) < unat amount"
    using assms(3) by simp
  from assms(1) show ?thesis
  proof (cases rule: fundTxn_cases [where s = s and pool = pool and shuffle = sh
        and utxos = utxos and txn = txn and changeAddr = ca])
    case Insufficient
    then show ?thesis by simp
  next
    case (Overflow n)
    with greedyAt_total [OF Overflow(1)] lt show ?thesis by simp
  next
    case (ChangeRequired n)
    with greedyAt_total [OF ChangeRequired(1)] lt show ?thesis by simp
  next
    case (Funded n)
    with greedyAt_total [OF Funded(1)] lt show ?thesis by simp
  qed
qed

lemma fundTxnSF_insufficient:
  assumes "mset (sh utxos) = mset utxos" "totalSF utxos < unat amount"
  shows "fundTxnSF sh s txn amount utxos ca cl pool = (Fail (Err ''insufficient balance''), txn, s)"
proof -
  let ?E = "eligibleSF (used s) (inPoolSF pool) (sh utxos)"
  have "totalSF ?E = totalSF (eligibleSF (used s) (inPoolSF pool) utxos)"
    by (rule totalSF_perm [OF assms(1)])
  also have "\<dots> \<le> totalSF utxos" unfolding eligibleSF_def by (rule totalSF_filter_le)
  finally have lt: "totalSF ?E < unat amount" using assms(2) by simp
  then have nz: "amount \<noteq> 0" by auto
  from lt have "unat (0 :: u64) + totalSF ?E < unat amount" by simp
  from scanSF_short [OF this, of "[]"]
  have sc: "scanSF (used s) (inPoolSF pool) amount (sh utxos) 0 [] = (of_nat (totalSF ?E), ?E)"
    by simp
  have "unat amount < 2 ^ 64" using unsigned_less [of amount, where 'a = nat] by simp
  with lt have "unat (of_nat (totalSF ?E) :: u64) = totalSF ?E"
    by (simp add: unat_of_nat)
  with lt have "(of_nat (totalSF ?E) :: u64) < amount" by (simp add: word_less_nat_alt)
  with nz sc show ?thesis by (simp add: fundTxnSF_def)
qed

lemma totalSC_take_ones:
  "\<forall>x \<in> set xs. valSC x = 1 \<Longrightarrow> totalSC (take n xs) = min n (length xs)"
proof (induction xs arbitrary: n)
  case Nil
  then show ?case by simp
next
  case (Cons x xs)
  then show ?case by (cases n) simp_all
qed

lemma totalSF_take_ones:
  "\<forall>x \<in> set xs. valSF x = 1 \<Longrightarrow> totalSF (take n xs) = min n (length xs)"
proof (induction xs arbitrary: n)
  case Nil
  then show ?case by (simp add: totalSF_def)
next
  case (Cons x xs)
  then show ?case by (cases n) (simp_all add: totalSF_def)
qed

text \<open>
  When no proper prefix of the eligible outputs reaches the amount and their sum does not
  wrap, the siafund loop selects all of them.
\<close>

lemma scanSF_all:
  assumes "\<forall>m < length (eligibleSF u p xs). unat sm + totalSF (take m (eligibleSF u p xs)) < unat a"
    and "unat sm + totalSF (eligibleSF u p xs) < 2 ^ 64"
  shows "scanSF u p a xs sm fe =
           (of_nat (unat sm + totalSF (eligibleSF u p xs)), fe @ eligibleSF u p xs)"
  using assms
proof (induction xs arbitrary: sm fe)
  case Nil
  then show ?case by (simp add: eligibleSF_def totalSF_def)
next
  case (Cons x xs)
  show ?case
  proof (cases "u (sfe_ID x) \<or> p (sfe_ID x)")
    case True
    then have E: "eligibleSF u p (x # xs) = eligibleSF u p xs"
      by (auto simp: eligibleSF_def)
    from Cons.prems have
      "\<forall>m < length (eligibleSF u p xs). unat sm + totalSF (take m (eligibleSF u p xs)) < unat a"
      "unat sm + totalSF (eligibleSF u p xs) < 2 ^ 64"
      unfolding E by simp_all
    from Cons.IH [OF this, of fe] True show ?thesis unfolding E by auto
  next
    case False
    let ?E = "eligibleSF u p xs"
    from False have E: "eligibleSF u p (x # xs) = x # ?E"
      by (simp add: eligibleSF_def)
    let ?s1 = "sm + sfo_Value (sfe_SiafundOutput x)"
    from Cons.prems(2) have nowrap: "unat sm + valSF x + totalSF ?E < 2 ^ 64"
      unfolding E by (simp add: totalSF_def)
    then have u1: "unat ?s1 = unat sm + valSF x"
      by (simp add: unat_word_ariths valSF_def)
    show ?thesis
    proof (cases "a \<le> ?s1")
      case True
      then have ge: "unat a \<le> unat sm + valSF x" using u1 by (simp add: word_le_nat_alt)
      have "?E = []"
      proof (rule ccontr)
        assume "?E \<noteq> []"
        then have "1 < length (x # ?E)" by (cases ?E) simp_all
        with Cons.prems(1) have "unat sm + totalSF (take 1 (x # ?E)) < unat a"
          unfolding E by blast
        with ge show False by (simp add: totalSF_def)
      qed
      moreover have "(of_nat (unat ?s1) :: u64) = ?s1" by (metis of_nat_unat ucast_id)
      then have "(of_nat (unat sm + valSF x) :: u64) = ?s1" unfolding u1 .
      ultimately show ?thesis using False True unfolding E
        by (simp add: Let_def totalSF_def)
    next
      case nge: False
      have p1: "\<forall>m < length ?E. unat ?s1 + totalSF (take m ?E) < unat a"
      proof (intro allI impI)
        fix m assume "m < length ?E"
        then have "Suc m < length (x # ?E)" by simp
        with Cons.prems(1) have "unat sm + totalSF (take (Suc m) (x # ?E)) < unat a"
          unfolding E by blast
        then show "unat ?s1 + totalSF (take m ?E) < unat a"
          using u1 by (simp add: totalSF_def)
      qed
      from nowrap u1 have p2: "unat ?s1 + totalSF ?E < 2 ^ 64" by simp
      from Cons.IH [OF p1 p2, of "fe @ [x]"] False nge u1 show ?thesis
        unfolding E by (simp add: Let_def totalSF_def add.assoc)
    qed
  qed
qed

text \<open>
  A request for exactly the number of unit outputs handed to the closure, none of them
  reserved and the pool empty, is funded with all of them and no change output.
\<close>

lemma fundTxn_all_needed:
  assumes "mset (sh utxos) = mset utxos" and "\<forall>x \<in> set utxos. valSC x = 1"
    and "unat amount = length utxos" and "amount \<noteq> 0" and "\<forall>h. \<not> used s h"
  shows "fundTxn sh s txn amount utxos ca [] =
           (Ok (map sce_ID (sh utxos)),
            txn\<lparr>SiacoinInputs := SiacoinInputs txn @ map (\<lambda>e. \<lparr>sci_ParentID = sce_ID e\<rparr>) (sh utxos)\<rparr>,
            s\<lparr>used := (\<lambda>h. h \<in> sce_ID ` set utxos)\<rparr>)"
proof -
  let ?E = "eligibleSC (used s) (poolSpentSC []) (sh utxos)"
  have E: "?E = sh utxos" using assms(5) by (simp add: eligibleSC_def poolSpentSC_def)
  have len: "length (sh utxos) = length utxos" using assms(1) by (rule mset_eq_length)
  have st: "set (sh utxos) = set utxos" using assms(1) by (rule mset_eq_setD)
  with assms(2) have ones: "\<forall>x \<in> set (sh utxos). valSC x = 1" by simp
  have tk: "\<And>n. totalSC (take n (sh utxos)) = min n (length utxos)"
    using totalSC_take_ones [OF ones] len by simp
  from tk [of "length utxos"] len have tot: "totalSC (sh utxos) = length utxos" by simp
  have cov: "unat amount \<le> totalSC ?E" unfolding E tot using assms(3) by simp
  from fundTxn_covered [where amount = amount and s = s and pool = "[]" and shuffle = sh
      and utxos = utxos and txn = txn and changeAddr = ca, OF assms(4) cov]
  obtain n where g: "greedyAt amount (sh utxos) n"
    and r: "fundTxn sh s txn amount utxos ca [] =
      (if 2 ^ 128 \<le> totalSC (take n (sh utxos))
       then (Panic (Err ''overflow''), txn, s)
       else if unat amount < totalSC (take n (sh utxos)) \<and> ca = VoidAddress
       then (Fail (Err ''change address must be specified''), txn, s)
       else (Ok (map sce_ID (take n (sh utxos))),
             txn\<lparr>SiacoinInputs := SiacoinInputs txn @
                    map (\<lambda>e. \<lparr>sci_ParentID = sce_ID e\<rparr>) (take n (sh utxos)),
                 SiacoinOutputs := SiacoinOutputs txn @
                    (if unat amount < totalSC (take n (sh utxos))
                     then [\<lparr>sco_Value = of_nat (totalSC (take n (sh utxos)) - unat amount),
                            sco_Address = ca\<rparr>]
                     else [])\<rparr>,
             s\<lparr>used := (\<lambda>h. used s h \<or> h \<in> sce_ID ` set (take n (sh utxos)))\<rparr>))"
    unfolding E by blast
  from g have "n \<le> length utxos" "unat amount \<le> min n (length utxos)"
    unfolding greedyAt_def tk len by simp_all
  with assms(3) have n: "n = length utxos" by simp
  have tkn: "take n (sh utxos) = sh utxos" unfolding n using len by simp
  have small: "\<not> (2 :: nat) ^ 128 \<le> length utxos"
    using unsigned_less [of amount, where 'a = nat] assms(3) by simp
  show ?thesis unfolding r tkn tot using small assms(3,5) st by simp
qed

lemma fundTxnSF_all_needed:
  assumes "mset (sh utxos) = mset utxos" and "\<forall>x \<in> set utxos. valSF x = 1"
    and "unat amount = length utxos" and "amount \<noteq> 0" and "\<forall>h. \<not> used s h"
  shows "fundTxnSF sh s txn amount utxos ca cl [] =
           (Ok (map sfe_ID (sh utxos)),
            txn\<lparr>SiafundInputs := SiafundInputs txn @
                   map (\<lambda>e. \<lparr>sfi_ParentID = sfe_ID e, sfi_ClaimAddress = cl\<rparr>) (sh utxos)\<rparr>,
            s\<lparr>used := (\<lambda>h. h \<in> sfe_ID ` set utxos)\<rparr>)"
proof -
  let ?E = "eligibleSF (used s) (inPoolSF []) (sh utxos)"
  have E: "?E = sh utxos" using assms(5) by (simp add: eligibleSF_def inPoolSF_def)
  have len: "length (sh utxos) = length utxos" using assms(1) by (rule mset_eq_length)
  have st: "set (sh utxos) = set utxos" using assms(1) by (rule mset_eq_setD)
  with assms(2) have ones: "\<forall>x \<in> set (sh utxos). valSF x = 1" by simp
  have tk: "\<And>n. totalSF (take n (sh utxos)) = min n (length utxos)"
    using totalSF_take_ones [OF ones] len by simp
  from tk [of "length utxos"] len have tot: "totalSF (sh utxos) = length utxos" by simp
  have lt64: "length utxos < 2 ^ 64"
    using unsigned_less [of amount, where 'a = nat] assms(3) by simp
  have p1: "\<forall>m < length ?E. unat (0 :: u64) + totalSF (take m ?E) < unat amount"
    unfolding E tk len using assms(3) by simp
  have p2: "unat (0 :: u64) + totalSF ?E < 2 ^ 64" unfolding E tot using lt64 by simp
  from scanSF_all [OF p1 p2, of "[]"]
  have "scanSF (used s) (inPoolSF []) amount (sh utxos) 0 [] = (of_nat (length utxos), sh utxos)"
    unfolding E tot by simp
  moreover have "(of_nat (length utxos) :: u64) = amount"
    using assms(3) by (metis of_nat_unat ucast_id)
  ultimately have sc: "scanSF (used s) (inPoolSF []) amount (sh utxos) 0 [] = (amount, sh utxos)"
    by simp
  show ?thesis using assms(4,5) st by (simp add: fundTxnSF_def sc signSF_eq)
qed

text \<open>
  C9. Both fund handlers read the wallet manager once, with offset 0 and limit 1000, and
  hand what it returns to the funding closure: two managers that agree on that one read
  give the same response, and a wallet with any list of unspent outputs is answered as
  the funding closure answers on its first 1000 outputs. So the first 1000 outputs are
  the candidates, all of them and no others. With 1001 outputs of value 1, a fresh server
  and an empty pool, a request for 1000 is funded with exactly the first 1000 outputs
  (in shuffled order; the 1001st is never selected), while a request for 1001, which the
  wallet's total balance covers, is answered "insufficient balance".
\<close>

theorem C9_candidate_cap:
  assumes "\<forall>xs. mset (sh xs) = mset xs" and "\<forall>xs. mset (shf xs) = mset xs"
  shows
   "(um w 0 1000 = um' w 0 1000 \<longrightarrow>
       walletsFundHandler sh um pool up s w wfr = walletsFundHandler sh um' pool up s w wfr) \<and>
    (umf w 0 1000 = umf' w 0 1000 \<longrightarrow>
       walletsFundSFHandler shf umf pool up s w wfsr = walletsFundSFHandler shf umf' pool up s w wfsr) \<and>
    walletsFundHandler sh (\<lambda>w offset limit. Inr (paginate outs offset limit)) pool up s w wfr =
    walletsFundHandler sh (\<lambda>w offset limit. Inr (paginate (take 1000 outs) offset limit)) pool up s w wfr \<and>
    walletsFundSFHandler shf (\<lambda>w offset limit. Inr (paginate outsf offset limit)) pool up s w wfsr =
    walletsFundSFHandler shf (\<lambda>w offset limit. Inr (paginate (take 1000 outsf) offset limit)) pool up s w wfsr \<and>
    walletsFundHandler sh (\<lambda>w offset limit. Inr (paginate outs offset limit)) pool up s w wfr =
      (case fundTxn sh s (wfr_Transaction wfr) (wfr_Amount wfr) (take 1000 outs)
              (wfr_ChangeAddress wfr) pool of
         (Fail err, txn, s') \<Rightarrow> (HttpError (Wrap ''couldn't fund transaction'' err), s')
       | (Panic e, txn, s') \<Rightarrow> (Panicked e, s')
       | (Ok toSign, txn, s') \<Rightarrow>
           (Encoded \<lparr>resp_Transaction = txn, resp_ToSign = toSign, resp_DependsOn = up txn\<rparr>, s')) \<and>
    walletsFundSFHandler shf (\<lambda>w offset limit. Inr (paginate outsf offset limit)) pool up s w wfsr =
      (case fundTxnSF shf s (wfsr_Transaction wfsr) (wfsr_Amount wfsr) (take 1000 outsf)
              (wfsr_ChangeAddress wfsr) (wfsr_ClaimAddress wfsr) pool of
         (Fail err, txn, s') \<Rightarrow> (HttpError (Wrap ''couldn't fund transaction'' err), s')
       | (Panic e, txn, s') \<Rightarrow> (Panicked e, s')
       | (Ok toSign, txn, s') \<Rightarrow>
           (Encoded \<lparr>resp_Transaction = txn, resp_ToSign = toSign, resp_DependsOn = up txn\<rparr>, s')) \<and>
    walletsFundHandler sh (\<lambda>w offset limit. Inr (paginate (map unitSC [1..<1002]) offset limit)) [] up
        freshServer w \<lparr>wfr_Transaction = txn, wfr_Amount = 1000, wfr_ChangeAddress = ca\<rparr> =
      (Encoded
         \<lparr>resp_Transaction =
            txn\<lparr>SiacoinInputs := SiacoinInputs txn @
                   map (\<lambda>e. \<lparr>sci_ParentID = sce_ID e\<rparr>) (sh (map unitSC [1..<1001]))\<rparr>,
          resp_ToSign = map sce_ID (sh (map unitSC [1..<1001])),
          resp_DependsOn =
            up (txn\<lparr>SiacoinInputs := SiacoinInputs txn @
                      map (\<lambda>e. \<lparr>sci_ParentID = sce_ID e\<rparr>) (sh (map unitSC [1..<1001]))\<rparr>)\<rparr>,
       freshServer\<lparr>used := (\<lambda>h. h \<in> sce_ID ` set (map unitSC [1..<1001]))\<rparr>) \<and>
    walletsFundSFHandler shf (\<lambda>w offset limit. Inr (paginate (map unitSF [1..<1002]) offset limit)) [] up
        freshServer w
        \<lparr>wfsr_Transaction = txn, wfsr_Amount = 1000, wfsr_ChangeAddress = ca, wfsr_ClaimAddress = cl\<rparr> =
      (Encoded
         \<lparr>resp_Transaction =
            txn\<lparr>SiafundInputs := SiafundInputs txn @
                   map (\<lambda>e. \<lparr>sfi_ParentID = sfe_ID e, sfi_ClaimAddress = cl\<rparr>)
                     (shf (map unitSF [1..<1001]))\<rparr>,
          resp_ToSign = map sfe_ID (shf (map unitSF [1..<1001])),
          resp_DependsOn =
            up (txn\<lparr>SiafundInputs := SiafundInputs txn @
                      map (\<lambda>e. \<lparr>sfi_ParentID = sfe_ID e, sfi_ClaimAddress = cl\<rparr>)
                        (shf (map unitSF [1..<1001]))\<rparr>)\<rparr>,
       freshServer\<lparr>used := (\<lambda>h. h \<in> sfe_ID ` set (map unitSF [1..<1001]))\<rparr>) \<and>
    unat (1001 :: currency) \<le> totalSC (map unitSC [1..<1002]) \<and>
    walletsFundHandler sh (\<lambda>w offset limit. Inr (paginate (map unitSC [1..<1002]) offset limit)) pool up s w
        \<lparr>wfr_Transaction = txn, wfr_Amount = 1001, wfr_ChangeAddress = ca\<rparr> =
      (HttpError (Wrap ''couldn't fund transaction'' (Err ''insufficient balance'')), s) \<and>
    unat (1001 :: u64) \<le> totalSF (map unitSF [1..<1002]) \<and>
    walletsFundSFHandler shf (\<lambda>w offset limit. Inr (paginate (map unitSF [1..<1002]) offset limit)) pool up s w
        \<lparr>wfsr_Transaction = txn, wfsr_Amount = 1001, wfsr_ChangeAddress = ca, wfsr_ClaimAddress = cl\<rparr> =
      (HttpError (Wrap ''couldn't fund transaction'' (Err ''insufficient balance'')), s)"
  (is "?R1 \<and> ?R2 \<and> ?P1 \<and> ?P2 \<and> ?Q1 \<and> ?Q2 \<and> ?F1 \<and> ?F2 \<and> ?T1 \<and> ?I1 \<and> ?T2 \<and> ?I2")
proof -
  have R1: ?R1 by (simp add: walletsFundHandler_def)
  have R2: ?R2 by (simp add: walletsFundSFHandler_def)
  have P1: ?P1 by (simp add: walletsFundHandler_def paginate_def)
  have P2: ?P2 by (simp add: walletsFundSFHandler_def paginate_def)
  have Q1: ?Q1 by (simp add: walletsFundHandler_def paginate_def)
  have Q2: ?Q2 by (simp add: walletsFundSFHandler_def paginate_def)
  have T1: ?T1 by (simp add: totalSC_unit)
  have T2: ?T2 by (simp add: totalSF_unit)
  have tk: "take 1000 (map unitSC [1..<1002]) = map unitSC [1..<1001]"
    unfolding take_map by simp
  have tkf: "take 1000 (map unitSF [1..<1002]) = map unitSF [1..<1001]"
    unfolding take_map by simp
  have fresh: "\<forall>h. \<not> used freshServer h" by (simp add: freshServer_def)
  have p: "mset (sh (map unitSC [1..<1001])) = mset (map unitSC [1..<1001])"
    using assms(1) by blast
  have pf: "mset (shf (map unitSF [1..<1001])) = mset (map unitSF [1..<1001])"
    using assms(2) by blast
  have ones: "\<forall>x \<in> set (map unitSC [1..<1001]). valSC x = 1"
    by (simp add: valSC_def unitSC_def)
  have onesf: "\<forall>x \<in> set (map unitSF [1..<1001]). valSF x = 1"
    by (simp add: valSF_def unitSF_def)
  have len: "unat (1000 :: currency) = length (map unitSC [1..<1001])" by simp
  have lenf: "unat (1000 :: u64) = length (map unitSF [1..<1001])" by simp
  have nz0: "(1000 :: currency) \<noteq> 0" by simp
  have nz0f: "(1000 :: u64) \<noteq> 0" by simp
  have F1: ?F1
    by (simp only: walletsFundHandler_def paginate_def sum.case drop_0 nat_numeral nat_0 tk
          wallet_fund_request.simps
          fundTxn_all_needed [where sh = sh and s = freshServer and txn = txn and ca = ca,
            OF p ones len nz0 fresh] prod.case res.case)
  have F2: ?F2
    by (simp only: walletsFundSFHandler_def paginate_def sum.case drop_0 nat_numeral nat_0 tkf
          wallet_fund_sf_request.simps
          fundTxnSF_all_needed [where sh = shf and s = freshServer and txn = txn and ca = ca
            and cl = cl, OF pf onesf lenf nz0f fresh] prod.case res.case)
  have "totalSC (map unitSC [1..<1001]) = 1000"
    unfolding totalSC_unit by simp
  then have lt: "totalSC (map unitSC [1..<1001]) < unat (1001 :: currency)" by simp
  have nz: "(1001 :: currency) \<noteq> 0" by simp
  have I1: ?I1
    by (simp only: walletsFundHandler_def paginate_def sum.case drop_0 nat_numeral nat_0 tk
          wallet_fund_request.simps
          fundTxn_insufficient [where sh = sh and s = s and txn = txn and ca = ca and pool = pool,
            OF nz p lt] prod.case res.case)
  have "totalSF (map unitSF [1..<1001]) = 1000"
    unfolding totalSF_unit by simp
  then have ltf: "totalSF (map unitSF [1..<1001]) < unat (1001 :: u64)" by simp
  have I2: ?I2
    by (simp only: walletsFundSFHandler_def paginate_def sum.case drop_0 nat_numeral nat_0 tkf
          wallet_fund_sf_request.simps
          fundTxnSF_insufficient [where sh = shf and s = s and txn = txn and ca = ca and cl = cl
            and pool = pool, OF pf ltf] prod.case res.case)
  from R1 R2 P1 P2 Q1 Q2 F1 F2 T1 I1 T2 I2 show ?thesis by (intro conjI)
qed

lemma first_page_example:
  "walletOf1001SC 0 0 1000 = firstPageOnlySC 0 0 1000 \<and>
   walletOf1001SF 0 0 1000 = firstPageOnlySF 0 0 1000"
proof -
  have "take 1000 (map unitSC [1..<1002]) = map unitSC [1..<1001]"
    unfolding take_map by simp
  moreover have "take 1000 (map unitSF [1..<1002]) = map unitSF [1..<1001]"
    unfolding take_map by simp
  ultimately show ?thesis
    by (simp only: walletOf1001SC_def walletOf1001SF_def firstPageOnlySC_def firstPageOnlySF_def
        paginate_def drop_0 nat_numeral nat_0 simp_thms if_True)
qed

theorem C9_candidate_cap_witness:
  "walletsFundHandler (\<lambda>xs. xs) walletOf1001SC [] (\<lambda>_. []) freshServer 0 fund1000 =
     walletsFundHandler (\<lambda>xs. xs) firstPageOnlySC [] (\<lambda>_. []) freshServer 0 fund1000 \<and>
   walletsFundSFHandler rev walletOf1001SF [] (\<lambda>_. []) freshServer 0 fundsf1000 =
     walletsFundSFHandler rev firstPageOnlySF [] (\<lambda>_. []) freshServer 0 fundsf1000 \<and>
   walletsFundHandler (\<lambda>xs. xs) (\<lambda>w offset limit. Inr (paginate (map unitSC [1..<1002]) offset limit))
        [] (\<lambda>_. []) freshServer (0 :: nat)
        \<lparr>wfr_Transaction = emptyTxn, wfr_Amount = 1000, wfr_ChangeAddress = 9\<rparr> =
      (Encoded
         \<lparr>resp_Transaction =
            emptyTxn\<lparr>SiacoinInputs := SiacoinInputs emptyTxn @
                   map (\<lambda>e. \<lparr>sci_ParentID = sce_ID e\<rparr>) (map unitSC [1..<1001])\<rparr>,
          resp_ToSign = map sce_ID (map unitSC [1..<1001]),
          resp_DependsOn = []\<rparr>,
       freshServer\<lparr>used := (\<lambda>h. h \<in> sce_ID ` set (map unitSC [1..<1001]))\<rparr>) \<and>
   walletsFundSFHandler rev (\<lambda>w offset limit. Inr (paginate (map unitSF [1..<1002]) offset limit))
        [] (\<lambda>_. []) freshServer (0 :: nat)
        \<lparr>wfsr_Transaction = emptyTxn, wfsr_Amount = 1000, wfsr_ChangeAddress = 9, wfsr_ClaimAddress = 11\<rparr> =
      (Encoded
         \<lparr>resp_Transaction =
            emptyTxn\<lparr>SiafundInputs := SiafundInputs emptyTxn @
                   map (\<lambda>e. \<lparr>sfi_ParentID = sfe_ID e, sfi_ClaimAddress = 11\<rparr>)
                     (rev (map unitSF [1..<1001]))\<rparr>,
          resp_ToSign = map sfe_ID (rev (map unitSF [1..<1001])),
          resp_DependsOn = []\<rparr>,
       freshServer\<lparr>used := (\<lambda>h. h \<in> sfe_ID ` set (map unitSF [1..<1001]))\<rparr>) \<and>
   unat (1001 :: currency) \<le> totalSC (map unitSC [1..<1002]) \<and>
   walletsFundHandler (\<lambda>xs. xs) (\<lambda>w offset limit. Inr (paginate (map unitSC [1..<1002]) offset limit))
        [] (\<lambda>_. []) freshServer (0 :: nat)
        \<lparr>wfr_Transaction = emptyTxn, wfr_Amount = 1001, wfr_ChangeAddress = 9\<rparr> =
      (HttpError (Wrap ''couldn't fund transaction'' (Err ''insufficient balance'')), freshServer) \<and>
   unat (1001 :: u64) \<le> totalSF (map unitSF [1..<1002]) \<and>
   walletsFundSFHandler rev (\<lambda>w offset limit. Inr (paginate (map unitSF [1..<1002]) offset limit))
        [] (\<lambda>_. []) freshServer (0 :: nat)
        \<lparr>wfsr_Transaction = emptyTxn, wfsr_Amount = 1001, wfsr_ChangeAddress = 9, wfsr_ClaimAddress = 11\<rparr> =
      (HttpError (Wrap ''couldn't fund transaction'' (Err ''insufficient balance'')), freshServer)"
proof -
  have h1: "\<forall>xs :: siacoin_element list. mset ((\<lambda>xs. xs) xs) = mset xs" by simp
  have h2: "\<forall>xs :: siafund_element list. mset (rev xs) = mset xs" by simp
  note t = C9_candidate_cap [where sh = "\<lambda>xs. xs" and shf = rev
      and um = walletOf1001SC and um' = firstPageOnlySC
      and umf = walletOf1001SF and umf' = firstPageOnlySF
      and w = "0 :: nat" and pool = "[]" and up = "\<lambda>_. []" and s = freshServer
      and wfr = fund1000 and wfsr = fundsf1000
      and txn = emptyTxn and ca = 9 and cl = 11, OF h1 h2]
  note r1 = t [THEN conjunct1, THEN mp, OF first_page_example [THEN conjunct1]]
  note r2 = t [THEN conjunct2, THEN conjunct1, THEN mp, OF first_page_example [THEN conjunct2]]
  note rest = t [THEN conjunct2, THEN conjunct2, THEN conjunct2, THEN conjunct2,
      THEN conjunct2, THEN conjunct2]
  from r1 r2 rest show ?thesis by simp
qed

text \<open>
  C8. \<^verbatim>\<open>POST /wallets\<close> hands the wallet manager a wallet built from a zero-valued
  request: whatever the body, \<open>AddWallet\<close> receives the wallet with empty name, empty
  description and empty metadata, and the response is the one for that wallet. With
  \<open>AddWallet\<close> as specified, the call fails only when the store fails, and otherwise
  answers the empty-named wallet with the id and the timestamps the store assigned.
\<close>

theorem C8_wallet_post_ignores_request:
  "walletsHandlerPOST aw body st = walletsHandlerPOST aw body' st \<and>
   walletsHandlerPOST aw body st =
     (case aw \<lparr>w_ID = 0, w_Name = [], w_Description = [], w_Metadata = [],
               w_DateCreated = 0, w_LastUpdated = 0\<rparr> st of
        (Inl err, st') \<Rightarrow> (HttpError (Wrap ''couldn't add wallet'' err), st')
      | (Inr w', st') \<Rightarrow> (Encoded w', st')) \<and>
   walletsHandlerPOST AddWallet body ws =
     (case ws_failure ws of
        Some e \<Rightarrow> (HttpError (Wrap ''couldn't add wallet'' e), ws)
      | None \<Rightarrow>
          (Encoded \<lparr>w_ID = ws_nextID ws, w_Name = [], w_Description = [], w_Metadata = [],
                    w_DateCreated = ws_now ws, w_LastUpdated = ws_now ws\<rparr>,
           ws\<lparr>ws_wallets := ws_wallets ws @
                  [\<lparr>w_ID = ws_nextID ws, w_Name = [], w_Description = [], w_Metadata = [],
                    w_DateCreated = ws_now ws, w_LastUpdated = ws_now ws\<rparr>],
              ws_nextID := ws_nextID ws + 1\<rparr>))"
  by (simp add: walletsHandlerPOST_def AddWallet_def Let_def split: option.splits)

subsection \<open>Applier and reverter on concrete stores\<close>

lemmas example_defs = env0_def emptyBlock_def zeroBalance_def store0_def revertCreatedSF_def
  applySpentSF_def sfUtxo10_def utxo100_def

lemmas model_defs = ApplyChainUpdates_def RevertChainUpdate_def applyUpdate_def applyFlush_def
  revertFlush_def andThen_def applySiacoinElement_def applySiafundElement_def
  revertSiacoinElement_def revertSiafundElement_def updateBalance_def refreshProofs_def
  ephemeralOf_def ephemeralTxn_def mem_apply_tx_def mem_revert_tx_def mem_update_tx_def
  addCurrency_def subCurrency_def Currency_Add_def Currency_Sub_def sce_ID_def sfe_ID_def
  failRelevant_def failBalance_def Let_def

lemma u64_minus_10: "(- 10 :: u64) = 18446744073709551606"
  by (simp add: word_unat_eq_iff)

lemma revert_wraps_siafunds:
  "RevertChainUpdate env0 mem_revert_tx revertCreatedSF store0 =
     (Ok (), store0\<lparr>ms_balances := (\<lambda>a. zeroBalance)
                       (7 := \<lparr>Siacoins = 0, ImmatureSiacoins = 0, Siafunds = 18446744073709551606\<rparr>)\<rparr>)"
  by (simp add: model_defs example_defs u64_minus_10)

lemma apply_panics_siafunds:
  "ApplyChainUpdates env0 mem_apply_tx [applySpentSF] store0 =
     (Panic (Err ''negative siafund balance''), store0)"
  by (simp add: model_defs example_defs)

lemma apply_drops_siafund_error:
  "ApplyChainUpdates env0 (failRelevant 7 (Err ''database is locked'') mem_apply_tx)
     [applyCreatedSF] store0 = (Ok (), store0)"
  by (simp add: model_defs example_defs applyCreatedSF_def)

lemma apply_returns_siacoin_error:
  "ApplyChainUpdates env0 (failRelevant 7 (Err ''database is locked'') mem_apply_tx)
     [applyCreatedSC] store0 =
   (Fail (Wrap ''failed to add siacoin elements''
           (Wrap ''failed to check if address is relevant'' (Err ''database is locked''))), store0)"
  by (simp add: model_defs example_defs applyCreatedSC_def)

lemma revert_drops_siafund_error:
  "RevertChainUpdate env0 (failRelevant 7 (Err ''database is locked'') mem_revert_tx)
     revertCreatedSF store0 = (Ok (), store0)"
  by (simp add: model_defs example_defs)

lemma apply_drops_balance_error:
  "ApplyChainUpdates env0 (failBalance 7 (Err ''database is locked'') mem_apply_tx)
     [applyCreatedSF] store0 = (Ok (), store0\<lparr>ms_siafundElements := [sfUtxo10]\<rparr>)"
  by (simp add: model_defs example_defs applyCreatedSF_def)

lemma apply_empty_block:
  "ApplyChainUpdates env0 mem_apply_tx [applyEmpty] store1 = (Ok (), store1_applied)"
  by (simp add: model_defs example_defs store1_def applyEmpty_def store1_applied_def)

lemma revert_empty_block:
  "RevertChainUpdate env0 mem_revert_tx revertEmpty store1_applied = (Ok (), store1_applied)"
  by (simp add: model_defs example_defs store1_def revertEmpty_def store1_applied_def)

lemma store1_applied_differs: "store1_applied \<noteq> store1"
proof
  assume "store1_applied = store1"
  then have "ms_siacoinElements store1_applied = ms_siacoinElements store1" by simp
  then show False by (simp add: store1_applied_def store1_def utxo100_def)
qed

lemma v2_output_is_ephemeral: "ephemeralOutput env0 v2Block 500"
  by (simp add: ephemeralOutput_def createdInBlock_def spentInBlock_def v2Block_def env0_def)

lemma apply_v2_changes_balance:
  "ApplyChainUpdates env0 mem_apply_tx [applyV2] store1 =
     (Ok (), store1\<lparr>ms_balances := (ms_balances store1)
                       (7 := \<lparr>Siacoins = 70, ImmatureSiacoins = 0, Siafunds = 0\<rparr>)\<rparr>)"
  by (simp add: model_defs example_defs store1_def applyV2_def v2Block_def ephemeral30_def)

subsection \<open>Ephemeral outputs\<close>

lemma fold_mark: "fold (\<lambda>i c. c(f i := True)) is c x = (c x \<or> (\<exists>i \<in> set is. f i = x))"
  by (induction "is" arbitrary: c) auto

lemma fold_inputs:
  "fold (\<lambda>input m. m(p input := cr (p input))) ins m x = (if x \<in> p ` set ins then cr x else m x)"
  by (induction ins arbitrary: m) auto

lemma ephemeralTxn_created:
  "fst (ephemeralTxn e txn (c, m)) x = (c x \<or> createdBy e txn x)"
  by (auto simp: ephemeralTxn_def Let_def fold_mark createdBy_def)

lemma ephemeralTxn_ephemeral:
  "c x \<Longrightarrow> snd (ephemeralTxn e txn (c, m)) x = (spentBy txn x \<or> m x)"
  by (simp only: ephemeralTxn_def Let_def prod.case snd_conv fold_inputs)
    (auto simp: fold_mark spentBy_def)

lemma fold_ephemeral_created:
  "fst (fold (ephemeralTxn e) txns cm) x = (fst cm x \<or> (\<exists>t \<in> set txns. createdBy e t x))"
proof (induction txns arbitrary: cm)
  case Nil
  then show ?case by simp
next
  case (Cons t txns)
  obtain c m where cm: "cm = (c, m)" by (cases cm)
  show ?case unfolding cm using Cons.IH [of "ephemeralTxn e t (c, m)"]
    by (auto simp: ephemeralTxn_created)
qed

lemma fold_ephemeral_keeps:
  "fst cm x \<Longrightarrow> snd cm x \<Longrightarrow> snd (fold (ephemeralTxn e) txns cm) x"
proof (induction txns arbitrary: cm)
  case Nil
  then show ?case by simp
next
  case (Cons t txns)
  obtain c m where cm: "cm = (c, m)" by (cases cm)
  from Cons.prems cm have c: "c x" and m: "m x" by simp_all
  have "fst (ephemeralTxn e t (c, m)) x" using c by (simp add: ephemeralTxn_created)
  moreover have "snd (ephemeralTxn e t (c, m)) x" using c m by (simp add: ephemeralTxn_ephemeral)
  ultimately show ?case unfolding cm using Cons.IH by simp
qed

lemma fold_ephemeral_spent:
  "fst cm x \<Longrightarrow> \<exists>t \<in> set txns. spentBy t x \<Longrightarrow> snd (fold (ephemeralTxn e) txns cm) x"
proof (induction txns arbitrary: cm)
  case Nil
  then show ?case by simp
next
  case (Cons t txns)
  obtain c m where cm: "cm = (c, m)" by (cases cm)
  from Cons.prems cm have c: "c x" by simp
  have c': "fst (ephemeralTxn e t (c, m)) x" using c by (simp add: ephemeralTxn_created)
  show ?case
  proof (cases "spentBy t x")
    case True
    then have "snd (ephemeralTxn e t (c, m)) x" using c by (simp add: ephemeralTxn_ephemeral)
    with c' show ?thesis unfolding cm by (simp add: fold_ephemeral_keeps)
  next
    case False
    with Cons.prems(2) have "\<exists>t \<in> set txns. spentBy t x" by simp
    with c' show ?thesis unfolding cm using Cons.IH by simp
  qed
qed

lemma v1Ephemeral_detected:
  assumes "v1Ephemeral e b x"
  shows "ephemeralOf e b x"
proof -
  from assms obtain i j where ij: "i < j" "j < length (Transactions b)"
    "createdBy e (Transactions b ! i) x" "spentBy (Transactions b ! j) x"
    unfolding v1Ephemeral_def by blast
  let ?ts = "Transactions b"
  let ?pre = "take (Suc i) ?ts" and ?post = "drop (Suc i) ?ts"
  have split: "?ts = ?pre @ ?post" by simp
  have "?ts ! i \<in> set ?pre" using ij(1,2) by (simp add: take_Suc_conv_app_nth)
  with ij(3) have cr: "fst (fold (ephemeralTxn e) ?pre (\<lambda>_. False, \<lambda>_. False)) x"
    by (auto simp: fold_ephemeral_created)
  have "?ts ! j \<in> set ?post"
  proof -
    have "?post ! (j - Suc i) = ?ts ! j" using ij(1,2) by simp
    moreover have "j - Suc i < length ?post" using ij(1,2) by simp
    ultimately show ?thesis by (metis nth_mem)
  qed
  with ij(4) have sp: "\<exists>t \<in> set ?post. spentBy t x" by blast
  have "fold (ephemeralTxn e) ?ts (\<lambda>_. False, \<lambda>_. False) =
        fold (ephemeralTxn e) ?post (fold (ephemeralTxn e) ?pre (\<lambda>_. False, \<lambda>_. False))"
    by (subst split) (simp only: fold_append comp_apply)
  with fold_ephemeral_spent [OF cr sp] show ?thesis by (simp add: ephemeralOf_def)
qed

lemma ephemeralOf_events [simp]:
  "ephemeralOf (e\<lparr>AppliedEvents := f\<rparr>) b = ephemeralOf e b"
  by (simp add: ephemeralOf_def ephemeralTxn_def [abs_def])

lemma forEachElement_skip:
  assumes "\<And>a st. skip a \<Longrightarrow> fn a st = Ok (st, None)"
  shows "forEachElement fn xs st = forEachElement fn (filter (\<lambda>a. \<not> skip a) xs) st"
proof (induction xs arbitrary: st)
  case Nil
  then show ?case by simp
next
  case (Cons a xs)
  show ?case
  proof (cases "skip a")
    case True
    then show ?thesis using assms [OF True] Cons.IH by simp
  next
    case False
    then show ?thesis using Cons.IH
      by (auto split: res.splits prod.splits option.splits)
  qed
qed

lemma forEachElement_skip_or_error:
  assumes "\<And>a st. skip a \<Longrightarrow> fn a st = Ok (st, None) \<or> (\<exists>err. fn a st = Ok (st, Some err))"
  shows "forEachElement fn xs st = forEachElement fn (filter (\<lambda>a. \<not> skip a) xs) st \<or>
         (\<exists>st' err. forEachElement fn xs st = Ok (st', Some err))"
proof (induction xs arbitrary: st)
  case Nil
  then show ?case by simp
next
  case (Cons a xs)
  show ?case
  proof (cases "skip a")
    case True
    from assms [OF True, of st] show ?thesis
    proof
      assume "fn a st = Ok (st, None)"
      then show ?thesis using True Cons.IH [of st] by simp
    next
      assume "\<exists>err. fn a st = Ok (st, Some err)"
      then show ?thesis by auto
    qed
  next
    case False
    show ?thesis
    proof (cases "fn a st")
      case (Ok r)
      obtain st' eo where r: "r = (st', eo)" by (cases r)
      show ?thesis
      proof (cases eo)
        case None
        with Ok r False Cons.IH [of st'] show ?thesis by simp
      next
        case (Some err)
        with Ok r False show ?thesis by simp
      qed
    next
      case (Fail err)
      with False show ?thesis by simp
    next
      case (Panic p)
      with False show ?thesis by simp
    qed
  qed
qed

lemma applySiacoinElement_ephemeral:
  "eph (sce_ID (fst el)) \<Longrightarrow> applySiacoinElement tx s h eph el st = Ok (st, None)"
  by (cases el) (simp add: applySiacoinElement_def)

lemma applySiafundElement_ephemeral:
  "eph (sfe_ID (fst el)) \<Longrightarrow> applySiafundElement tx s eph el st = Ok (st, None)"
  by (cases el) (simp add: applySiafundElement_def)

lemma revertSiacoinElement_ephemeral:
  "eph (sce_ID (fst el)) \<Longrightarrow>
   revertSiacoinElement tx s h eph el st = Ok (st, None) \<or>
   (\<exists>err. revertSiacoinElement tx s h eph el st = Ok (st, Some err))"
  by (cases el) (auto simp: revertSiacoinElement_def split: sum.splits)

lemma revertSiafundElement_ephemeral:
  "eph (sfe_ID (fst el)) \<Longrightarrow> revertSiafundElement tx s eph el st = Ok (st, None)"
  by (cases el) (auto simp: revertSiafundElement_def split: sum.splits)

lemma applyUpdate_without:
  assumes "ephemeralOf e (au_Block cau) x"
  shows "applyUpdate e tx s cau st =
         applyUpdate (e\<lparr>AppliedEvents := \<lambda>u. AppliedEvents e cau\<rparr>) tx s (withoutElement x cau) st"
proof -
  have A: "\<And>st'. forEachElement
             (applySiacoinElement tx s (ci_Height (au_Index cau)) (ephemeralOf e (au_Block cau)))
             (au_SiacoinElements cau) st' =
           forEachElement
             (applySiacoinElement tx s (ci_Height (au_Index cau)) (ephemeralOf e (au_Block cau)))
             (filter (\<lambda>el. sce_ID (fst el) \<noteq> x) (au_SiacoinElements cau)) st'"
    by (rule forEachElement_skip [where skip = "\<lambda>el. sce_ID (fst el) = x"])
       (simp add: applySiacoinElement_ephemeral assms)
  have B: "\<And>st'. forEachElement
             (applySiafundElement tx s (ephemeralOf e (au_Block cau)))
             (au_SiafundElements cau) st' =
           forEachElement
             (applySiafundElement tx s (ephemeralOf e (au_Block cau)))
             (filter (\<lambda>el. sfe_ID (fst el) \<noteq> x) (au_SiafundElements cau)) st'"
    by (rule forEachElement_skip [where skip = "\<lambda>el. sfe_ID (fst el) = x"])
       (simp add: applySiafundElement_ephemeral assms)
  show ?thesis
    by (simp add: applyUpdate_def withoutElement_def A B
        cong: sum.case_cong res.case_cong prod.case_cong option.case_cong)
qed

lemma ApplyChainUpdates_without:
  assumes "ephemeralOf e (au_Block cau) x"
  shows "ApplyChainUpdates e tx [cau] s =
         ApplyChainUpdates (e\<lparr>AppliedEvents := \<lambda>u. AppliedEvents e cau\<rparr>) tx [withoutElement x cau] s"
  by (simp add: ApplyChainUpdates_def applyUpdate_without [OF assms]
      cong: sum.case_cong res.case_cong)

lemma RevertChainUpdate_without:
  assumes "ephemeralOf e (ru_Block cru) x"
  shows "RevertChainUpdate e tx cru s = RevertChainUpdate e tx (withoutElementR x cru) s \<or>
         (\<exists>err. RevertChainUpdate e tx cru s = (Fail err, s))"
proof -
  let ?idx = "\<lparr>ci_Height = ci_Height (ru_Index cru) + 1, ci_ID = BlockID e (ru_Block cru)\<rparr>"
  let ?f = "revertSiacoinElement tx s (ci_Height (ru_Index cru)) (ephemeralOf e (ru_Block cru))"
  let ?g = "revertSiafundElement tx s (ephemeralOf e (ru_Block cru))"
  have B: "\<And>st'. forEachElement ?g (ru_SiafundElements cru) st' =
           forEachElement ?g (filter (\<lambda>el. sfe_ID (fst el) \<noteq> x) (ru_SiafundElements cru)) st'"
    by (rule forEachElement_skip [where skip = "\<lambda>el. sfe_ID (fst el) = x"])
       (simp add: revertSiafundElement_ephemeral assms)
  show ?thesis
  proof (cases "MaturedSiacoinElements tx ?idx s")
    case (Inl err)
    then show ?thesis by (simp add: RevertChainUpdate_def withoutElementR_def Let_def)
  next
    case (Inr matured)
    show ?thesis
    proof (cases "revertMatured tx s matured []")
      case (Fail err)
      with Inr show ?thesis by (simp add: RevertChainUpdate_def withoutElementR_def Let_def)
    next
      case (Panic p)
      with Inr show ?thesis by (simp add: RevertChainUpdate_def withoutElementR_def Let_def)
    next
      case (Ok bal)
      let ?st0 = "\<lparr>rbalances = bal, deletedSiacoinElements = [], addedSiacoinElements = [],
                   deletedSiafundElements = [], addedSiafundElements = []\<rparr>"
      have "forEachElement ?f (ru_SiacoinElements cru) ?st0 =
              forEachElement ?f (filter (\<lambda>el. sce_ID (fst el) \<noteq> x) (ru_SiacoinElements cru)) ?st0 \<or>
            (\<exists>st' err. forEachElement ?f (ru_SiacoinElements cru) ?st0 = Ok (st', Some err))"
        by (rule forEachElement_skip_or_error [where skip = "\<lambda>el. sce_ID (fst el) = x"])
           (simp add: revertSiacoinElement_ephemeral assms)
      then show ?thesis
      proof
        assume A: "forEachElement ?f (ru_SiacoinElements cru) ?st0 =
              forEachElement ?f (filter (\<lambda>el. sce_ID (fst el) \<noteq> x) (ru_SiacoinElements cru)) ?st0"
        have "RevertChainUpdate e tx cru s = RevertChainUpdate e tx (withoutElementR x cru) s"
          using Inr Ok by (simp add: RevertChainUpdate_def withoutElementR_def Let_def A B
              cong: sum.case_cong res.case_cong prod.case_cong option.case_cong)
        then show ?thesis ..
      next
        assume "\<exists>st' err. forEachElement ?f (ru_SiacoinElements cru) ?st0 = Ok (st', Some err)"
        then obtain st' err where "forEachElement ?f (ru_SiacoinElements cru) ?st0 = Ok (st', Some err)"
          by blast
        with Inr Ok have "RevertChainUpdate e tx cru s =
            (Fail (Wrap ''failed to update address balance'' err), s)"
          by (simp add: RevertChainUpdate_def Let_def)
        then show ?thesis by blast
      qed
    qed
  qed
qed

text \<open>
  C6, as amended. An output that a v1 transaction of the block creates and a later v1
  transaction of the same block spends never touches the store: the applier treats the
  update exactly as the update without the output's elements (the events of the block
  held fixed), for the loop body and so for a call on the block; the reverter either
  treats its update as the one without the output's elements, or returns an error
  without any write. The detection walks the v1 transactions of the block only.
\<close>

theorem C6_v1_ephemeral_skipped:
  assumes "v1Ephemeral e (au_Block cau) x" and "v1Ephemeral e (ru_Block cru) x"
  shows "applyUpdate e tx s cau st =
           applyUpdate (e\<lparr>AppliedEvents := \<lambda>u. AppliedEvents e cau\<rparr>) tx s (withoutElement x cau) st \<and>
         ApplyChainUpdates e atx [cau] sa =
           ApplyChainUpdates (e\<lparr>AppliedEvents := \<lambda>u. AppliedEvents e cau\<rparr>) atx
             [withoutElement x cau] sa \<and>
         (RevertChainUpdate e rtx cru sr = RevertChainUpdate e rtx (withoutElementR x cru) sr \<or>
          (\<exists>err. RevertChainUpdate e rtx cru sr = (Fail err, sr)))"
proof (intro conjI)
  from assms(1) have a: "ephemeralOf e (au_Block cau) x" by (rule v1Ephemeral_detected)
  from assms(2) have r: "ephemeralOf e (ru_Block cru) x" by (rule v1Ephemeral_detected)
  show "applyUpdate e tx s cau st =
          applyUpdate (e\<lparr>AppliedEvents := \<lambda>u. AppliedEvents e cau\<rparr>) tx s (withoutElement x cau) st"
    by (rule applyUpdate_without [OF a])
  show "ApplyChainUpdates e atx [cau] sa =
          ApplyChainUpdates (e\<lparr>AppliedEvents := \<lambda>u. AppliedEvents e cau\<rparr>) atx
            [withoutElement x cau] sa"
    by (rule ApplyChainUpdates_without [OF a])
  show "RevertChainUpdate e rtx cru sr = RevertChainUpdate e rtx (withoutElementR x cru) sr \<or>
        (\<exists>err. RevertChainUpdate e rtx cru sr = (Fail err, sr))"
    by (rule RevertChainUpdate_without [OF r])
qed

subsection \<open>The flush of the applier\<close>

lemma logged_reads [simp]:
  "SiacoinStateElements (logged tx) sl = SiacoinStateElements tx (fst sl)"
  "SiafundStateElements (logged tx) sl = SiafundStateElements tx (fst sl)"
  "MaturedSiacoinElements (logged tx) index sl = MaturedSiacoinElements tx index (fst sl)"
  "AddressRelevant (logged tx) addr sl = AddressRelevant tx addr (fst sl)"
  "AddressBalance (logged tx) addr sl = AddressBalance tx addr (fst sl)"
  by (simp_all add: logged_def)

lemma logged_writes:
  "UpdateBalances (logged tx) l = logWrite (CallUpdateBalances l) (UpdateBalances tx l)"
  "AddSiacoinElements (logged tx) l1 = logWrite (CallAddSiacoinElements l1) (AddSiacoinElements tx l1)"
  "RemoveSiacoinElements (logged tx) l2 =
     logWrite (CallRemoveSiacoinElements l2) (RemoveSiacoinElements tx l2)"
  "AddSiafundElements (logged tx) l3 = logWrite (CallAddSiafundElements l3) (AddSiafundElements tx l3)"
  "RemoveSiafundElements (logged tx) l4 =
     logWrite (CallRemoveSiafundElements l4) (RemoveSiafundElements tx l4)"
  "AddEvents (logged tx) l5 = logWrite (CallAddEvents l5) (AddEvents tx l5)"
  "UpdateSiacoinStateElements (logged tx) l6 =
     logWrite (CallUpdateSiacoinStateElements l6) (UpdateSiacoinStateElements tx l6)"
  "UpdateSiafundStateElements (logged tx) l6 =
     logWrite (CallUpdateSiafundStateElements l6) (UpdateSiafundStateElements tx l6)"
  by (simp_all add: logged_def)

lemma updateBalance_logged:
  "updateBalance (logged tx) sl = updateBalance tx (fst sl)"
  by (intro ext) (simp add: updateBalance_def cong: option.case_cong sum.case_cong res.case_cong prod.case_cong if_cong)

lemma applyMatured_logged:
  "applyMatured (logged tx) sl matured bal = applyMatured tx (fst sl) matured bal"
  by (induction matured arbitrary: bal) (simp_all add: updateBalance_logged cong: res.case_cong)

lemma applySiacoinElement_logged:
  "applySiacoinElement (logged tx) sl = applySiacoinElement tx (fst sl)"
  by (intro ext) (simp add: applySiacoinElement_def updateBalance_logged Let_def
      cong: option.case_cong sum.case_cong res.case_cong prod.case_cong if_cong)

lemma applySiafundElement_logged:
  "applySiafundElement (logged tx) sl = applySiafundElement tx (fst sl)"
  by (intro ext) (simp add: applySiafundElement_def updateBalance_logged Let_def
      cong: option.case_cong sum.case_cong res.case_cong prod.case_cong if_cong)

lemma applyUpdate_logged:
  "applyUpdate e (logged tx) sl cau st = applyUpdate e tx (fst sl) cau st"
  by (simp add: applyUpdate_def applyMatured_logged applySiacoinElement_logged
      applySiafundElement_logged cong: option.case_cong sum.case_cong res.case_cong prod.case_cong if_cong)

lemma applyUpdates_logged:
  "applyUpdates e (logged tx) sl updates st = applyUpdates e tx (fst sl) updates st"
  by (induction updates arbitrary: st) (simp_all add: applyUpdate_logged cong: res.case_cong)

lemma andThen_logWrite:
  "andThen (logWrite c w (s, log)) msg k =
     (case w s of
        (Some err, s') \<Rightarrow> (Fail (Wrap msg err), s', log @ [c])
      | (None, s') \<Rightarrow> k (s', log @ [c]))"
  by (simp add: andThen_def logWrite_def split: prod.splits option.splits)

lemma flush_filter:
  "filter (\<lambda>se. map_of al (se_ID se) = None) xs = filter (\<lambda>se. se_ID se \<notin> set (map fst al)) xs"
  by (simp add: map_of_eq_None_iff)

lemma applyFlush_logged:
  assumes "applyFlush (logged tx) st (s, []) = (r, s', log)"
  shows "prefix log (flushCalls st) \<and> (r = Ok () \<longrightarrow> log = flushCalls st)"
  using assms
  unfolding applyFlush_def logged_writes andThen_logWrite flushCalls_def flush_filter
  by (auto split: prod.splits option.splits)

lemma forEachElement_preserves:
  assumes "\<And>a st st' eo. fn a st = Ok (st', eo) \<Longrightarrow> P st \<Longrightarrow> P st'"
  shows "forEachElement fn xs st = Ok (st', eo) \<Longrightarrow> P st \<Longrightarrow> P st'"
proof (induction xs arbitrary: st)
  case Nil
  then show ?case by simp
next
  case (Cons a xs)
  show ?case
  proof (cases "fn a st")
    case (Ok r)
    obtain st1 eo1 where r: "r = (st1, eo1)" by (cases r)
    from assms [OF Ok [unfolded r] Cons.prems(2)] have P1: "P st1" .
    show ?thesis
    proof (cases eo1)
      case None
      with Ok r Cons.prems(1) have "forEachElement fn xs st1 = Ok (st', eo)" by simp
      from Cons.IH [OF this P1] show ?thesis .
    next
      case (Some err)
      with Ok r Cons.prems(1) have "st' = st1" by simp
      with P1 show ?thesis by simp
    qed
  next
    case (Fail err)
    with Cons.prems(1) show ?thesis by simp
  next
    case (Panic p)
    with Cons.prems(1) show ?thesis by simp
  qed
qed

lemma applySiacoinElement_state_elements:
  "applySiacoinElement tx s h eph a st = Ok (st', eo) \<Longrightarrow>
   siacoinStateElements st = L \<and> siafundStateElements st = M \<Longrightarrow>
   siacoinStateElements st' = L \<and> siafundStateElements st' = M"
  by (cases a)
     (auto simp: applySiacoinElement_def Let_def split: if_splits sum.splits res.splits)

lemma applySiafundElement_state_elements:
  "applySiafundElement tx s eph a st = Ok (st', eo) \<Longrightarrow>
   siacoinStateElements st = L \<and> siafundStateElements st = M \<Longrightarrow>
   siacoinStateElements st' = L \<and> siafundStateElements st' = M"
  by (cases a)
     (auto simp: applySiafundElement_def Let_def split: if_splits sum.splits res.splits)

lemma applyUpdate_state_elements:
  assumes "applyUpdate e tx s cau st = Ok st'"
  shows "siacoinStateElements st' = map (au_UpdateElementProof cau) (siacoinStateElements st) \<and>
         siafundStateElements st' = map (au_UpdateElementProof cau) (siafundStateElements st)"
proof -
  let ?P = "\<lambda>x. siacoinStateElements x = siacoinStateElements st \<and>
                 siafundStateElements x = siafundStateElements st"
  from assms obtain matured bal st2 st3 eo evs where
    l1: "forEachElement
           (applySiacoinElement tx s (ci_Height (au_Index cau)) (ephemeralOf e (au_Block cau)))
           (au_SiacoinElements cau) (st\<lparr>balances := bal\<rparr>) = Ok (st2, None)" and
    l2: "forEachElement (applySiafundElement tx s (ephemeralOf e (au_Block cau)))
           (au_SiafundElements cau) st2 = Ok (st3, eo)" and
    st': "st' = refreshProofs (au_UpdateElementProof cau) (st3\<lparr>events := events st3 @ evs\<rparr>)"
    by (auto simp: applyUpdate_def split: sum.splits res.splits prod.splits option.splits)
  have "?P (st\<lparr>balances := bal\<rparr>)" by simp
  with l1 have "?P st2"
    by (rule forEachElement_preserves [where P = ?P, rotated])
       (rule applySiacoinElement_state_elements)
  with l2 have "?P st3"
    by (rule forEachElement_preserves [where P = ?P, rotated])
       (rule applySiafundElement_state_elements)
  then show ?thesis by (simp add: st' refreshProofs_def)
qed

lemma applyUpdates_state_elements:
  "applyUpdates e tx s updates st = Ok st' \<Longrightarrow>
   siacoinStateElements st' =
     fold (\<lambda>cau. map (au_UpdateElementProof cau)) updates (siacoinStateElements st) \<and>
   siafundStateElements st' =
     fold (\<lambda>cau. map (au_UpdateElementProof cau)) updates (siafundStateElements st)"
proof (induction updates arbitrary: st)
  case Nil
  then show ?case by simp
next
  case (Cons cau updates)
  from Cons.prems obtain st1 where s1: "applyUpdate e tx s cau st = Ok st1"
    and rest: "applyUpdates e tx s updates st1 = Ok st'"
    by (auto split: res.splits)
  from Cons.IH [OF rest] applyUpdate_state_elements [OF s1] show ?case by simp
qed

lemma prefix_take: "prefix xs ys \<Longrightarrow> xs = take (length xs) ys"
  by (auto simp: prefix_def)

lemma callName_flushCalls: "map callName (flushCalls st) = flushOrder"
  by (simp add: flushCalls_def flushOrder_def)

lemma ApplyChainUpdates_logged:
  assumes "ApplyChainUpdates e (logged tx) updates (s, []) = (r, s', log)"
  shows "(log = [] \<and> r \<noteq> Ok ()) \<or>
         (\<exists>sces sfes st.
            SiacoinStateElements tx s = Inr sces \<and> SiafundStateElements tx s = Inr sfes \<and>
            siacoinStateElements st = fold (\<lambda>cau. map (au_UpdateElementProof cau)) updates sces \<and>
            siafundStateElements st = fold (\<lambda>cau. map (au_UpdateElementProof cau)) updates sfes \<and>
            prefix log (flushCalls st) \<and> (r = Ok () \<longrightarrow> log = flushCalls st))"
proof (cases "SiacoinStateElements tx s")
  case (Inl err)
  with assms show ?thesis by (auto simp: ApplyChainUpdates_def)
next
  case sc: (Inr sces)
  show ?thesis
  proof (cases "SiafundStateElements tx s")
    case (Inl err)
    with sc assms show ?thesis by (auto simp: ApplyChainUpdates_def)
  next
    case sf: (Inr sfes)
    let ?init = "\<lparr>events = [], balances = [], newSiacoinElements = [], newSiafundElements = [],
                  spentSiacoinElements = [], spentSiafundElements = [],
                  siacoinStateElements = sces, siafundStateElements = sfes\<rparr>"
    show ?thesis
    proof (cases "applyUpdates e tx s updates ?init")
      case (Ok st)
      with sc sf assms have fl: "applyFlush (logged tx) st (s, []) = (r, s', log)"
        by (simp add: ApplyChainUpdates_def applyUpdates_logged)
      from applyUpdates_state_elements [OF Ok] applyFlush_logged [OF fl] sc sf
      show ?thesis by auto
    next
      case (Fail err)
      with sc sf assms show ?thesis by (auto simp: ApplyChainUpdates_def applyUpdates_logged)
    next
      case (Panic p)
      with sc sf assms show ?thesis by (auto simp: ApplyChainUpdates_def applyUpdates_logged)
    qed
  qed
qed

text \<open>
  The flush order. Run the applier on a store transaction that records its write calls.
  Whatever the outcome, the calls made are an initial segment of the fixed order:
  balances, add siacoin elements, remove siacoin elements, add siafund elements, remove
  siafund elements, events, siacoin state elements, siafund state elements; nothing is
  written before the end of the batch. When the call succeeds, all eight calls are made,
  once each, and the state-element lists written back are the lists read at the start of
  the batch, their proofs refreshed by every update, without the elements whose ids are
  in the remove call of the same flush (the ids the applier recorded as spent).
\<close>

lemma ApplyChainUpdates_flush_order:
  assumes "ApplyChainUpdates e (logged tx) updates (s, []) = (r, s', log)"
  shows "map callName log = take (length log) flushOrder \<and>
         (r = Ok () \<longrightarrow>
            (\<exists>b asc rsc asf rsf evs sces sfes.
               SiacoinStateElements tx s = Inr sces \<and> SiafundStateElements tx s = Inr sfes \<and>
               log = [CallUpdateBalances b, CallAddSiacoinElements asc, CallRemoveSiacoinElements rsc,
                      CallAddSiafundElements asf, CallRemoveSiafundElements rsf, CallAddEvents evs,
                      CallUpdateSiacoinStateElements
                        (filter (\<lambda>se. se_ID se \<notin> set rsc)
                           (fold (\<lambda>cau. map (au_UpdateElementProof cau)) updates sces)),
                      CallUpdateSiafundStateElements
                        (filter (\<lambda>se. se_ID se \<notin> set rsf)
                           (fold (\<lambda>cau. map (au_UpdateElementProof cau)) updates sfes))]))"
proof -
  from ApplyChainUpdates_logged [OF assms] show ?thesis
  proof (elim disjE exE conjE)
    assume "log = []" "r \<noteq> Ok ()"
    then show ?thesis by simp
  next
    fix sces sfes st
    assume sc: "SiacoinStateElements tx s = Inr sces" and sf: "SiafundStateElements tx s = Inr sfes"
      and e1: "siacoinStateElements st = fold (\<lambda>cau. map (au_UpdateElementProof cau)) updates sces"
      and e2: "siafundStateElements st = fold (\<lambda>cau. map (au_UpdateElementProof cau)) updates sfes"
      and p: "prefix log (flushCalls st)" and ok: "r = Ok () \<longrightarrow> log = flushCalls st"
    from prefix_take [OF p] have "map callName log = map callName (take (length log) (flushCalls st))"
      by simp
    then have order: "map callName log = take (length log) flushOrder"
      by (simp add: take_map [symmetric] callName_flushCalls del: take_map)
    have full: "r = Ok () \<longrightarrow>
            (\<exists>b asc rsc asf rsf evs sces sfes.
               SiacoinStateElements tx s = Inr sces \<and> SiafundStateElements tx s = Inr sfes \<and>
               log = [CallUpdateBalances b, CallAddSiacoinElements asc, CallRemoveSiacoinElements rsc,
                      CallAddSiafundElements asf, CallRemoveSiafundElements rsf, CallAddEvents evs,
                      CallUpdateSiacoinStateElements
                        (filter (\<lambda>se. se_ID se \<notin> set rsc)
                           (fold (\<lambda>cau. map (au_UpdateElementProof cau)) updates sces)),
                      CallUpdateSiafundStateElements
                        (filter (\<lambda>se. se_ID se \<notin> set rsf)
                           (fold (\<lambda>cau. map (au_UpdateElementProof cau)) updates sfes))])"
    proof
      assume "r = Ok ()"
      with ok have "log = flushCalls st" by simp
      then have "log = [CallUpdateBalances
                          (map (\<lambda>(addr, b). \<lparr>ab_Address = addr, ab_Balance = b\<rparr>) (balances st)),
                      CallAddSiacoinElements (map snd (newSiacoinElements st)),
                      CallRemoveSiacoinElements (map fst (spentSiacoinElements st)),
                      CallAddSiafundElements (map snd (newSiafundElements st)),
                      CallRemoveSiafundElements (map fst (spentSiafundElements st)),
                      CallAddEvents (events st),
                      CallUpdateSiacoinStateElements
                        (filter (\<lambda>se. se_ID se \<notin> set (map fst (spentSiacoinElements st)))
                           (fold (\<lambda>cau. map (au_UpdateElementProof cau)) updates sces)),
                      CallUpdateSiafundStateElements
                        (filter (\<lambda>se. se_ID se \<notin> set (map fst (spentSiafundElements st)))
                           (fold (\<lambda>cau. map (au_UpdateElementProof cau)) updates sfes))]"
        by (simp add: flushCalls_def e1 e2)
      with sc sf show "\<exists>b asc rsc asf rsf evs sces sfes.
               SiacoinStateElements tx s = Inr sces \<and> SiafundStateElements tx s = Inr sfes \<and>
               log = [CallUpdateBalances b, CallAddSiacoinElements asc, CallRemoveSiacoinElements rsc,
                      CallAddSiafundElements asf, CallRemoveSiafundElements rsf, CallAddEvents evs,
                      CallUpdateSiacoinStateElements
                        (filter (\<lambda>se. se_ID se \<notin> set rsc)
                           (fold (\<lambda>cau. map (au_UpdateElementProof cau)) updates sces)),
                      CallUpdateSiafundStateElements
                        (filter (\<lambda>se. se_ID se \<notin> set rsf)
                           (fold (\<lambda>cau. map (au_UpdateElementProof cau)) updates sfes))]"
        by blast
    qed
    from order full show ?thesis by (rule conjI)
  qed
qed

subsection \<open>Witnesses and failing inputs\<close>

lemma logged_example:
  "ApplyChainUpdates env0 (logged mem_apply_tx) [applyCreatedSC] (store0, []) =
     (Ok (), store1,
      [CallUpdateBalances
         [\<lparr>ab_Address = 7, ab_Balance = \<lparr>Siacoins = 100, ImmatureSiacoins = 0, Siafunds = 0\<rparr>\<rparr>],
       CallAddSiacoinElements [utxo100], CallRemoveSiacoinElements [],
       CallAddSiafundElements [], CallRemoveSiafundElements [], CallAddEvents [],
       CallUpdateSiacoinStateElements [], CallUpdateSiafundStateElements []])"
  by (simp add: model_defs example_defs applyCreatedSC_def store1_def logged_def logWrite_def)

lemma flush_order_example:
  "ApplyChainUpdates env0 (logged mem_apply_tx) [applyCreatedSC] (store0, []) =
     (Ok (), store1,
      [CallUpdateBalances
         [\<lparr>ab_Address = 7, ab_Balance = \<lparr>Siacoins = 100, ImmatureSiacoins = 0, Siafunds = 0\<rparr>\<rparr>],
       CallAddSiacoinElements [utxo100], CallRemoveSiacoinElements [],
       CallAddSiafundElements [], CallRemoveSiafundElements [], CallAddEvents [],
       CallUpdateSiacoinStateElements [], CallUpdateSiafundStateElements []]) \<and>
   map callName
     [CallUpdateBalances
         [\<lparr>ab_Address = 7, ab_Balance = \<lparr>Siacoins = 100, ImmatureSiacoins = 0, Siafunds = 0\<rparr>\<rparr>],
       CallAddSiacoinElements [utxo100], CallRemoveSiacoinElements [],
       CallAddSiafundElements [], CallRemoveSiafundElements [], CallAddEvents [],
       CallUpdateSiacoinStateElements [], CallUpdateSiafundStateElements []] =
   flushOrder \<and>
   (\<exists>b asc rsc asf rsf evs sces sfes.
      SiacoinStateElements mem_apply_tx store0 = Inr sces \<and>
      SiafundStateElements mem_apply_tx store0 = Inr sfes \<and>
      [CallUpdateBalances
         [\<lparr>ab_Address = 7, ab_Balance = \<lparr>Siacoins = 100, ImmatureSiacoins = 0, Siafunds = 0\<rparr>\<rparr>],
       CallAddSiacoinElements [utxo100], CallRemoveSiacoinElements [],
       CallAddSiafundElements [], CallRemoveSiafundElements [], CallAddEvents [],
       CallUpdateSiacoinStateElements [], CallUpdateSiafundStateElements []] =
      [CallUpdateBalances b, CallAddSiacoinElements asc, CallRemoveSiacoinElements rsc,
       CallAddSiafundElements asf, CallRemoveSiafundElements rsf, CallAddEvents evs,
       CallUpdateSiacoinStateElements
         (filter (\<lambda>se. se_ID se \<notin> set rsc)
            (fold (\<lambda>cau. map (au_UpdateElementProof cau)) [applyCreatedSC] sces)),
       CallUpdateSiafundStateElements
         (filter (\<lambda>se. se_ID se \<notin> set rsf)
            (fold (\<lambda>cau. map (au_UpdateElementProof cau)) [applyCreatedSC] sfes))])"
proof -
  from ApplyChainUpdates_flush_order [OF logged_example, THEN conjunct1]
  have a: "map callName
     [CallUpdateBalances
         [\<lparr>ab_Address = 7, ab_Balance = \<lparr>Siacoins = 100, ImmatureSiacoins = 0, Siafunds = 0\<rparr>\<rparr>],
       CallAddSiacoinElements [utxo100], CallRemoveSiacoinElements [],
       CallAddSiafundElements [], CallRemoveSiafundElements [], CallAddEvents [],
       CallUpdateSiacoinStateElements [], CallUpdateSiafundStateElements []] =
   flushOrder"
    by (simp add: flushOrder_def)
  from ApplyChainUpdates_flush_order [OF logged_example, THEN conjunct2, THEN mp, OF refl]
  have b: "(\<exists>b asc rsc asf rsf evs sces sfes.
      SiacoinStateElements mem_apply_tx store0 = Inr sces \<and>
      SiafundStateElements mem_apply_tx store0 = Inr sfes \<and>
      [CallUpdateBalances
         [\<lparr>ab_Address = 7, ab_Balance = \<lparr>Siacoins = 100, ImmatureSiacoins = 0, Siafunds = 0\<rparr>\<rparr>],
       CallAddSiacoinElements [utxo100], CallRemoveSiacoinElements [],
       CallAddSiafundElements [], CallRemoveSiafundElements [], CallAddEvents [],
       CallUpdateSiacoinStateElements [], CallUpdateSiafundStateElements []] =
      [CallUpdateBalances b, CallAddSiacoinElements asc, CallRemoveSiacoinElements rsc,
       CallAddSiafundElements asf, CallRemoveSiafundElements rsf, CallAddEvents evs,
       CallUpdateSiacoinStateElements
         (filter (\<lambda>se. se_ID se \<notin> set rsc)
            (fold (\<lambda>cau. map (au_UpdateElementProof cau)) [applyCreatedSC] sces)),
       CallUpdateSiafundStateElements
         (filter (\<lambda>se. se_ID se \<notin> set rsf)
            (fold (\<lambda>cau. map (au_UpdateElementProof cau)) [applyCreatedSC] sfes))])" .
  from logged_example a b show ?thesis by (intro conjI)
qed

lemma v1Block_ephemeral: "v1Ephemeral env0 v1Block 300"
  unfolding v1Ephemeral_def
  by (intro exI [of _ 0] exI [of _ 1]) (simp add: v1Block_def createdBy_def spentBy_def env0_def)

lemma apply_v1_example:
  "ApplyChainUpdates env0 mem_apply_tx [applyV1] store1 = (Ok (), store1)"
  by (simp add: model_defs example_defs store1_def applyV1_def v1Block_def created30_def)

lemma revert_v1_example:
  "RevertChainUpdate env0 mem_revert_tx revertV1 store1 = (Ok (), store1)"
  by (simp add: model_defs example_defs store1_def revertV1_def v1Block_def created30_def)

theorem C6_v1_ephemeral_skipped_witness:
  "v1Ephemeral env0 (au_Block applyV1) 300 \<and> v1Ephemeral env0 (ru_Block revertV1) 300 \<and>
   ApplyChainUpdates env0 mem_apply_tx [applyV1] store1 = (Ok (), store1) \<and>
   ApplyChainUpdates (env0\<lparr>AppliedEvents := \<lambda>u. AppliedEvents env0 applyV1\<rparr>) mem_apply_tx
      [withoutElement 300 applyV1] store1 = (Ok (), store1) \<and>
   RevertChainUpdate env0 mem_revert_tx revertV1 store1 = (Ok (), store1) \<and>
   RevertChainUpdate env0 mem_revert_tx (withoutElementR 300 revertV1) store1 = (Ok (), store1)"
proof -
  have h1: "v1Ephemeral env0 (au_Block applyV1) 300"
    using v1Block_ephemeral by (simp add: applyV1_def)
  have h2: "v1Ephemeral env0 (ru_Block revertV1) 300"
    using v1Block_ephemeral by (simp add: revertV1_def)
  note t = C6_v1_ephemeral_skipped [OF h1 h2, where atx = mem_apply_tx and sa = store1
      and rtx = mem_revert_tx and sr = store1, THEN conjunct2]
  from t [THEN conjunct1] have a: "ApplyChainUpdates (env0\<lparr>AppliedEvents := \<lambda>u. AppliedEvents env0 applyV1\<rparr>)
      mem_apply_tx [withoutElement 300 applyV1] store1 = (Ok (), store1)"
    by (simp add: apply_v1_example)
  from t [THEN conjunct2]
  have "RevertChainUpdate env0 mem_revert_tx revertV1 store1 =
      RevertChainUpdate env0 mem_revert_tx (withoutElementR 300 revertV1) store1 \<or>
      (\<exists>err. RevertChainUpdate env0 mem_revert_tx revertV1 store1 = (Fail err, store1))" .
  then have r: "RevertChainUpdate env0 mem_revert_tx (withoutElementR 300 revertV1) store1 =
      (Ok (), store1)"
    by (simp add: revert_v1_example)
  from h1 h2 apply_v1_example a revert_v1_example r show ?thesis by (intro conjI)
qed

text \<open>
  C6, counterexample. The output 500 is created and spent inside the block by v2
  transactions, and the applier still acts on it: it takes the output's 30 off the
  balance of the address, which goes from 100 to 70, and it changes nothing when the
  update does not report the element.
\<close>

theorem C6_v2_ephemeral_counterexample:
  "ephemeralOutput env0 (au_Block applyV2) 500 \<and>
   Siacoins (ms_balances store1 7) = 100 \<and>
   ApplyChainUpdates env0 mem_apply_tx [applyV2] store1 =
     (Ok (), store1\<lparr>ms_balances := (ms_balances store1)
                       (7 := \<lparr>Siacoins = 70, ImmatureSiacoins = 0, Siafunds = 0\<rparr>)\<rparr>) \<and>
   ApplyChainUpdates env0 mem_apply_tx [withoutElement 500 applyV2] store1 = (Ok (), store1)"
proof (intro conjI)
  show "ephemeralOutput env0 (au_Block applyV2) 500"
    using v2_output_is_ephemeral by (simp add: applyV2_def)
  show "Siacoins (ms_balances store1 7) = 100" by (simp add: store1_def)
  show "ApplyChainUpdates env0 mem_apply_tx [applyV2] store1 =
     (Ok (), store1\<lparr>ms_balances := (ms_balances store1)
                       (7 := \<lparr>Siacoins = 70, ImmatureSiacoins = 0, Siafunds = 0\<rparr>)\<rparr>)"
    by (rule apply_v2_changes_balance)
  show "ApplyChainUpdates env0 mem_apply_tx [withoutElement 500 applyV2] store1 = (Ok (), store1)"
    by (simp add: model_defs example_defs store1_def applyV2_def v2Block_def ephemeral30_def
        withoutElement_def)
qed

text \<open>
  C1, at a failing input. The store tracks one output; an empty block is applied, whose
  update adds a hash to every proof, and then reverted, with the update that takes the
  hash off again. The applier writes the refreshed proof back; the reverter reads the
  state elements and never writes them: the store after the revert is the store after
  the apply, not the store before it, although the revert update maps the stored proofs
  back to the original ones. In general the result of the reverter does not depend on
  the update's \<^verbatim>\<open>UpdateElementProof\<close> at all.
\<close>

theorem C1_revert_does_not_restore_proofs:
  "RevertChainUpdate e tx (cru\<lparr>ru_UpdateElementProof := f\<rparr>) s = RevertChainUpdate e tx cru s \<and>
   ApplyChainUpdates env0 mem_apply_tx [applyEmpty] store1 = (Ok (), store1_applied) \<and>
   RevertChainUpdate env0 mem_revert_tx revertEmpty store1_applied = (Ok (), store1_applied) \<and>
   store1_applied \<noteq> store1 \<and>
   map (\<lambda>ele. ru_UpdateElementProof revertEmpty (sce_StateElement ele))
     (ms_siacoinElements store1_applied) = map sce_StateElement (ms_siacoinElements store1)"
proof (intro conjI)
  show "RevertChainUpdate e tx (cru\<lparr>ru_UpdateElementProof := f\<rparr>) s = RevertChainUpdate e tx cru s"
    by (simp add: RevertChainUpdate_def Let_def
        cong: sum.case_cong res.case_cong prod.case_cong option.case_cong)
  show "ApplyChainUpdates env0 mem_apply_tx [applyEmpty] store1 = (Ok (), store1_applied)"
    by (rule apply_empty_block)
  show "RevertChainUpdate env0 mem_revert_tx revertEmpty store1_applied = (Ok (), store1_applied)"
    by (rule revert_empty_block)
  show "store1_applied \<noteq> store1" by (rule store1_applied_differs)
  show "map (\<lambda>ele. ru_UpdateElementProof revertEmpty (sce_StateElement ele))
     (ms_siacoinElements store1_applied) = map sce_StateElement (ms_siacoinElements store1)"
    by (simp add: store1_applied_def store1_def revertEmpty_def utxo100_def)
qed

text \<open>
  C2, at a failing input. The address 7 is tracked with no siafunds and the block that
  created a siafund output of 10 for it is reverted: the reverter returns nil and writes
  the balance \<open>0 - 10\<close> wrapped around, \<open>2^64 - 10\<close>. The applier, asked to spend the same
  output from the same balance, panics.
\<close>

theorem C2_revert_wraps_siafunds:
  "RevertChainUpdate env0 mem_revert_tx revertCreatedSF store0 =
     (Ok (), store0\<lparr>ms_balances := (\<lambda>a. zeroBalance)
                       (7 := \<lparr>Siacoins = 0, ImmatureSiacoins = 0, Siafunds = 18446744073709551606\<rparr>)\<rparr>) \<and>
   ApplyChainUpdates env0 mem_apply_tx [applySpentSF] store0 =
     (Panic (Err ''negative siafund balance''), store0)"
  using revert_wraps_siafunds apply_panics_siafunds by (rule conjI)

text \<open>
  C3, at a failing input. The store's \<^verbatim>\<open>AddressRelevant\<close> fails on the address of a
  siafund element: the applier and the reverter both return nil. When it is
  \<^verbatim>\<open>AddressBalance\<close> that fails, the applier returns nil as well, and adds the element to
  the store without its balance. The same \<^verbatim>\<open>AddressRelevant\<close> failure on a siacoin
  element is returned by the applier, wrapped.
\<close>

theorem C3_siafund_errors_dropped:
  "ApplyChainUpdates env0 (failRelevant 7 (Err ''database is locked'') mem_apply_tx)
     [applyCreatedSF] store0 = (Ok (), store0) \<and>
   ApplyChainUpdates env0 (failBalance 7 (Err ''database is locked'') mem_apply_tx)
     [applyCreatedSF] store0 = (Ok (), store0\<lparr>ms_siafundElements := [sfUtxo10]\<rparr>) \<and>
   RevertChainUpdate env0 (failRelevant 7 (Err ''database is locked'') mem_revert_tx)
     revertCreatedSF store0 = (Ok (), store0) \<and>
   ApplyChainUpdates env0 (failRelevant 7 (Err ''database is locked'') mem_apply_tx)
     [applyCreatedSC] store0 =
   (Fail (Wrap ''failed to add siacoin elements''
           (Wrap ''failed to check if address is relevant'' (Err ''database is locked''))), store0)"
  using apply_drops_siafund_error apply_drops_balance_error revert_drops_siafund_error
    apply_returns_siacoin_error
  by (intro conjI)

text \<open>
  C7, at a failing input. The order of the flush is the one of the claim, but the
  siafund state elements written back do not exclude every element spent during the
  batch. When \<^verbatim>\<open>AddressBalance\<close> fails on the address 8, the siafund callback records the
  error on the new output and returns at once on every later element, so the spent
  output 2 is never recorded; the error is never read (the defect of C3), the applier
  returns nil, removes nothing, and writes the state element of the spent output 2
  back: the store still holds it. On the same store without the failure the output 2
  is removed and no state element is written back for it.
\<close>

theorem C7_spent_element_written_back:
  "(sfUtxo10, True) \<in> set (au_SiafundElements applyMovedSF) \<and>
   ApplyChainUpdates env0 (logged (failBalance 8 (Err ''database is locked'') mem_apply_tx))
       [applyMovedSF] (store2, []) =
     (Ok (), store2\<lparr>ms_siafundElements := [sfUtxo10, sfCreated8]\<rparr>,
      [CallUpdateBalances [], CallAddSiacoinElements [], CallRemoveSiacoinElements [],
       CallAddSiafundElements [sfCreated8], CallRemoveSiafundElements [], CallAddEvents [],
       CallUpdateSiacoinStateElements [],
       CallUpdateSiafundStateElements [sfe_StateElement sfUtxo10]]) \<and>
   ApplyChainUpdates env0 (logged mem_apply_tx) [applyMovedSF] (store2, []) =
     (Ok (),
      store2\<lparr>ms_balances := (\<lambda>a. zeroBalance)
                 (8 := \<lparr>Siacoins = 0, ImmatureSiacoins = 0, Siafunds = 10\<rparr>, 7 := zeroBalance),
             ms_siafundElements := [sfCreated8]\<rparr>,
      [CallUpdateBalances
         [\<lparr>ab_Address = 8, ab_Balance = \<lparr>Siacoins = 0, ImmatureSiacoins = 0, Siafunds = 10\<rparr>\<rparr>,
          \<lparr>ab_Address = 7, ab_Balance = zeroBalance\<rparr>],
       CallAddSiacoinElements [], CallRemoveSiacoinElements [],
       CallAddSiafundElements [sfCreated8], CallRemoveSiafundElements [2], CallAddEvents [],
       CallUpdateSiacoinStateElements [], CallUpdateSiafundStateElements []])"
  by (simp add: model_defs example_defs store2_def sfCreated8_def applyMovedSF_def logged_def
      logWrite_def)

end
